theory Spec2Isabelle
  imports Main
begin

section \<open>Exceptions, hooks and the observable trace\<close>

text \<open>
  A Python exception object is modelled by what the framework inspects of it: the method
  resolution order of its class (class names, most specific first, as \<^verbatim>\<open>type(e).__mro__\<close>
  lists them), the class attribute \<^verbatim>\<open>code\<close>, the instance attribute \<^verbatim>\<open>code\<close>, its
  arguments and the \<^verbatim>\<open>original_exception\<close> that \<^verbatim>\<open>Flask.handle_exception\<close> attaches.
\<close>

datatype exn = Exn (exn_mro: "string list") (exn_class_code: "int option")
  (exn_code: "int option") (exn_args: "string list") (original_exception: "exn option")

definition isinstance :: "exn \<Rightarrow> string \<Rightarrow> bool" where
  "isinstance e cls \<longleftrightarrow> cls \<in> set (exn_mro e)"

definition builtin_error :: "string \<Rightarrow> string \<Rightarrow> exn" where
  "builtin_error cls msg =
     Exn [cls, ''Exception'', ''BaseException'', ''object''] None None [msg] None"

definition AssertionError :: "string \<Rightarrow> exn" where
  "AssertionError msg = builtin_error ''AssertionError'' msg"

definition lookup_error :: "string \<Rightarrow> string \<Rightarrow> exn" where
  "lookup_error cls msg =
     Exn [cls, ''LookupError'', ''Exception'', ''BaseException'', ''object''] None None [msg] None"

definition IndexError :: "string \<Rightarrow> exn" where
  "IndexError msg = lookup_error ''IndexError'' msg"

definition AttributeError :: "string \<Rightarrow> exn" where
  "AttributeError msg = builtin_error ''AttributeError'' msg"

definition TypeError :: "string \<Rightarrow> exn" where
  "TypeError msg = builtin_error ''TypeError'' msg"

definition KeyError :: "string \<Rightarrow> exn" where
  "KeyError msg = lookup_error ''KeyError'' msg"

text \<open>
  The \<^verbatim>\<open>exc\<close> parameter of the pop methods: the module's \<^verbatim>\<open>_sentinel\<close> default, or a
  value the caller gave (\<^verbatim>\<open>None\<close> or an exception).
\<close>

datatype exc_arg = Sentinel | Given "exn option"

section \<open>Values, responses and the request\<close>

text \<open>
  The response object, by the attributes that response coercion sets, and the Python
  values a view can return: \<open>PResponse\<close> is an instance of the application's
  \<^verbatim>\<open>response_class\<close>, \<open>PBaseResponse\<close> a Werkzeug response of another class, \<open>PExn\<close>
  an exception object, \<open>PCallable\<close> a WSGI callable and \<open>PObject\<close> any other object,
  named by its class.
\<close>

record response =
  resp_body :: string
  resp_status :: string
  resp_status_code :: int
  resp_headers :: "(string \<times> string) list"
  resp_mimetype :: string

datatype pyval =
    PNone
  | PStr string
  | PBytes string
  | PByteArray string
  | PInt int
  | PDict "(string \<times> pyval) list"
  | PTuple "pyval list"
  | PList "pyval list"
  | PHeaders "(string \<times> string) list"
  | PResponse response
  | PBaseResponse response
  | PExn exn
  | PCallable string
  | PObject string

record url_rule =
  endpoint :: string
  provide_automatic_options :: bool

text \<open>
  \<^verbatim>\<open>wrappers.Request\<close>: the three routing attributes, the path, the method, and what the contexts
  read of the WSGI environment (the \<^verbatim>\<open>flask._preserve_context\<close> flag, whether
  \<^verbatim>\<open>werkzeug.request\<close> is still set) and whether the object has a \<^verbatim>\<open>close\<close> method.
\<close>

record request =
  url_rule :: "url_rule option"
  view_args :: "(string \<times> string) list option"
  routing_exception :: "exn option"
  req_path :: string
  req_method :: string
  preserve_context_flag :: bool
  werkzeug_request_set :: bool
  has_close :: bool

text \<open>
  The router is Werkzeug's. An adapter is bound to one request, so its \<^verbatim>\<open>match\<close> has
  one outcome: the rule and the view arguments, or a raised exception.
\<close>

datatype url_adapter = UrlAdapter (match: "exn + (url_rule \<times> (string \<times> string) list)")
  (allowed_methods: "string list")

datatype session = NullSession | Session "(string \<times> string) list"

section \<open>Callbacks and the trace\<close>

text \<open>
  A callback is a user function; the model keeps its name and its outcome, a returned
  value (\<open>Inr\<close>) or a raised exception (\<open>Inl\<close>). Callbacks are assumed not to push or
  pop contexts themselves.
\<close>

datatype teardown_func = TeardownFunc (tf_name: string) (tf_outcome: "exn option \<Rightarrow> exn option")

datatype before_func = BeforeFunc (bf_name: string) (bf_outcome: "request \<Rightarrow> exn + pyval")

datatype after_func = AfterFunc (af_name: string) (af_outcome: "response \<Rightarrow> exn + response")

datatype url_value_preprocessor = UrlValuePreprocessor (uvp_name: string)
  (uvp_outcome: "string option \<Rightarrow> (string \<times> string) list option
     \<Rightarrow> exn + (string \<times> string) list option")

datatype first_request_func = FirstRequestFunc (frf_name: string) (frf_outcome: "exn option")

datatype view_func = ViewFunc (vf_name: string)
  (vf_outcome: "(string \<times> string) list \<Rightarrow> exn + pyval")

datatype error_handler = ErrorHandler (eh_name: string) (eh_outcome: "exn \<Rightarrow> exn + pyval")

text \<open>
  The trace lists, oldest first, what an observer of a run sees: callbacks called, signals
  sent (\<^verbatim>\<open>signals.py\<close>: \<^verbatim>\<open>send\<close> returns nothing; receivers are not modelled), log records,
  and three marks: \<open>AppTeardown\<close> where \<^verbatim>\<open>AppContext.pop\<close> calls
  \<^verbatim>\<open>do_teardown_appcontext\<close>, \<open>RequestTeardown\<close> where \<^verbatim>\<open>RequestContext.pop\<close> enters
  its teardown branch (with the resolved error), \<open>RequestClosed\<close> where it closes the
  request.
\<close>

datatype event =
    Signal string nat "exn option"
  | CalledAppTeardown string "exn option"
  | CalledRequestTeardown string "exn option"
  | Called string
  | AppTeardown nat "exn option"
  | RequestTeardown nat "exn option"
  | RequestClosed nat
  | Logged string

section \<open>The application object, the contexts and the state\<close>

text \<open>
  \<^verbatim>\<open>Flask\<close>: the callback registries, the configuration values the request lifecycle
  reads, and the collaborators it calls: the session interface, the URL map and the
  response class of Werkzeug with \<^verbatim>\<open>jsonify\<close>. In \<open>error_handler_spec\<close> the innermost
  dictionary, from exception class to handler, is a list of pairs keyed by the class name.
  \<open>has_show_exception\<close> says whether Werkzeug's \<^verbatim>\<open>BadRequestKeyError\<close> has the attribute
  \<^verbatim>\<open>show_exception\<close>.
\<close>

record flask =
  teardown_appcontext_funcs :: "teardown_func list"
  teardown_request_funcs :: "string option \<rightharpoonup> teardown_func list"
  before_request_funcs :: "string option \<rightharpoonup> before_func list"
  after_request_funcs :: "string option \<rightharpoonup> after_func list"
  url_value_preprocessors :: "string option \<rightharpoonup> url_value_preprocessor list"
  before_first_request_funcs :: "first_request_func list"
  got_first_request :: bool
  view_functions :: "string \<rightharpoonup> view_func"
  error_handler_spec :: "string option \<rightharpoonup> (int option \<rightharpoonup> (string \<times> error_handler) list)"
  debug :: bool
  testing :: bool
  PROPAGATE_EXCEPTIONS :: "bool option"
  PRESERVE_CONTEXT_ON_EXCEPTION :: "bool option"
  TRAP_HTTP_EXCEPTIONS :: bool
  TRAP_BAD_REQUEST_ERRORS :: "bool option"
  SERVER_NAME :: "string option"
  has_show_exception :: bool
  open_session :: "request \<Rightarrow> session option"
  save_session :: "session option \<Rightarrow> response \<Rightarrow> exn + response"
  bind_to_environ :: "request \<Rightarrow> exn + url_adapter"
  url_map_bind :: "exn + url_adapter"
  response_class_new :: "pyval \<Rightarrow> pyval \<Rightarrow> pyval \<Rightarrow> exn + response"
  force_type :: "pyval \<Rightarrow> exn + response"
  jsonify :: "pyval \<Rightarrow> exn + response"
  set_status :: "pyval \<Rightarrow> response \<Rightarrow> exn + response"
  set_status_code :: "pyval \<Rightarrow> response \<Rightarrow> exn + response"
  headers_extend :: "pyval \<Rightarrow> response \<Rightarrow> exn + response"

text \<open>
  \<^verbatim>\<open>AppContext\<close>: the application (by identity) and the reference count. The \<^verbatim>\<open>g\<close>
  namespace and the URL adapter play no part in push and pop and are left out.
\<close>

record app_context =
  ac_app :: nat
  refcnt :: int

text \<open>
  \<^verbatim>\<open>RequestContext\<close>. The Python list \<^verbatim>\<open>_implicit_app_ctx_stack\<close> grows and shrinks at
  its end; here the head of the list is that end.
\<close>

record request_context =
  rc_app :: nat
  request :: request
  url_adapter :: "url_adapter option"
  session :: "session option"
  implicit_app_ctx_stack :: "nat option list"
  preserved :: bool
  preserved_exc :: "exn option"
  after_request_functions :: "after_func list"

text \<open>
  Contexts and applications are objects with identity: the state holds one store for each
  class, addressed by reference, and the two context stacks of \<^verbatim>\<open>globals.py\<close> hold
  references, the head of the list being the top. \<open>exc_info\<close> is the exception being
  handled where the call is made (\<^verbatim>\<open>sys.exc_info()[1]\<close>); \<open>has_exc_clear\<close> says
  whether the interpreter has \<^verbatim>\<open>sys.exc_clear\<close>.
\<close>

record state =
  apps :: "nat \<Rightarrow> flask"
  app_ctxs :: "nat \<Rightarrow> app_context"
  req_ctxs :: "nat \<Rightarrow> request_context"
  next_ref :: nat
  app_ctx_stack :: "nat list"
  request_ctx_stack :: "nat list"
  exc_info :: "exn option"
  has_exc_clear :: bool
  trace :: "event list"

definition log_event :: "event \<Rightarrow> state \<Rightarrow> state" where
  "log_event ev s = s\<lparr>trace := trace s @ [ev]\<rparr>"

definition exc_clear :: "state \<Rightarrow> state" where
  "exc_clear s = (if has_exc_clear s then s\<lparr>exc_info := None\<rparr> else s)"

definition resolve_exc :: "exc_arg \<Rightarrow> state \<Rightarrow> exn option" where
  "resolve_exc exc s = (case exc of Sentinel \<Rightarrow> exc_info s | Given e \<Rightarrow> e)"

text \<open>
  Modelled from the spec: the two context stacks of \<^verbatim>\<open>globals.py\<close> are stacks with
  \<^verbatim>\<open>push\<close>, \<^verbatim>\<open>pop\<close> and the probe \<^verbatim>\<open>top\<close>, which gives \<^verbatim>\<open>None\<close> on an empty stack. They
  are instances of Werkzeug's \<^verbatim>\<open>LocalStack\<close>, whose \<^verbatim>\<open>pop\<close> gives \<^verbatim>\<open>None\<close> on an empty
  stack too; both \<^verbatim>\<open>pop\<close> methods of \<^verbatim>\<open>ctx.py\<close> then fail their assertion on the popped
  value, so that popping an empty stack is an error of the caller in either reading.
\<close>

definition LocalStack_top :: "nat list \<Rightarrow> nat option" where
  "LocalStack_top stk = (case stk of [] \<Rightarrow> None | x # _ \<Rightarrow> Some x)"

definition LocalStack_pop :: "nat list \<Rightarrow> nat option \<times> nat list" where
  "LocalStack_pop stk = (case stk of [] \<Rightarrow> (None, []) | x # xs \<Rightarrow> (Some x, xs))"

section \<open>ctx.py and the teardown methods of app.py\<close>

text \<open>
  A request's \<^verbatim>\<open>blueprint\<close> property (\<^verbatim>\<open>wrappers.py\<close>): the endpoint up to its last dot,
  if there is a matched rule whose endpoint has a dot.
\<close>

definition rsplit_dot :: "string \<Rightarrow> string" where
  "rsplit_dot ep = rev (tl (dropWhile (\<lambda>c. c \<noteq> CHR ''.'') (rev ep)))"

definition blueprint :: "request \<Rightarrow> string option" where
  "blueprint req =
     (case url_rule req of
        None \<Rightarrow> None
      | Some rule \<Rightarrow>
          if CHR ''.'' \<in> set (endpoint rule) then Some (rsplit_dot (endpoint rule)) else None)"

text \<open>
  The loop \<^verbatim>\<open>for func in funcs: func(exc)\<close> of the two teardown methods: the first
  callback that raises ends it. Each call is logged, with the event of the method that
  makes it.
\<close>

fun call_teardown_funcs ::
  "(string \<Rightarrow> exn option \<Rightarrow> event) \<Rightarrow> teardown_func list \<Rightarrow> exn option \<Rightarrow> state
     \<Rightarrow> exn option \<times> state" where
  "call_teardown_funcs called [] exc s = (None, s)"
| "call_teardown_funcs called (f # fs) exc s =
     (let s1 = log_event (called (tf_name f) exc) s
      in case tf_outcome f exc of
           Some e \<Rightarrow> (Some e, s1)
         | None \<Rightarrow> call_teardown_funcs called fs exc s1)"

text \<open>\<^verbatim>\<open>Flask.do_teardown_appcontext\<close>\<close>

definition do_teardown_appcontext :: "nat \<Rightarrow> exc_arg \<Rightarrow> state \<Rightarrow> exn option \<times> state" where
  "do_teardown_appcontext app exc s =
     (let exc1 = resolve_exc exc s
      in case call_teardown_funcs CalledAppTeardown
                (rev (teardown_appcontext_funcs (apps s app))) exc1 s of
           (Some e, s1) \<Rightarrow> (Some e, s1)
         | (None, s1) \<Rightarrow> (None, log_event (Signal ''appcontext-tearing-down'' app exc1) s1))"

text \<open>
  \<^verbatim>\<open>Flask.do_teardown_request\<close>. The blueprint is that of the request on top of the
  request stack; with an empty stack the attribute access on \<^verbatim>\<open>None\<close> raises.
\<close>

definition do_teardown_request :: "nat \<Rightarrow> exc_arg \<Rightarrow> state \<Rightarrow> exn option \<times> state" where
  "do_teardown_request app exc s =
     (let exc1 = resolve_exc exc s;
          funcs = rev (case teardown_request_funcs (apps s app) None of None \<Rightarrow> [] | Some fs \<Rightarrow> fs)
      in case LocalStack_top (request_ctx_stack s) of
           None \<Rightarrow> (Some (AttributeError ''NoneType object has no attribute request''), s)
         | Some topc \<Rightarrow>
             (let bp = blueprint (request (req_ctxs s topc));
                  funcs1 = (case bp of
                              None \<Rightarrow> funcs
                            | Some b \<Rightarrow>
                                (case teardown_request_funcs (apps s app) (Some b) of
                                   None \<Rightarrow> funcs
                                 | Some fs \<Rightarrow> funcs @ rev fs))
              in case call_teardown_funcs CalledRequestTeardown funcs1 exc1 s of
                   (Some e, s1) \<Rightarrow> (Some e, s1)
                 | (None, s1) \<Rightarrow> (None, log_event (Signal ''request-tearing-down'' app exc1) s1)))"

text \<open>\<^verbatim>\<open>AppContext.push\<close>\<close>

definition AppContext_push :: "nat \<Rightarrow> state \<Rightarrow> state" where
  "AppContext_push a s =
     (let s1 = s\<lparr>app_ctxs := (app_ctxs s)(a := (app_ctxs s a)\<lparr>refcnt := refcnt (app_ctxs s a) + 1\<rparr>)\<rparr>;
          s2 = exc_clear s1;
          s3 = s2\<lparr>app_ctx_stack := a # app_ctx_stack s2\<rparr>
      in log_event (Signal ''appcontext-pushed'' (ac_app (app_ctxs s3 a)) None) s3)"

text \<open>
  \<^verbatim>\<open>AppContext.pop\<close>. The \<^verbatim>\<open>finally\<close> clause pops the stack whether or not the teardown
  raised; the assertion and the signal follow only when it did not.
\<close>

definition AppContext_pop :: "nat \<Rightarrow> exc_arg \<Rightarrow> state \<Rightarrow> exn option \<times> state" where
  "AppContext_pop a exc s =
     (let s1 = s\<lparr>app_ctxs := (app_ctxs s)(a := (app_ctxs s a)\<lparr>refcnt := refcnt (app_ctxs s a) - 1\<rparr>)\<rparr>;
          (err, s2) =
            (if refcnt (app_ctxs s1 a) \<le> 0 then
               (let exc1 = Given (resolve_exc exc s1)
                in do_teardown_appcontext (ac_app (app_ctxs s1 a)) exc1
                     (log_event (AppTeardown a (resolve_exc exc s1)) s1))
             else (None, s1));
          (rv, stk) = LocalStack_pop (app_ctx_stack s2);
          s3 = s2\<lparr>app_ctx_stack := stk\<rparr>
      in case err of
           Some e \<Rightarrow> (Some e, s3)
         | None \<Rightarrow>
             if rv \<noteq> Some a then (Some (AssertionError ''Popped wrong app context.''), s3)
             else (None, log_event (Signal ''appcontext-popped'' (ac_app (app_ctxs s3 a)) None) s3))"

text \<open>\<^verbatim>\<open>Flask.create_url_adapter\<close>\<close>

definition create_url_adapter :: "flask \<Rightarrow> request option \<Rightarrow> exn + url_adapter option" where
  "create_url_adapter app req =
     (case req of
        Some rq \<Rightarrow> (case bind_to_environ app rq of Inl e \<Rightarrow> Inl e | Inr ad \<Rightarrow> Inr (Some ad))
      | None \<Rightarrow>
          if SERVER_NAME app \<noteq> None
          then (case url_map_bind app of Inl e \<Rightarrow> Inl e | Inr ad \<Rightarrow> Inr (Some ad))
          else Inr None)"

text \<open>
  \<^verbatim>\<open>RequestContext.__init__\<close>, with the request object given: the new context is stored
  at the next free reference, which is returned. Only an \<^verbatim>\<open>HTTPException\<close> of the adapter's
  creation is caught.
\<close>

definition RequestContext_init ::
  "nat \<Rightarrow> request \<Rightarrow> session option \<Rightarrow> state \<Rightarrow> (exn + nat) \<times> state" where
  "RequestContext_init app req sess s =
     (let new = \<lparr>rc_app = app, request = req, url_adapter = None, session = sess,
                 implicit_app_ctx_stack = [], preserved = False, preserved_exc = None,
                 after_request_functions = []\<rparr>;
          r = next_ref s
      in case create_url_adapter (apps s app) (Some req) of
           Inr ad \<Rightarrow>
             (Inr r, s\<lparr>req_ctxs := (req_ctxs s)(r := new\<lparr>url_adapter := ad\<rparr>), next_ref := Suc r\<rparr>)
         | Inl e \<Rightarrow>
             if isinstance e ''HTTPException''
             then (Inr r, s\<lparr>req_ctxs := (req_ctxs s)
                            (r := new\<lparr>request := req\<lparr>routing_exception := Some e\<rparr>\<rparr>),
                          next_ref := Suc r\<rparr>)
             else (Inl e, s))"

text \<open>\<^verbatim>\<open>RequestContext.match_request\<close>\<close>

definition match_request :: "nat \<Rightarrow> state \<Rightarrow> exn option \<times> state" where
  "match_request r s =
     (let ctx = req_ctxs s r
      in case url_adapter ctx of
           None \<Rightarrow> (Some (AttributeError ''NoneType object has no attribute match''), s)
         | Some ad \<Rightarrow>
             (case match ad of
                Inr (rule, args) \<Rightarrow>
                  (None, s\<lparr>req_ctxs := (req_ctxs s)
                     (r := ctx\<lparr>request := (request ctx)\<lparr>url_rule := Some rule, view_args := Some args\<rparr>\<rparr>)\<rparr>)
              | Inl e \<Rightarrow>
                  if isinstance e ''HTTPException''
                  then (None, s\<lparr>req_ctxs := (req_ctxs s)
                          (r := ctx\<lparr>request := (request ctx)\<lparr>routing_exception := Some e\<rparr>\<rparr>)\<rparr>)
                  else (Some e, s)))"

text \<open>
  \<^verbatim>\<open>RequestContext.pop\<close>, in three definitions that follow the method's layout: the
  \<^verbatim>\<open>try\<close> block, the \<^verbatim>\<open>finally\<close> clause and the method itself.

  The \<^verbatim>\<open>try\<close> block takes the teardown branch when \<^verbatim>\<open>_implicit_app_ctx_stack\<close> is empty
  (after the pop made before the block). It gives the exception raised in it (if any),
  the value of \<^verbatim>\<open>exc\<close> after it, \<^verbatim>\<open>clear_request\<close> and the state.
\<close>

definition RequestContext_pop_try ::
  "nat \<Rightarrow> exc_arg \<Rightarrow> state \<Rightarrow> exn option \<times> exc_arg \<times> bool \<times> state" where
  "RequestContext_pop_try r exc s1 =
     (if implicit_app_ctx_stack (req_ctxs s1 r) = [] then
        (let s1a = s1\<lparr>req_ctxs := (req_ctxs s1)
                     (r := (req_ctxs s1 r)\<lparr>preserved := False, preserved_exc := None\<rparr>)\<rparr>;
             exc1 = Given (resolve_exc exc s1a);
             s1b = log_event (RequestTeardown r (resolve_exc exc s1a)) s1a
         in case do_teardown_request (rc_app (req_ctxs s1b r)) exc1 s1b of
              (Some e, s1c) \<Rightarrow> (Some e, exc1, False, s1c)
            | (None, s1c) \<Rightarrow>
                (let s1d = exc_clear s1c;
                     s1e = (if has_close (request (req_ctxs s1d r))
                            then log_event (RequestClosed r) s1d else s1d)
                 in (None, exc1, True, s1e)))
      else (None, exc, False, s1))"

text \<open>
  The \<^verbatim>\<open>finally\<close> clause always pops the request stack, clears \<^verbatim>\<open>werkzeug.request\<close> on
  the popped context when the teardown branch completed, pops the implicit application
  context with the same \<^verbatim>\<open>exc\<close>, and asserts that the popped context is this one. An
  exception raised in the clause replaces the one of the \<^verbatim>\<open>try\<close> block, which is raised
  again otherwise.
\<close>

definition RequestContext_pop_finally ::
  "nat \<Rightarrow> nat option \<Rightarrow> exn option \<Rightarrow> exc_arg \<Rightarrow> bool \<Rightarrow> state \<Rightarrow> exn option \<times> state" where
  "RequestContext_pop_finally r app_ctx err exc1 clear_request s2 =
     (let (rv, stk) = LocalStack_pop (request_ctx_stack s2);
          s3 = s2\<lparr>request_ctx_stack := stk\<rparr>
      in case (clear_request, rv) of
           (True, None) \<Rightarrow> (Some (AttributeError ''NoneType object has no attribute request''), s3)
         | _ \<Rightarrow>
             (let s4 = (case (clear_request, rv) of
                          (True, Some t) \<Rightarrow>
                            s3\<lparr>req_ctxs := (req_ctxs s3)
                              (t := (req_ctxs s3 t)\<lparr>request :=
                                 (request (req_ctxs s3 t))\<lparr>werkzeug_request_set := False\<rparr>\<rparr>)\<rparr>
                        | _ \<Rightarrow> s3);
                  (err2, s5) = (case app_ctx of
                                  Some a \<Rightarrow> AppContext_pop a exc1 s4
                                | None \<Rightarrow> (None, s4))
              in case err2 of
                   Some e2 \<Rightarrow> (Some e2, s5)
                 | None \<Rightarrow>
                     if rv \<noteq> Some r
                     then (Some (AssertionError ''Popped wrong request context.''), s5)
                     else (err, s5)))"

text \<open>Popping the empty list \<^verbatim>\<open>_implicit_app_ctx_stack\<close> raises before the \<^verbatim>\<open>try\<close>.\<close>

definition RequestContext_pop :: "nat \<Rightarrow> exc_arg \<Rightarrow> state \<Rightarrow> exn option \<times> state" where
  "RequestContext_pop r exc s =
     (case implicit_app_ctx_stack (req_ctxs s r) of
        [] \<Rightarrow> (Some (IndexError ''pop from empty list''), s)
      | app_ctx # rest \<Rightarrow>
          (let s1 = s\<lparr>req_ctxs := (req_ctxs s)(r := (req_ctxs s r)\<lparr>implicit_app_ctx_stack := rest\<rparr>)\<rparr>
           in case RequestContext_pop_try r exc s1 of
                (err, exc1, clear_request, s2) \<Rightarrow>
                  RequestContext_pop_finally r app_ctx err exc1 clear_request s2))"

text \<open>
  \<^verbatim>\<open>RequestContext.push\<close>, in the order of its statements: a preserved context on top
  of the request stack is popped with its stored error; an application context is made
  and pushed unless the top one belongs to this application (\<^verbatim>\<open>Flask.app_context()\<close>
  makes a new \<^verbatim>\<open>AppContext\<close> with reference count 0, stored at the next free
  reference); the context goes on the request stack; the session is opened if there is
  none; the request is matched if there is an adapter.
\<close>

definition push_reclaim_preserved :: "state \<Rightarrow> exn option \<times> state" where
  "push_reclaim_preserved s =
     (case LocalStack_top (request_ctx_stack s) of
        None \<Rightarrow> (None, s)
      | Some topc \<Rightarrow>
          if preserved (req_ctxs s topc)
          then RequestContext_pop topc (Given (preserved_exc (req_ctxs s topc))) s
          else (None, s))"

definition push_app_context :: "nat \<Rightarrow> state \<Rightarrow> state" where
  "push_app_context r s0 =
     (let self_app = rc_app (req_ctxs s0 r);
          reuse = (case LocalStack_top (app_ctx_stack s0) of
                     None \<Rightarrow> False
                   | Some t \<Rightarrow> ac_app (app_ctxs s0 t) = self_app)
      in if \<not> reuse then
           (let a = next_ref s0;
                sa = s0\<lparr>app_ctxs := (app_ctxs s0)(a := \<lparr>ac_app = self_app, refcnt = 0\<rparr>),
                        next_ref := Suc a\<rparr>;
                sb = AppContext_push a sa
            in sb\<lparr>req_ctxs := (req_ctxs sb)(r := (req_ctxs sb r)
                  \<lparr>implicit_app_ctx_stack := Some a # implicit_app_ctx_stack (req_ctxs sb r)\<rparr>)\<rparr>)
         else s0\<lparr>req_ctxs := (req_ctxs s0)(r := (req_ctxs s0 r)
                  \<lparr>implicit_app_ctx_stack := None # implicit_app_ctx_stack (req_ctxs s0 r)\<rparr>)\<rparr>)"

definition push_open_session :: "nat \<Rightarrow> state \<Rightarrow> state" where
  "push_open_session r s3 =
     (case session (req_ctxs s3 r) of
        Some _ \<Rightarrow> s3
      | None \<Rightarrow>
          (let sess = (case open_session (apps s3 (rc_app (req_ctxs s3 r)))
                              (request (req_ctxs s3 r)) of
                         Some x \<Rightarrow> x
                       | None \<Rightarrow> NullSession)
           in s3\<lparr>req_ctxs := (req_ctxs s3)(r := (req_ctxs s3 r)\<lparr>session := Some sess\<rparr>)\<rparr>))"

definition RequestContext_push :: "nat \<Rightarrow> state \<Rightarrow> exn option \<times> state" where
  "RequestContext_push r s =
     (case push_reclaim_preserved s of
        (Some e, s0) \<Rightarrow> (Some e, s0)
      | (None, s0) \<Rightarrow>
          (let s1 = push_app_context r s0;
               s2 = exc_clear s1;
               s3 = s2\<lparr>request_ctx_stack := r # request_ctx_stack s2\<rparr>;
               s4 = push_open_session r s3
           in if url_adapter (req_ctxs s4 r) \<noteq> None then match_request r s4 else (None, s4)))"

text \<open>\<^verbatim>\<open>Flask.preserve_context_on_exception\<close> and \<^verbatim>\<open>RequestContext.auto_pop\<close>\<close>

definition preserve_context_on_exception :: "flask \<Rightarrow> bool" where
  "preserve_context_on_exception app =
     (case PRESERVE_CONTEXT_ON_EXCEPTION app of Some rv \<Rightarrow> rv | None \<Rightarrow> debug app)"

definition auto_pop :: "nat \<Rightarrow> exn option \<Rightarrow> state \<Rightarrow> exn option \<times> state" where
  "auto_pop r exc s =
     (if preserve_context_flag (request (req_ctxs s r))
         \<or> (exc \<noteq> None \<and> preserve_context_on_exception (apps s (rc_app (req_ctxs s r))))
      then (None, s\<lparr>req_ctxs := (req_ctxs s)(r := (req_ctxs s r)\<lparr>preserved := True, preserved_exc := exc\<rparr>)\<rparr>)
      else RequestContext_pop r (Given exc) s)"

section \<open>app.py: error handlers\<close>

text \<open>
  \<^verbatim>\<open>Flask._get_exc_class_and_code\<close>, applied to the class of an exception: the class (its
  method resolution order stands for it) and, for a subclass of \<^verbatim>\<open>HTTPException\<close>, the
  class attribute \<^verbatim>\<open>code\<close>. The assertion fails for a class outside \<^verbatim>\<open>Exception\<close>.
\<close>

definition get_exc_class_and_code :: "exn \<Rightarrow> exn + (string list \<times> int option)" where
  "get_exc_class_and_code e =
     (if \<not> isinstance e ''Exception'' then Inl (AssertionError [])
      else if isinstance e ''HTTPException'' then Inr (exn_mro e, exn_class_code e)
      else Inr (exn_mro e, None))"

text \<open>
  The inner loop of \<^verbatim>\<open>Flask._find_error_handler\<close>,
  \<^verbatim>\<open>for cls in exc_class.__mro__: handler = handler_map.get(cls)\<close>.
\<close>

fun lookup_mro :: "(string \<times> error_handler) list \<Rightarrow> string list \<Rightarrow> error_handler option" where
  "lookup_mro handler_map [] = None"
| "lookup_mro handler_map (cls # rest) =
     (case map_of handler_map cls of
        Some handler \<Rightarrow> Some handler
      | None \<Rightarrow> lookup_mro handler_map rest)"

text \<open>
  The outer loop over the pairs \<^verbatim>\<open>(name, c)\<close>. \<^verbatim>\<open>setdefault(name, {})\<close> leaves an empty
  dictionary in \<^verbatim>\<open>error_handler_spec\<close> under a name that had none; an absent or empty
  handler map is skipped.
\<close>

fun find_error_handler_loop ::
  "(string option \<times> int option) list \<Rightarrow> string list
     \<Rightarrow> (string option \<rightharpoonup> (int option \<rightharpoonup> (string \<times> error_handler) list))
     \<Rightarrow> error_handler option \<times> (string option \<rightharpoonup> (int option \<rightharpoonup> (string \<times> error_handler) list))" where
  "find_error_handler_loop [] mro spec = (None, spec)"
| "find_error_handler_loop ((name, c) # rest) mro spec =
     (let spec1 = (case spec name of None \<Rightarrow> spec(name \<mapsto> Map.empty) | Some _ \<Rightarrow> spec);
          handler_map = (case spec1 name of None \<Rightarrow> None | Some by_code \<Rightarrow> by_code c)
      in case handler_map of
           None \<Rightarrow> find_error_handler_loop rest mro spec1
         | Some [] \<Rightarrow> find_error_handler_loop rest mro spec1
         | Some hm \<Rightarrow>
             (case lookup_mro hm mro of
                Some handler \<Rightarrow> (Some handler, spec1)
              | None \<Rightarrow> find_error_handler_loop rest mro spec1))"

text \<open>
  Modelled from the spec: the \<^verbatim>\<open>request\<close> proxy of \<^verbatim>\<open>globals.py\<close> stands for the request of
  the context on top of the request stack; without one, using it raises a
  \<^verbatim>\<open>RuntimeError\<close>.
\<close>

definition request_proxy :: "state \<Rightarrow> exn + request" where
  "request_proxy s =
     (case LocalStack_top (request_ctx_stack s) of
        None \<Rightarrow> Inl (builtin_error ''RuntimeError'' ''Working outside of request context.'')
      | Some t \<Rightarrow> Inr (request (req_ctxs s t)))"

text \<open>\<^verbatim>\<open>Flask._find_error_handler\<close>\<close>

definition find_error_handler :: "nat \<Rightarrow> exn \<Rightarrow> state \<Rightarrow> (exn + error_handler option) \<times> state" where
  "find_error_handler app e s =
     (case get_exc_class_and_code e of
        Inl err \<Rightarrow> (Inl err, s)
      | Inr (exc_class, code) \<Rightarrow>
          (case request_proxy s of
             Inl err \<Rightarrow> (Inl err, s)
           | Inr req \<Rightarrow>
               (let bp = blueprint req;
                    (handler, spec1) =
                      find_error_handler_loop [(bp, code), (None, code), (bp, None), (None, None)]
                        exc_class (error_handler_spec (apps s app))
                in (Inr handler,
                    s\<lparr>apps := (apps s)(app := (apps s app)\<lparr>error_handler_spec := spec1\<rparr>)\<rparr>))))"

text \<open>Calling an error handler: the call is logged, the handler returns a value or raises.\<close>

definition call_error_handler :: "error_handler \<Rightarrow> exn \<Rightarrow> state \<Rightarrow> (exn + pyval) \<times> state" where
  "call_error_handler handler e s = (eh_outcome handler e, log_event (Called (eh_name handler)) s)"

text \<open>\<^verbatim>\<open>Flask.handle_http_exception\<close>\<close>

definition handle_http_exception :: "nat \<Rightarrow> exn \<Rightarrow> state \<Rightarrow> (exn + pyval) \<times> state" where
  "handle_http_exception app e s =
     (if exn_code e = None then (Inr (PExn e), s)
      else if isinstance e ''RoutingException'' then (Inr (PExn e), s)
      else
        (case find_error_handler app e s of
           (Inl err, s1) \<Rightarrow> (Inl err, s1)
         | (Inr None, s1) \<Rightarrow> (Inr (PExn e), s1)
         | (Inr (Some handler), s1) \<Rightarrow> call_error_handler handler e s1))"

text \<open>\<^verbatim>\<open>Flask.trap_http_exception\<close>\<close>

definition trap_http_exception :: "flask \<Rightarrow> exn \<Rightarrow> bool" where
  "trap_http_exception app e =
     (if TRAP_HTTP_EXCEPTIONS app then True
      else if TRAP_BAD_REQUEST_ERRORS app = None \<and> debug app \<and> isinstance e ''BadRequestKeyError''
      then True
      else if TRAP_BAD_REQUEST_ERRORS app = Some True then isinstance e ''BadRequest''
      else False)"

text \<open>
  The block of \<^verbatim>\<open>Flask.handle_user_exception\<close> for a \<^verbatim>\<open>BadRequestKeyError\<close>. The model
  keeps its one change to a modelled attribute, \<^verbatim>\<open>e.args = ()\<close>; \<^verbatim>\<open>show_exception\<close> and
  \<^verbatim>\<open>description\<close> are not attributes of the model's exceptions.
\<close>

definition prepare_bad_request_key_error :: "flask \<Rightarrow> exn \<Rightarrow> exn" where
  "prepare_bad_request_key_error a e =
     (if isinstance e ''BadRequestKeyError''
      then (if debug a \<or> TRAP_BAD_REQUEST_ERRORS a = Some True then e
            else if \<not> has_show_exception a
            then Exn (exn_mro e) (exn_class_code e) (exn_code e) [] (original_exception e)
            else e)
      else e)"

text \<open>
  \<^verbatim>\<open>Flask.handle_user_exception\<close>. It is called in an \<^verbatim>\<open>except\<close> block, and asserts that
  the exception being handled is \<open>e\<close>. Without a handler the exception is raised again.
\<close>

definition handle_user_exception :: "nat \<Rightarrow> exn \<Rightarrow> state \<Rightarrow> (exn + pyval) \<times> state" where
  "handle_user_exception app e0 s =
     (if exc_info s \<noteq> Some e0 then (Inl (AssertionError []), s)
      else
        (let a = apps s app;
             e = prepare_bad_request_key_error a e0
         in if isinstance e ''HTTPException'' \<and> \<not> trap_http_exception a e
            then handle_http_exception app e s
            else
              (case find_error_handler app e s of
                 (Inl err, s1) \<Rightarrow> (Inl err, s1)
               | (Inr None, s1) \<Rightarrow> (Inl e, s1)
               | (Inr (Some handler), s1) \<Rightarrow> call_error_handler handler e s1)))"

section \<open>app.py: response coercion\<close>

text \<open>\<^verbatim>\<open>isinstance(rv[1], (Headers, dict, tuple, list))\<close>\<close>

definition is_headers_dict_tuple_list :: "pyval \<Rightarrow> bool" where
  "is_headers_dict_tuple_list x =
     (case x of PHeaders _ \<Rightarrow> True | PDict _ \<Rightarrow> True | PTuple _ \<Rightarrow> True | PList _ \<Rightarrow> True
      | _ \<Rightarrow> False)"

text \<open>\<^verbatim>\<open>isinstance(x, (text_type, bytes, bytearray))\<close>\<close>

definition is_text_or_bytes :: "pyval \<Rightarrow> bool" where
  "is_text_or_bytes x =
     (case x of PStr _ \<Rightarrow> True | PBytes _ \<Rightarrow> True | PByteArray _ \<Rightarrow> True | _ \<Rightarrow> False)"

text \<open>Python's truth value of an object, and the name of its class.\<close>

definition truthy :: "pyval \<Rightarrow> bool" where
  "truthy x =
     (case x of
        PNone \<Rightarrow> False
      | PStr b \<Rightarrow> b \<noteq> []
      | PBytes b \<Rightarrow> b \<noteq> []
      | PByteArray b \<Rightarrow> b \<noteq> []
      | PInt n \<Rightarrow> n \<noteq> 0
      | PDict d \<Rightarrow> d \<noteq> []
      | PTuple t \<Rightarrow> t \<noteq> []
      | PList l \<Rightarrow> l \<noteq> []
      | PHeaders h \<Rightarrow> h \<noteq> []
      | _ \<Rightarrow> True)"

definition class_name :: "pyval \<Rightarrow> string" where
  "class_name x =
     (case x of
        PNone \<Rightarrow> ''NoneType''
      | PStr _ \<Rightarrow> ''str''
      | PBytes _ \<Rightarrow> ''bytes''
      | PByteArray _ \<Rightarrow> ''bytearray''
      | PInt _ \<Rightarrow> ''int''
      | PDict _ \<Rightarrow> ''dict''
      | PTuple _ \<Rightarrow> ''tuple''
      | PList _ \<Rightarrow> ''list''
      | PHeaders _ \<Rightarrow> ''Headers''
      | PResponse _ \<Rightarrow> ''Response''
      | PBaseResponse _ \<Rightarrow> ''BaseResponse''
      | PExn e \<Rightarrow> (case exn_mro e of [] \<Rightarrow> [] | c # _ \<Rightarrow> c)
      | PCallable _ \<Rightarrow> ''function''
      | PObject c \<Rightarrow> c)"

text \<open>
  \<^verbatim>\<open>callable(rv)\<close>: functions are callable, and so are the instances of
  \<^verbatim>\<open>HTTPException\<close>, which are WSGI applications.
\<close>

definition callable :: "pyval \<Rightarrow> bool" where
  "callable x =
     (case x of PCallable _ \<Rightarrow> True | PExn e \<Rightarrow> isinstance e ''HTTPException'' | _ \<Rightarrow> False)"

definition tuple_error_message :: string where
  "tuple_error_message =
     ''The view function did not return a valid response tuple.'' @
     '' The tuple must have the form (body, status, headers),'' @
     '' (body, status), or (body, headers).''"

definition none_error_message :: string where
  "none_error_message =
     ''The view function did not return a valid response. The'' @
     '' function either returned None or ended without a return'' @
     '' statement.''"

definition type_error_message :: "pyval \<Rightarrow> string" where
  "type_error_message rv =
     ''The view function did not return a valid'' @
     '' response. The return type must be a string, dict, tuple,'' @
     '' Response instance, or WSGI callable, but it was a '' @ class_name rv @ ''.''"

text \<open>
  The first block of \<^verbatim>\<open>Flask.make_response\<close>, "unpack tuple returns": the values of
  \<^verbatim>\<open>rv\<close>, \<^verbatim>\<open>status\<close> and \<^verbatim>\<open>headers\<close> after it.
\<close>

definition unpack_tuple_return :: "pyval \<Rightarrow> exn + (pyval \<times> pyval \<times> pyval)" where
  "unpack_tuple_return rv =
     (case rv of
        PTuple items \<Rightarrow>
          (if length items = 3 then Inr (items ! 0, items ! 1, items ! 2)
           else if length items = 2 then
             (if is_headers_dict_tuple_list (items ! 1) then Inr (items ! 0, PNone, items ! 1)
              else Inr (items ! 0, items ! 1, PNone))
           else Inl (TypeError tuple_error_message))
      | _ \<Rightarrow> Inr (rv, PNone, PNone))"

text \<open>
  The block "make sure the body is an instance of the response class": the response
  with the values of \<^verbatim>\<open>status\<close> and \<^verbatim>\<open>headers\<close> after it. A \<^verbatim>\<open>TypeError\<close> of
  \<^verbatim>\<open>force_type\<close> is raised again with a longer message. (\<^verbatim>\<open>force_type\<close> is given the
  environment of the current request; the model's \<open>force_type\<close> is the application's
  adapter for that request.)
\<close>

definition coerce_body ::
  "flask \<Rightarrow> pyval \<Rightarrow> pyval \<Rightarrow> pyval \<Rightarrow> exn + (response \<times> pyval \<times> pyval)" where
  "coerce_body app rv status headers =
     (case rv of
        PResponse resp \<Rightarrow> Inr (resp, status, headers)
      | _ \<Rightarrow>
          if is_text_or_bytes rv then
            (case response_class_new app rv status headers of
               Inl e \<Rightarrow> Inl e
             | Inr resp \<Rightarrow> Inr (resp, PNone, PNone))
          else if (case rv of PDict _ \<Rightarrow> True | _ \<Rightarrow> False) then
            (case jsonify app rv of Inl e \<Rightarrow> Inl e | Inr resp \<Rightarrow> Inr (resp, status, headers))
          else if (case rv of PBaseResponse _ \<Rightarrow> True | _ \<Rightarrow> False) \<or> callable rv then
            (case force_type app rv of
               Inl e \<Rightarrow>
                 if isinstance e ''TypeError''
                 then Inl (TypeError (concat (exn_args e) @ [CHR 0x0A] @ type_error_message rv))
                 else Inl e
             | Inr resp \<Rightarrow> Inr (resp, status, headers))
          else Inl (TypeError (type_error_message rv)))"

text \<open>\<^verbatim>\<open>Flask.make_response\<close>\<close>

definition make_response :: "flask \<Rightarrow> pyval \<Rightarrow> exn + response" where
  "make_response app rv0 =
     (case unpack_tuple_return rv0 of
        Inl e \<Rightarrow> Inl e
      | Inr (rv, status, headers) \<Rightarrow>
          if rv = PNone then Inl (TypeError none_error_message)
          else
            (case coerce_body app rv status headers of
               Inl e \<Rightarrow> Inl e
             | Inr (resp, status1, headers1) \<Rightarrow>
                 (case (if status1 \<noteq> PNone
                        then (if is_text_or_bytes status1 then set_status app status1 resp
                              else set_status_code app status1 resp)
                        else Inr resp) of
                    Inl e \<Rightarrow> Inl e
                  | Inr resp1 \<Rightarrow>
                      if truthy headers1 then headers_extend app headers1 resp1 else Inr resp1)))"

section \<open>app.py: the request pipeline\<close>

text \<open>\<^verbatim>\<open>Flask.propagate_exceptions\<close>\<close>

definition propagate_exceptions :: "flask \<Rightarrow> bool" where
  "propagate_exceptions app =
     (case PROPAGATE_EXCEPTIONS app of Some rv \<Rightarrow> rv | None \<Rightarrow> testing app \<or> debug app)"

text \<open>
  \<^verbatim>\<open>Flask.try_trigger_before_first_request_functions\<close>. One thread of control is
  modelled, so the lock is always free.
\<close>

fun call_first_request_funcs :: "first_request_func list \<Rightarrow> state \<Rightarrow> exn option \<times> state" where
  "call_first_request_funcs [] s = (None, s)"
| "call_first_request_funcs (f # fs) s =
     (let s1 = log_event (Called (frf_name f)) s
      in case frf_outcome f of
           Some e \<Rightarrow> (Some e, s1)
         | None \<Rightarrow> call_first_request_funcs fs s1)"

definition try_trigger_before_first_request_functions :: "nat \<Rightarrow> state \<Rightarrow> exn option \<times> state" where
  "try_trigger_before_first_request_functions app s =
     (if got_first_request (apps s app) then (None, s)
      else
        (case call_first_request_funcs (before_first_request_funcs (apps s app)) s of
           (Some e, s1) \<Rightarrow> (Some e, s1)
         | (None, s1) \<Rightarrow>
             (None, s1\<lparr>apps := (apps s1)(app := (apps s1 app)\<lparr>got_first_request := True\<rparr>)\<rparr>)))"

text \<open>
  \<^verbatim>\<open>Flask.preprocess_request\<close>. The URL value preprocessors get the endpoint and the view
  arguments of the request on top of the stack and may change the arguments; the first
  \<^verbatim>\<open>before_request\<close> function that returns a value other than \<^verbatim>\<open>None\<close> ends the method
  with that value.
\<close>

definition request_endpoint :: "request \<Rightarrow> string option" where
  "request_endpoint req = (case url_rule req of None \<Rightarrow> None | Some rule \<Rightarrow> Some (endpoint rule))"

fun call_url_value_preprocessors ::
  "url_value_preprocessor list \<Rightarrow> nat \<Rightarrow> state \<Rightarrow> exn option \<times> state" where
  "call_url_value_preprocessors [] t s = (None, s)"
| "call_url_value_preprocessors (f # fs) t s =
     (let req = request (req_ctxs s t);
          s1 = log_event (Called (uvp_name f)) s
      in case uvp_outcome f (request_endpoint req) (view_args req) of
           Inl e \<Rightarrow> (Some e, s1)
         | Inr args \<Rightarrow>
             call_url_value_preprocessors fs t
               (s1\<lparr>req_ctxs := (req_ctxs s1)
                     (t := (req_ctxs s1 t)\<lparr>request := req\<lparr>view_args := args\<rparr>\<rparr>)\<rparr>))"

fun call_before_request_funcs :: "before_func list \<Rightarrow> nat \<Rightarrow> state \<Rightarrow> (exn + pyval) \<times> state" where
  "call_before_request_funcs [] t s = (Inr PNone, s)"
| "call_before_request_funcs (f # fs) t s =
     (let s1 = log_event (Called (bf_name f)) s
      in case bf_outcome f (request (req_ctxs s t)) of
           Inl e \<Rightarrow> (Inl e, s1)
         | Inr rv \<Rightarrow> if rv \<noteq> PNone then (Inr rv, s1) else call_before_request_funcs fs t s1)"

text \<open>
  The callbacks registered under a key of a registry, \<^verbatim>\<open>registry.get(key, ())\<close>, and
  those registered for the request's blueprint: none when the request has no blueprint or
  the blueprint is not in the registry.
\<close>

definition registered :: "(string option \<rightharpoonup> 'f list) \<Rightarrow> string option \<Rightarrow> 'f list" where
  "registered registry key = (case registry key of None \<Rightarrow> [] | Some fs \<Rightarrow> fs)"

definition registered_for :: "(string option \<rightharpoonup> 'f list) \<Rightarrow> string option \<Rightarrow> 'f list" where
  "registered_for registry bp = (case bp of None \<Rightarrow> [] | Some b \<Rightarrow> registered registry (Some b))"

definition preprocess_request :: "nat \<Rightarrow> state \<Rightarrow> (exn + pyval) \<times> state" where
  "preprocess_request app s =
     (case LocalStack_top (request_ctx_stack s) of
        None \<Rightarrow> (Inl (AttributeError ''NoneType object has no attribute request''), s)
      | Some t \<Rightarrow>
          (let bp = blueprint (request (req_ctxs s t))
           in case call_url_value_preprocessors
                     (registered (url_value_preprocessors (apps s app)) None @
                      registered_for (url_value_preprocessors (apps s app)) bp) t s of
                (Some e, s1) \<Rightarrow> (Inl e, s1)
              | (None, s1) \<Rightarrow>
                  call_before_request_funcs
                    (registered (before_request_funcs (apps s1 app)) None @
                     registered_for (before_request_funcs (apps s1 app)) bp) t s1))"

text \<open>
  \<^verbatim>\<open>Flask.raise_routing_exception\<close>: what it raises. \<^verbatim>\<open>FormDataRoutingRedirect\<close> of
  \<^verbatim>\<open>debughelpers.py\<close> is an \<^verbatim>\<open>AssertionError\<close>.
\<close>

definition raise_routing_exception :: "flask \<Rightarrow> request \<Rightarrow> exn \<Rightarrow> exn" where
  "raise_routing_exception app req exc =
     (if \<not> debug app \<or> \<not> isinstance exc ''RequestRedirect''
         \<or> req_method req \<in> set [''GET'', ''HEAD'', ''OPTIONS'']
      then exc
      else Exn [''FormDataRoutingRedirect'', ''AssertionError'', ''Exception'', ''BaseException'',
                ''object''] None None [] None)"

text \<open>
  \<^verbatim>\<open>Flask.make_default_options_response\<close>, for a Werkzeug whose adapters have
  \<^verbatim>\<open>allowed_methods\<close>: the new response lists them in its \<^verbatim>\<open>Allow\<close> header.
\<close>

fun join_comma :: "string list \<Rightarrow> string" where
  "join_comma [] = []"
| "join_comma [x] = x"
| "join_comma (x # y # zs) = x @ '', '' @ join_comma (y # zs)"

definition make_default_options_response :: "nat \<Rightarrow> nat \<Rightarrow> state \<Rightarrow> exn + response" where
  "make_default_options_response app t s =
     (case url_adapter (req_ctxs s t) of
        None \<Rightarrow> Inl (AttributeError ''NoneType object has no attribute match'')
      | Some adapter \<Rightarrow>
          (case response_class_new (apps s app) PNone PNone PNone of
             Inl e \<Rightarrow> Inl e
           | Inr rv \<Rightarrow>
               Inr (rv\<lparr>resp_headers := resp_headers rv @
                            [(''Allow'', join_comma (allowed_methods adapter))]\<rparr>)))"

text \<open>
  \<^verbatim>\<open>Flask.dispatch_request\<close>. Without a matched rule the attribute access
  \<^verbatim>\<open>rule.endpoint\<close> raises; an endpoint without a view function is a \<^verbatim>\<open>KeyError\<close>.
\<close>

definition dispatch_request :: "nat \<Rightarrow> state \<Rightarrow> (exn + pyval) \<times> state" where
  "dispatch_request app s =
     (case LocalStack_top (request_ctx_stack s) of
        None \<Rightarrow> (Inl (AttributeError ''NoneType object has no attribute request''), s)
      | Some t \<Rightarrow>
          (let req = request (req_ctxs s t)
           in case routing_exception req of
                Some exc \<Rightarrow> (Inl (raise_routing_exception (apps s app) req exc), s)
              | None \<Rightarrow>
                  (case url_rule req of
                     None \<Rightarrow> (Inl (AttributeError ''NoneType object has no attribute endpoint''), s)
                   | Some rule \<Rightarrow>
                       if provide_automatic_options rule \<and> req_method req = ''OPTIONS''
                       then (case make_default_options_response app t s of
                               Inl e \<Rightarrow> (Inl e, s)
                             | Inr resp \<Rightarrow> (Inr (PResponse resp), s))
                       else
                         (case view_functions (apps s app) (endpoint rule) of
                            None \<Rightarrow> (Inl (KeyError (endpoint rule)), s)
                          | Some view \<Rightarrow>
                              (case view_args req of
                                 None \<Rightarrow>
                                   (Inl (TypeError ''argument after ** must be a mapping, not NoneType''), s)
                               | Some args \<Rightarrow>
                                   (vf_outcome view args, log_event (Called (vf_name view)) s))))))"

text \<open>
  \<^verbatim>\<open>Flask.process_response\<close>: the functions registered on the request context during
  the request, then the blueprint's \<^verbatim>\<open>after_request\<close> functions reversed, then the
  application's reversed; then the session is saved unless it is the null session.
\<close>

fun call_after_request_funcs :: "after_func list \<Rightarrow> response \<Rightarrow> state \<Rightarrow> (exn + response) \<times> state" where
  "call_after_request_funcs [] response s = (Inr response, s)"
| "call_after_request_funcs (f # fs) response s =
     (let s1 = log_event (Called (af_name f)) s
      in case af_outcome f response of
           Inl e \<Rightarrow> (Inl e, s1)
         | Inr response1 \<Rightarrow> call_after_request_funcs fs response1 s1)"

definition process_response :: "nat \<Rightarrow> response \<Rightarrow> state \<Rightarrow> (exn + response) \<times> state" where
  "process_response app response s =
     (case LocalStack_top (request_ctx_stack s) of
        None \<Rightarrow> (Inl (AttributeError ''NoneType object has no attribute request''), s)
      | Some t \<Rightarrow>
          (let ctx = req_ctxs s t;
               bp = blueprint (request ctx);
               registry = after_request_funcs (apps s app);
               funcs = after_request_functions ctx @
                       rev (registered_for registry bp) @
                       rev (registered registry None)
           in case call_after_request_funcs funcs response s of
                (Inl e, s1) \<Rightarrow> (Inl e, s1)
              | (Inr response1, s1) \<Rightarrow>
                  if session ctx \<noteq> Some NullSession
                  then (save_session (apps s1 app) (session ctx) response1, s1)
                  else (Inr response1, s1)))"

text \<open>
  \<^verbatim>\<open>Flask.finalize_request\<close>. \<^verbatim>\<open>make_response\<close> is called before the \<^verbatim>\<open>try\<close>; the
  \<^verbatim>\<open>except Exception\<close> clause raises again unless \<^verbatim>\<open>from_error_handler\<close> is set, and
  logs otherwise; the response of \<^verbatim>\<open>make_response\<close> is then returned.
\<close>

definition finalize_request :: "nat \<Rightarrow> pyval \<Rightarrow> bool \<Rightarrow> state \<Rightarrow> (exn + response) \<times> state" where
  "finalize_request app rv from_error_handler s =
     (case make_response (apps s app) rv of
        Inl e \<Rightarrow> (Inl e, s)
      | Inr response \<Rightarrow>
          (case process_response app response s of
             (Inr response1, s1) \<Rightarrow>
               (Inr response1, log_event (Signal ''request-finished'' app None) s1)
           | (Inl e, s1) \<Rightarrow>
               if isinstance e ''Exception'' then
                 (if \<not> from_error_handler then (Inl e, s1)
                  else (Inr response,
                        log_event (Logged
                          ''Request finalizing failed with an error while handling an error'') s1))
               else (Inl e, s1)))"

text \<open>
  \<^verbatim>\<open>Flask.handle_exception\<close>, with \<^verbatim>\<open>log_exception\<close>, which reads the path and the
  method of the \<^verbatim>\<open>request\<close> proxy.
\<close>

definition InternalServerError :: "exn \<Rightarrow> exn" where
  "InternalServerError original =
     Exn [''InternalServerError'', ''HTTPException'', ''Exception'', ''BaseException'', ''object'']
       (Some 500) (Some 500) [] (Some original)"

definition handle_exception :: "nat \<Rightarrow> exn \<Rightarrow> state \<Rightarrow> (exn + response) \<times> state" where
  "handle_exception app e s =
     (let s1 = log_event (Signal ''got-request-exception'' app (Some e)) s
      in if propagate_exceptions (apps s1 app) then (Inl e, s1)
         else
           (case request_proxy s1 of
              Inl err \<Rightarrow> (Inl err, s1)
            | Inr rq \<Rightarrow>
                (let s2 = log_event
                            (Logged (''Exception on '' @ req_path rq @ '' ['' @ req_method rq @ '']'')) s1;
                     server_error = InternalServerError e
                 in case find_error_handler app server_error s2 of
                      (Inl err, s3) \<Rightarrow> (Inl err, s3)
                    | (Inr None, s3) \<Rightarrow> finalize_request app (PExn server_error) True s3
                    | (Inr (Some handler), s3) \<Rightarrow>
                        (case call_error_handler handler server_error s3 of
                           (Inl err, s4) \<Rightarrow> (Inl err, s4)
                         | (Inr rv, s4) \<Rightarrow> finalize_request app rv True s4))))"

text \<open>
  \<^verbatim>\<open>Flask.full_dispatch_request\<close>. Inside the \<^verbatim>\<open>except Exception\<close> clause the exception
  being handled is \<open>e\<close>; it is the earlier one again after the clause.
\<close>

definition full_dispatch_request :: "nat \<Rightarrow> state \<Rightarrow> (exn + response) \<times> state" where
  "full_dispatch_request app s =
     (case try_trigger_before_first_request_functions app s of
        (Some e, s1) \<Rightarrow> (Inl e, s1)
      | (None, s1) \<Rightarrow>
          (let s2 = log_event (Signal ''request-started'' app None) s1;
               (rv, s3) = (case preprocess_request app s2 of
                             (Inr PNone, sa) \<Rightarrow> dispatch_request app sa
                           | other \<Rightarrow> other)
           in case rv of
                Inr v \<Rightarrow> finalize_request app v False s3
              | Inl e \<Rightarrow>
                  if isinstance e ''Exception'' then
                    (case handle_user_exception app e (s3\<lparr>exc_info := Some e\<rparr>) of
                       (Inl e1, s4) \<Rightarrow> (Inl e1, s4\<lparr>exc_info := exc_info s3\<rparr>)
                     | (Inr v, s4) \<Rightarrow> finalize_request app v False (s4\<lparr>exc_info := exc_info s3\<rparr>))
                  else (Inl e, s3)))"

section \<open>Runs of pushes and pops, and what the trace shows\<close>

text \<open>
  What the loop over teardown callbacks logs and whether it raises, as functions of the
  callback list: the calls up to and including the first callback that raises.
\<close>

fun teardown_calls ::
  "(string \<Rightarrow> exn option \<Rightarrow> event) \<Rightarrow> teardown_func list \<Rightarrow> exn option \<Rightarrow> event list" where
  "teardown_calls called [] exc = []"
| "teardown_calls called (f # fs) exc =
     called (tf_name f) exc #
       (case tf_outcome f exc of Some e \<Rightarrow> [] | None \<Rightarrow> teardown_calls called fs exc)"

fun teardown_error :: "teardown_func list \<Rightarrow> exn option \<Rightarrow> exn option" where
  "teardown_error [] exc = None"
| "teardown_error (f # fs) exc =
     (case tf_outcome f exc of Some e \<Rightarrow> Some e | None \<Rightarrow> teardown_error fs exc)"

definition never_raises :: "teardown_func list \<Rightarrow> exn option \<Rightarrow> bool" where
  "never_raises fs exc = list_all (\<lambda>f. tf_outcome f exc = None) fs"

definition is_app_teardown :: "nat \<Rightarrow> event \<Rightarrow> bool" where
  "is_app_teardown a ev = (case ev of AppTeardown b _ \<Rightarrow> b = a | _ \<Rightarrow> False)"

definition is_request_teardown :: "nat \<Rightarrow> event \<Rightarrow> bool" where
  "is_request_teardown r ev = (case ev of RequestTeardown q _ \<Rightarrow> q = r | _ \<Rightarrow> False)"

definition is_request_closed :: "nat \<Rightarrow> event \<Rightarrow> bool" where
  "is_request_closed r ev = (case ev of RequestClosed q \<Rightarrow> q = r | _ \<Rightarrow> False)"

definition is_app_teardown_call :: "event \<Rightarrow> bool" where
  "is_app_teardown_call ev = (case ev of CalledAppTeardown _ _ \<Rightarrow> True | _ \<Rightarrow> False)"

definition is_request_teardown_call :: "event \<Rightarrow> bool" where
  "is_request_teardown_call ev = (case ev of CalledRequestTeardown _ _ \<Rightarrow> True | _ \<Rightarrow> False)"

text \<open>The same context pushed \<open>n\<close> times, and popped once for each given \<^verbatim>\<open>exc\<close>.\<close>

fun AppContext_pushes :: "nat \<Rightarrow> nat \<Rightarrow> state \<Rightarrow> state" where
  "AppContext_pushes 0 a s = s"
| "AppContext_pushes (Suc n) a s = AppContext_pushes n a (AppContext_push a s)"

fun AppContext_pops :: "nat \<Rightarrow> exc_arg list \<Rightarrow> state \<Rightarrow> state" where
  "AppContext_pops a [] s = s"
| "AppContext_pops a (exc # excs) s = AppContext_pops a excs (snd (AppContext_pop a exc s))"

text \<open>
  A run of \<open>n\<close> pushes of one request context stops at the first push that raises; each
  pop is made whatever the pops before it raised.
\<close>

fun RequestContext_pushes :: "nat \<Rightarrow> nat \<Rightarrow> state \<Rightarrow> exn option \<times> state" where
  "RequestContext_pushes 0 r s = (None, s)"
| "RequestContext_pushes (Suc n) r s =
     (case RequestContext_push r s of
        (Some e, s1) \<Rightarrow> (Some e, s1)
      | (None, s1) \<Rightarrow> RequestContext_pushes n r s1)"

fun RequestContext_pops :: "nat \<Rightarrow> exc_arg list \<Rightarrow> state \<Rightarrow> state" where
  "RequestContext_pops r [] s = s"
| "RequestContext_pops r (exc # excs) s =
     RequestContext_pops r excs (snd (RequestContext_pop r exc s))"

text \<open>The events one \<^verbatim>\<open>AppContext.pop\<close> adds to the trace, and the state it leaves.\<close>

definition app_pop_events :: "nat \<Rightarrow> exc_arg \<Rightarrow> state \<Rightarrow> event list" where
  "app_pop_events a exc s =
     (let app = ac_app (app_ctxs s a);
          fs = rev (teardown_appcontext_funcs (apps s app));
          e = resolve_exc exc s;
          torn = (refcnt (app_ctxs s a) \<le> 1);
          err = (if torn then teardown_error fs e else None)
      in (if torn
          then AppTeardown a e # teardown_calls CalledAppTeardown fs e @
               (if err = None then [Signal ''appcontext-tearing-down'' app e] else [])
          else []) @
         (if err = None \<and> LocalStack_top (app_ctx_stack s) = Some a
          then [Signal ''appcontext-popped'' app None] else []))"

definition request_teardown_list :: "nat \<Rightarrow> nat \<Rightarrow> state \<Rightarrow> teardown_func list" where
  "request_teardown_list app t s =
     (let funcs = rev (case teardown_request_funcs (apps s app) None of None \<Rightarrow> [] | Some fs \<Rightarrow> fs)
      in case blueprint (request (req_ctxs s t)) of
           None \<Rightarrow> funcs
         | Some b \<Rightarrow> (case teardown_request_funcs (apps s app) (Some b) of
                        None \<Rightarrow> funcs
                      | Some fs \<Rightarrow> funcs @ rev fs))"

text \<open>The teardown branch of pop: its error and its events.\<close>

definition try_error :: "nat \<Rightarrow> exc_arg \<Rightarrow> state \<Rightarrow> exn option" where
  "try_error r exc s =
     (case LocalStack_top (request_ctx_stack s) of
        None \<Rightarrow> Some (AttributeError ''NoneType object has no attribute request'')
      | Some t \<Rightarrow> teardown_error (request_teardown_list (rc_app (req_ctxs s r)) t s) (resolve_exc exc s))"

definition try_events :: "nat \<Rightarrow> exc_arg \<Rightarrow> state \<Rightarrow> event list" where
  "try_events r exc s =
     RequestTeardown r (resolve_exc exc s) #
     (case LocalStack_top (request_ctx_stack s) of
        None \<Rightarrow> []
      | Some t \<Rightarrow>
          teardown_calls CalledRequestTeardown (request_teardown_list (rc_app (req_ctxs s r)) t s)
            (resolve_exc exc s) @
          (if try_error r exc s = None
           then [Signal ''request-tearing-down'' (rc_app (req_ctxs s r)) (resolve_exc exc s)] else [])) @
     (if try_error r exc s = None \<and> has_close (request (req_ctxs s r)) then [RequestClosed r] else [])"

definition app_pop_error :: "nat \<Rightarrow> exc_arg \<Rightarrow> state \<Rightarrow> exn option" where
  "app_pop_error a exc s =
     (let fs = rev (teardown_appcontext_funcs (apps s (ac_app (app_ctxs s a))));
          err = (if refcnt (app_ctxs s a) \<le> 1 then teardown_error fs (resolve_exc exc s) else None)
      in case err of
           Some e \<Rightarrow> Some e
         | None \<Rightarrow> if LocalStack_top (app_ctx_stack s) = Some a then None
                   else Some (AssertionError ''Popped wrong app context.''))"

section \<open>A small application and a start state\<close>

text \<open>
  The response class of the small application stands in for Werkzeug's, a library whose
  code the application is given from outside. As the setters of Werkzeug's
  \<^verbatim>\<open>BaseResponse\<close> do, it keeps the status line and the status code together: a code sets
  the line to the code and its upper-case phrase (\<^verbatim>\<open>UNKNOWN\<close> for a code without one), a line
  sets the code to its leading number, or to 0 with the line prefixed by \<^verbatim>\<open>0\<close> when there is
  none. Headers are taken as a \<^verbatim>\<open>Headers\<close> object, a dict, or a list or tuple of pairs, with
  strings as keys and values. A WSGI callable given to \<^verbatim>\<open>force_type\<close> is taken to answer
  200 with an empty body, and \<^verbatim>\<open>jsonify\<close> abbreviates the rendering of a dict.
\<close>

fun digits_of :: "nat \<Rightarrow> string" where
  "digits_of n =
     (if n < 10 then [''0123456789'' ! n]
      else digits_of (n div 10) @ [''0123456789'' ! (n mod 10)])"

declare digits_of.simps [simp del]

definition status_phrase :: "int \<Rightarrow> string" where
  "status_phrase n =
     (if n = 200 then ''OK''
      else if n = 201 then ''CREATED''
      else if n = 204 then ''NO CONTENT''
      else if n = 301 then ''MOVED PERMANENTLY''
      else if n = 302 then ''FOUND''
      else if n = 308 then ''PERMANENT REDIRECT''
      else if n = 400 then ''BAD REQUEST''
      else if n = 403 then ''FORBIDDEN''
      else if n = 404 then ''NOT FOUND''
      else if n = 405 then ''METHOD NOT ALLOWED''
      else if n = 500 then ''INTERNAL SERVER ERROR''
      else ''UNKNOWN'')"

definition status_line :: "int \<Rightarrow> string" where
  "status_line n =
     (if n < 0 then CHR ''-'' # digits_of (nat (- n)) else digits_of (nat n))
       @ CHR '' '' # status_phrase n"

definition is_digit :: "char \<Rightarrow> bool" where
  "is_digit c \<longleftrightarrow> c \<in> set ''0123456789''"

definition number_of_digits :: "string \<Rightarrow> int" where
  "number_of_digits ds = foldl (\<lambda>n c. 10 * n + (of_char c - 48)) 0 ds"

definition with_status_code :: "pyval \<Rightarrow> response \<Rightarrow> exn + response" where
  "with_status_code st resp =
     (case st of
        PInt n \<Rightarrow> Inr (resp\<lparr>resp_status := status_line n, resp_status_code := n\<rparr>)
      | _ \<Rightarrow> Inl (TypeError ''%d format: a number is required''))"

definition with_status :: "pyval \<Rightarrow> response \<Rightarrow> exn + response" where
  "with_status st resp =
     (case (case st of PStr l \<Rightarrow> Some l | PBytes l \<Rightarrow> Some l | PByteArray l \<Rightarrow> Some l
            | _ \<Rightarrow> None) of
        None \<Rightarrow> Inl (TypeError ''Invalid status argument'')
      | Some l \<Rightarrow>
          (let word = takeWhile (\<lambda>c. c \<noteq> CHR '' '') (dropWhile (\<lambda>c. c = CHR '' '') l)
           in if word = [] then Inl (builtin_error ''ValueError'' ''Empty status argument'')
              else if list_all is_digit word
              then Inr (resp\<lparr>resp_status := l, resp_status_code := number_of_digits word\<rparr>)
              else Inr (resp\<lparr>resp_status := ''0 '' @ l, resp_status_code := 0\<rparr>)))"

definition pair_of :: "pyval list \<Rightarrow> (string \<times> string) option" where
  "pair_of xs =
     (case xs of
        [k, v] \<Rightarrow> (case k of PStr a \<Rightarrow> (case v of PStr b \<Rightarrow> Some (a, b) | _ \<Rightarrow> None) | _ \<Rightarrow> None)
      | _ \<Rightarrow> None)"

definition header_pair :: "pyval \<Rightarrow> (string \<times> string) option" where
  "header_pair p = (case p of PTuple xs \<Rightarrow> pair_of xs | PList xs \<Rightarrow> pair_of xs | _ \<Rightarrow> None)"

definition header_items :: "pyval \<Rightarrow> (string \<times> string) list option" where
  "header_items h =
     (case h of
        PNone \<Rightarrow> Some []
      | PHeaders hs \<Rightarrow> Some hs
      | PDict kvs \<Rightarrow> those (map (\<lambda>(k, v). case v of PStr x \<Rightarrow> Some (k, x) | _ \<Rightarrow> None) kvs)
      | PList ps \<Rightarrow> those (map header_pair ps)
      | PTuple ps \<Rightarrow> those (map header_pair ps)
      | _ \<Rightarrow> None)"

definition with_headers :: "pyval \<Rightarrow> response \<Rightarrow> exn + response" where
  "with_headers h resp =
     (case header_items h of
        Some hs \<Rightarrow> Inr (resp\<lparr>resp_headers := resp_headers resp @ hs\<rparr>)
      | None \<Rightarrow> Inl (builtin_error ''ValueError'' ''not a list of header pairs''))"

definition demo_response_new :: "pyval \<Rightarrow> pyval \<Rightarrow> pyval \<Rightarrow> exn + response" where
  "demo_response_new rv status headers =
     (let resp = \<lparr>resp_body = (case rv of PStr b \<Rightarrow> b | PBytes b \<Rightarrow> b | PByteArray b \<Rightarrow> b
                                | _ \<Rightarrow> []),
                  resp_status = ''200 OK'', resp_status_code = 200, resp_headers = [],
                  resp_mimetype = ''text/html''\<rparr>
      in case with_headers headers resp of
           Inl e \<Rightarrow> Inl e
         | Inr resp1 \<Rightarrow>
             (case status of
                PNone \<Rightarrow> Inr resp1
              | PInt n \<Rightarrow> with_status_code status resp1
              | _ \<Rightarrow> with_status status resp1))"

definition demo_app :: flask where
  "demo_app =
     \<lparr>teardown_appcontext_funcs =
        [TeardownFunc ''close_db'' (\<lambda>_. None), TeardownFunc ''flush_log'' (\<lambda>_. None)],
      teardown_request_funcs = [None \<mapsto> [TeardownFunc ''release'' (\<lambda>_. None)]],
      before_request_funcs = Map.empty,
      after_request_funcs = Map.empty,
      url_value_preprocessors = Map.empty,
      before_first_request_funcs = [],
      got_first_request = False,
      view_functions = Map.empty,
      error_handler_spec = Map.empty,
      debug = False,
      testing = False,
      PROPAGATE_EXCEPTIONS = None,
      PRESERVE_CONTEXT_ON_EXCEPTION = None,
      TRAP_HTTP_EXCEPTIONS = False,
      TRAP_BAD_REQUEST_ERRORS = None,
      SERVER_NAME = None,
      has_show_exception = True,
      open_session = (\<lambda>_. Some (Session [])),
      save_session = (\<lambda>_ resp. Inr resp),
      bind_to_environ = (\<lambda>_. Inr (UrlAdapter (Inr (\<lparr>endpoint = ''index'',
         provide_automatic_options = True\<rparr>, [])) [''GET'', ''HEAD'', ''OPTIONS''])),
      url_map_bind = Inl (builtin_error ''RuntimeError'' ''unbound''),
      response_class_new = demo_response_new,
      force_type = (\<lambda>rv. case rv of PBaseResponse resp \<Rightarrow> Inr resp
                           | _ \<Rightarrow> demo_response_new PNone PNone PNone),
      jsonify = (\<lambda>_. case demo_response_new (PStr ''{}'') PNone PNone of
                        Inl e \<Rightarrow> Inl e
                      | Inr resp \<Rightarrow> Inr (resp\<lparr>resp_mimetype := ''application/json''\<rparr>)),
      set_status = with_status,
      set_status_code = with_status_code,
      headers_extend = with_headers\<rparr>"

definition ok_response :: response where
  "ok_response = \<lparr>resp_body = ''ok'', resp_status = ''200 OK'', resp_status_code = 200,
     resp_headers = [], resp_mimetype = ''text/html''\<rparr>"

definition demo_request :: request where
  "demo_request = \<lparr>url_rule = None, view_args = None, routing_exception = None,
     req_path = ''/'', req_method = ''GET'', preserve_context_flag = False, werkzeug_request_set = True,
     has_close = True\<rparr>"

definition demo_request_context :: request_context where
  "demo_request_context = \<lparr>rc_app = 0, request = demo_request,
     url_adapter = Some (UrlAdapter (Inr (\<lparr>endpoint = ''index'',
         provide_automatic_options = True\<rparr>, [])) [''GET'', ''HEAD'', ''OPTIONS'']),
     session = None, implicit_app_ctx_stack = [], preserved = False, preserved_exc = None,
     after_request_functions = []\<rparr>"

definition demo_state :: state where
  "demo_state = \<lparr>apps = (\<lambda>_. demo_app), app_ctxs = (\<lambda>_. \<lparr>ac_app = 0, refcnt = 0\<rparr>),
     req_ctxs = (\<lambda>_. demo_request_context), next_ref = 100, app_ctx_stack = [],
     request_ctx_stack = [], exc_info = None, has_exc_clear = False, trace = []\<rparr>"

text \<open>
  The same start state with the application in debug mode, so that a request that ends
  with an error is preserved; a context pushed once, and one pushed twice, each left
  preserved by \<^verbatim>\<open>auto_pop\<close> with an error.
\<close>

definition demo_exn :: exn where
  "demo_exn = builtin_error ''ValueError'' ''boom''"

definition debug_state :: state where
  "debug_state = demo_state\<lparr>apps := (\<lambda>_. demo_app\<lparr>debug := True\<rparr>)\<rparr>"

definition preserved_once_state :: state where
  "preserved_once_state =
     snd (auto_pop 1 (Some demo_exn) (snd (RequestContext_pushes 1 1 debug_state)))"

definition preserved_twice_state :: state where
  "preserved_twice_state =
     snd (auto_pop 1 (Some demo_exn) (snd (RequestContext_pushes 2 1 debug_state)))"

text \<open>
  The router's contract (Werkzeug, and section 6 of the specification): binding and
  matching give a result or raise a routing failure, which is an \<^verbatim>\<open>HTTPException\<close>.
\<close>

definition raises_only_http :: "exn + 'a \<Rightarrow> bool" where
  "raises_only_http res = (case res of Inl e \<Rightarrow> isinstance e ''HTTPException'' | Inr _ \<Rightarrow> True)"

definition NotFound :: exn where
  "NotFound = Exn [''NotFound'', ''HTTPException'', ''Exception'', ''BaseException'', ''object'']
     (Some 404) (Some 404) [] None"

definition no_route_app :: flask where
  "no_route_app = demo_app\<lparr>bind_to_environ := (\<lambda>_. Inr (UrlAdapter (Inl NotFound) []))\<rparr>"

definition no_route_state :: state where
  "no_route_state = demo_state\<lparr>apps := (\<lambda>_. no_route_app)\<rparr>"

text \<open>
  Two applications whose router breaks that contract with a \<^verbatim>\<open>RuntimeError\<close>, as a URL
  converter written for the application may: one when matching, one when binding.
\<close>

definition converter_error :: exn where
  "converter_error = builtin_error ''RuntimeError'' ''converter failed''"

definition failing_match_app :: flask where
  "failing_match_app =
     demo_app\<lparr>bind_to_environ := (\<lambda>_. Inr (UrlAdapter (Inl converter_error) []))\<rparr>"

definition failing_match_state :: state where
  "failing_match_state = demo_state\<lparr>apps := (\<lambda>_. failing_match_app)\<rparr>"

definition failing_bind_app :: flask where
  "failing_bind_app = demo_app\<lparr>bind_to_environ := (\<lambda>_. Inl converter_error)\<rparr>"

definition failing_bind_state :: state where
  "failing_bind_state = demo_state\<lparr>apps := (\<lambda>_. failing_bind_app)\<rparr>"

section \<open>What the callback loops of the pipeline compute\<close>

text \<open>
  The view arguments that a list of URL value preprocessors leaves, and the response that
  a list of \<^verbatim>\<open>after_request\<close> functions leaves, each up to the first that raises.
\<close>

fun uvp_args ::
  "url_value_preprocessor list \<Rightarrow> string option \<Rightarrow> (string \<times> string) list option
     \<Rightarrow> exn + (string \<times> string) list option" where
  "uvp_args [] ep args = Inr args"
| "uvp_args (f # fs) ep args =
     (case uvp_outcome f ep args of Inl e \<Rightarrow> Inl e | Inr args1 \<Rightarrow> uvp_args fs ep args1)"

fun after_result :: "after_func list \<Rightarrow> response \<Rightarrow> exn + response" where
  "after_result [] response = Inr response"
| "after_result (f # fs) response =
     (case af_outcome f response of Inl e \<Rightarrow> Inl e | Inr response1 \<Rightarrow> after_result fs response1)"

definition is_called :: "event \<Rightarrow> bool" where
  "is_called ev = (case ev of Called _ \<Rightarrow> True | _ \<Rightarrow> False)"

text \<open>
  An application with two \<^verbatim>\<open>before_request\<close> functions A and B and two
  \<^verbatim>\<open>after_request\<close> functions C and D, registered in this order, and a view for the
  endpoint \<^verbatim>\<open>index\<close>; a state in which a request matched to that endpoint is on the
  stacks; and the same with a blueprint \<^verbatim>\<open>admin\<close> that has callbacks of its own.
\<close>

definition hooks_app :: flask where
  "hooks_app = demo_app
     \<lparr>before_request_funcs := [None \<mapsto> [BeforeFunc ''A'' (\<lambda>_. Inr PNone), BeforeFunc ''B'' (\<lambda>_. Inr PNone)]],
      after_request_funcs := [None \<mapsto> [AfterFunc ''C'' Inr, AfterFunc ''D'' Inr]],
      view_functions := [''index'' \<mapsto> ViewFunc ''handler'' (\<lambda>_. Inr (PStr ''Hello''))],
      got_first_request := True\<rparr>"

definition index_rule :: url_rule where
  "index_rule = \<lparr>endpoint = ''index'', provide_automatic_options = True\<rparr>"

definition matched_context :: request_context where
  "matched_context = demo_request_context
     \<lparr>request := demo_request\<lparr>url_rule := Some index_rule, view_args := Some []\<rparr>,
      session := Some (Session []), implicit_app_ctx_stack := [Some 100]\<rparr>"

definition hooks_state :: state where
  "hooks_state = demo_state\<lparr>apps := (\<lambda>_. hooks_app), req_ctxs := (\<lambda>_. matched_context),
     next_ref := 101, app_ctx_stack := [100], request_ctx_stack := [5]\<rparr>"

definition admin_rule :: url_rule where
  "admin_rule = \<lparr>endpoint = ''admin.index'', provide_automatic_options = True\<rparr>"

definition admin_app :: flask where
  "admin_app = hooks_app
     \<lparr>before_request_funcs := (before_request_funcs hooks_app)
        (Some ''admin'' \<mapsto> [BeforeFunc ''E'' (\<lambda>_. Inr PNone)]),
      after_request_funcs := (after_request_funcs hooks_app)
        (Some ''admin'' \<mapsto> [AfterFunc ''F'' Inr, AfterFunc ''G'' Inr]),
      view_functions := [''admin.index'' \<mapsto> ViewFunc ''admin_handler'' (\<lambda>_. Inr (PStr ''Admin''))]\<rparr>"

definition admin_state :: state where
  "admin_state = demo_state\<lparr>apps := (\<lambda>_. admin_app),
     req_ctxs := (\<lambda>_. matched_context\<lparr>request := demo_request\<lparr>url_rule := Some admin_rule,
                                                               view_args := Some []\<rparr>\<rparr>),
     next_ref := 101, app_ctx_stack := [100], request_ctx_stack := [5]\<rparr>"

section \<open>The lookup order of error handlers, as the specification words it\<close>

text \<open>
  The handlers registered in a scope (a blueprint, or \<open>None\<close> for the application)
  under a code (\<open>None\<close> for handlers registered without one); the handler found by
  walking a class hierarchy from the most to the least specific class; and the order of
  section 4.4.1, first match wins: the blueprint's handlers for the exact code, the
  application's for the exact code, the blueprint's registered without a code, the
  application's registered without a code.
\<close>

definition handlers_in_scope ::
  "(string option \<rightharpoonup> (int option \<rightharpoonup> (string \<times> error_handler) list))
     \<Rightarrow> string option \<Rightarrow> int option \<Rightarrow> (string \<times> error_handler) list" where
  "handlers_in_scope spec scope c =
     (case spec scope of
        None \<Rightarrow> []
      | Some by_code \<Rightarrow> (case by_code c of None \<Rightarrow> [] | Some handlers \<Rightarrow> handlers))"

definition most_specific_handler ::
  "(string \<times> error_handler) list \<Rightarrow> string list \<Rightarrow> error_handler option" where
  "most_specific_handler handlers hierarchy =
     (case List.find (\<lambda>cls. map_of handlers cls \<noteq> None) hierarchy of
        None \<Rightarrow> None
      | Some cls \<Rightarrow> map_of handlers cls)"

definition handler_lookup_order ::
  "(string option \<rightharpoonup> (int option \<rightharpoonup> (string \<times> error_handler) list))
     \<Rightarrow> string option \<Rightarrow> int option \<Rightarrow> string list \<Rightarrow> error_handler option" where
  "handler_lookup_order spec bp code hierarchy =
     (case most_specific_handler (handlers_in_scope spec bp code) hierarchy of
        Some h \<Rightarrow> Some h
      | None \<Rightarrow>
          (case most_specific_handler (handlers_in_scope spec None code) hierarchy of
             Some h \<Rightarrow> Some h
           | None \<Rightarrow>
               (case most_specific_handler (handlers_in_scope spec bp None) hierarchy of
                  Some h \<Rightarrow> Some h
                | None \<Rightarrow> most_specific_handler (handlers_in_scope spec None None) hierarchy)))"

text \<open>The same for any list of scopes and codes, tried in order.\<close>

fun first_in_scopes ::
  "(string option \<rightharpoonup> (int option \<rightharpoonup> (string \<times> error_handler) list))
     \<Rightarrow> (string option \<times> int option) list \<Rightarrow> string list \<Rightarrow> error_handler option" where
  "first_in_scopes spec [] hierarchy = None"
| "first_in_scopes spec ((scope, c) # rest) hierarchy =
     (case most_specific_handler (handlers_in_scope spec scope c) hierarchy of
        Some h \<Rightarrow> Some h
      | None \<Rightarrow> first_in_scopes spec rest hierarchy)"

text \<open>
  Exceptions and applications for the examples: Werkzeug's \<^verbatim>\<open>RequestRedirect\<close>, which is
  an \<^verbatim>\<open>HTTPException\<close> and a \<^verbatim>\<open>RoutingException\<close>; an application in the blueprint
  \<^verbatim>\<open>admin\<close> with a handler for the code 404 in the blueprint and handlers for the classes
  \<^verbatim>\<open>NotFound\<close> and \<^verbatim>\<open>HTTPException\<close> in the application; an application whose handler for
  the code 500 returns \<^verbatim>\<open>None\<close>; and one whose \<^verbatim>\<open>after_request\<close> function raises.
\<close>

definition RequestRedirect :: exn where
  "RequestRedirect = Exn [''RequestRedirect'', ''HTTPException'', ''RoutingException'',
     ''Exception'', ''BaseException'', ''object''] (Some 308) (Some 308) [] None"

definition handlers_app :: flask where
  "handlers_app = admin_app
     \<lparr>error_handler_spec :=
        [Some ''admin'' \<mapsto> [Some 404 \<mapsto> [(''NotFound'', ErrorHandler ''admin_404'' (\<lambda>_. Inr (PStr ''admin: not found'')))]],
         None \<mapsto> [Some 404 \<mapsto> [(''NotFound'', ErrorHandler ''app_not_found'' (\<lambda>_. Inr (PStr ''not found'')))],
                  None \<mapsto> [(''HTTPException'', ErrorHandler ''app_http'' (\<lambda>_. Inr (PStr ''http error'')))]]]\<rparr>"

definition handling_state :: "exn \<Rightarrow> state" where
  "handling_state e = admin_state\<lparr>apps := (\<lambda>_. handlers_app), exc_info := Some e\<rparr>"

definition none_handler_app :: flask where
  "none_handler_app = hooks_app
     \<lparr>error_handler_spec :=
        [None \<mapsto> [Some 500 \<mapsto> [(''InternalServerError'', ErrorHandler ''on_500'' (\<lambda>_. Inr PNone))]]]\<rparr>"

definition none_handler_state :: state where
  "none_handler_state = hooks_state\<lparr>apps := (\<lambda>_. none_handler_app), exc_info := Some demo_exn\<rparr>"

definition failing_after_app :: flask where
  "failing_after_app = hooks_app
     \<lparr>after_request_funcs := [None \<mapsto> [AfterFunc ''C'' (\<lambda>_. Inl demo_exn)]]\<rparr>"

definition failing_after_state :: state where
  "failing_after_state = hooks_state\<lparr>apps := (\<lambda>_. failing_after_app)\<rparr>"

section \<open>Facts about the application context\<close>

lemma call_teardown_funcs_eq:
  "call_teardown_funcs called fs exc s =
     (teardown_error fs exc, s\<lparr>trace := trace s @ teardown_calls called fs exc\<rparr>)"
  by (induction fs arbitrary: s) (auto simp: log_event_def split: option.splits)

lemma teardown_calls_never_raises:
  "never_raises fs exc \<Longrightarrow> teardown_calls called fs exc = map (\<lambda>f. called (tf_name f) exc) fs"
  by (induction fs) (simp_all add: never_raises_def)

lemma teardown_error_never_raises:
  "never_raises fs exc \<Longrightarrow> teardown_error fs exc = None"
  by (induction fs) (simp_all add: never_raises_def)

lemma teardown_calls_no_app_marks [simp]:
  "filter (is_app_teardown a) (teardown_calls CalledAppTeardown fs e) = []"
  "filter (is_app_teardown a) (teardown_calls CalledRequestTeardown fs e) = []"
  by (induction fs) (auto simp: is_app_teardown_def split: option.splits)

lemma teardown_calls_no_request_marks [simp]:
  "filter (is_request_teardown r) (teardown_calls CalledAppTeardown fs e) = []"
  "filter (is_request_closed r) (teardown_calls CalledAppTeardown fs e) = []"
  "filter (is_request_teardown r) (teardown_calls CalledRequestTeardown fs e) = []"
  "filter (is_request_closed r) (teardown_calls CalledRequestTeardown fs e) = []"
  by (induction fs) (auto simp: is_request_teardown_def is_request_closed_def split: option.splits)

lemma teardown_calls_all_calls [simp]:
  "filter is_app_teardown_call (teardown_calls CalledAppTeardown fs e)
     = teardown_calls CalledAppTeardown fs e"
  "filter is_request_teardown_call (teardown_calls CalledRequestTeardown fs e)
     = teardown_calls CalledRequestTeardown fs e"
  "filter is_request_teardown_call (teardown_calls CalledAppTeardown fs e) = []"
  "filter is_app_teardown_call (teardown_calls CalledRequestTeardown fs e) = []"
  by (induction fs)
     (auto simp: is_app_teardown_call_def is_request_teardown_call_def split: option.splits)

lemma resolve_exc_simps [simp]:
  "resolve_exc (Given e) s = e"
  "resolve_exc exc (s\<lparr>trace := tr\<rparr>) = resolve_exc exc s"
  "resolve_exc exc (s\<lparr>app_ctxs := ac\<rparr>) = resolve_exc exc s"
  "resolve_exc exc (s\<lparr>req_ctxs := rc\<rparr>) = resolve_exc exc s"
  "resolve_exc exc (s\<lparr>app_ctx_stack := st\<rparr>) = resolve_exc exc s"
  "resolve_exc exc (s\<lparr>request_ctx_stack := st\<rparr>) = resolve_exc exc s"
  by (simp_all add: resolve_exc_def split: exc_arg.splits)

lemma do_teardown_appcontext_eq:
  "do_teardown_appcontext app exc s =
     (let fs = rev (teardown_appcontext_funcs (apps s app)); e = resolve_exc exc s
      in (teardown_error fs e,
          s\<lparr>trace := trace s @ teardown_calls CalledAppTeardown fs e @
             (if teardown_error fs e = None then [Signal ''appcontext-tearing-down'' app e] else [])\<rparr>))"
  by (simp add: do_teardown_appcontext_def call_teardown_funcs_eq Let_def log_event_def
      split: option.splits)

lemma AppContext_pop_state:
  "snd (AppContext_pop a exc s) =
     s\<lparr>app_ctxs := (app_ctxs s)(a := (app_ctxs s a)\<lparr>refcnt := refcnt (app_ctxs s a) - 1\<rparr>),
       app_ctx_stack := tl (app_ctx_stack s),
       trace := trace s @ app_pop_events a exc s\<rparr>"
  by (auto simp: AppContext_pop_def Let_def do_teardown_appcontext_eq app_pop_events_def
      log_event_def LocalStack_pop_def LocalStack_top_def split: option.splits list.splits prod.splits)

lemma AppContext_push_facts:
  "refcnt (app_ctxs (AppContext_push a s) a) = refcnt (app_ctxs s a) + 1"
  "app_ctx_stack (AppContext_push a s) = a # app_ctx_stack s"
  "trace (AppContext_push a s) = trace s @ [Signal ''appcontext-pushed'' (ac_app (app_ctxs s a)) None]"
  "apps (AppContext_push a s) = apps s"
  "ac_app (app_ctxs (AppContext_push a s) b) = ac_app (app_ctxs s b)"
  "exc_info (AppContext_push a s) = exc_info (exc_clear s)"
  by (simp_all add: AppContext_push_def Let_def log_event_def exc_clear_def)

lemma AppContext_pushes_facts:
  "refcnt (app_ctxs (AppContext_pushes n a s) a) = refcnt (app_ctxs s a) + int n"
  "filter (is_app_teardown a) (trace (AppContext_pushes n a s)) = filter (is_app_teardown a) (trace s)"
  "filter is_app_teardown_call (trace (AppContext_pushes n a s)) = filter is_app_teardown_call (trace s)"
  "apps (AppContext_pushes n a s) = apps s"
  "ac_app (app_ctxs (AppContext_pushes n a s) b) = ac_app (app_ctxs s b)"
  by (induction n arbitrary: s)
     (simp_all add: AppContext_push_facts is_app_teardown_def is_app_teardown_call_def)

lemma app_pop_events_quiet:
  "1 < refcnt (app_ctxs s a) \<Longrightarrow> filter (is_app_teardown a) (app_pop_events a exc s) = []"
  "1 < refcnt (app_ctxs s a) \<Longrightarrow> filter is_app_teardown_call (app_pop_events a exc s) = []"
  by (simp_all add: app_pop_events_def Let_def is_app_teardown_def is_app_teardown_call_def)

lemma app_pop_events_final:
  "refcnt (app_ctxs s a) \<le> 1 \<Longrightarrow>
     filter (is_app_teardown a) (app_pop_events a exc s) = [AppTeardown a (resolve_exc exc s)]"
  "refcnt (app_ctxs s a) \<le> 1 \<Longrightarrow>
     filter is_app_teardown_call (app_pop_events a exc s) =
       teardown_calls CalledAppTeardown
         (rev (teardown_appcontext_funcs (apps s (ac_app (app_ctxs s a))))) (resolve_exc exc s)"
  by (simp_all add: app_pop_events_def Let_def is_app_teardown_def is_app_teardown_call_def)

lemma AppContext_pops_append:
  "AppContext_pops a (xs @ ys) s = AppContext_pops a ys (AppContext_pops a xs s)"
  by (induction xs arbitrary: s) simp_all

lemma AppContext_pops_frame:
  "apps (AppContext_pops a excs s) = apps s"
  "ac_app (app_ctxs (AppContext_pops a excs s) b) = ac_app (app_ctxs s b)"
  "exc_info (AppContext_pops a excs s) = exc_info s"
  by (induction excs arbitrary: s) (simp_all add: AppContext_pop_state)

lemma AppContext_pops_quiet:
  "int (length excs) < refcnt (app_ctxs s a) \<Longrightarrow>
     refcnt (app_ctxs (AppContext_pops a excs s) a) = refcnt (app_ctxs s a) - int (length excs)
   \<and> filter (is_app_teardown a) (trace (AppContext_pops a excs s)) = filter (is_app_teardown a) (trace s)
   \<and> filter is_app_teardown_call (trace (AppContext_pops a excs s)) = filter is_app_teardown_call (trace s)"
proof (induction excs arbitrary: s)
  case Nil
  then show ?case by simp
next
  case (Cons x xs)
  let ?s1 = "snd (AppContext_pop a x s)"
  from Cons.prems have big: "1 < refcnt (app_ctxs s a)" by simp
  have r1: "refcnt (app_ctxs ?s1 a) = refcnt (app_ctxs s a) - 1"
    by (simp add: AppContext_pop_state)
  with Cons.prems have "int (length xs) < refcnt (app_ctxs ?s1 a)" by simp
  from Cons.IH [OF this] r1 big show ?case
    by (simp add: AppContext_pop_state app_pop_events_quiet)
qed

section \<open>Facts about the request context\<close>

lemma do_teardown_request_eq:
  "do_teardown_request app exc s =
     (case LocalStack_top (request_ctx_stack s) of
        None \<Rightarrow> (Some (AttributeError ''NoneType object has no attribute request''), s)
      | Some t \<Rightarrow>
          (let fs = request_teardown_list app t s; e = resolve_exc exc s
           in (teardown_error fs e,
               s\<lparr>trace := trace s @ teardown_calls CalledRequestTeardown fs e @
                  (if teardown_error fs e = None then [Signal ''request-tearing-down'' app e] else [])\<rparr>)))"
  by (simp add: do_teardown_request_def request_teardown_list_def call_teardown_funcs_eq Let_def
      log_event_def split: option.splits)

lemma request_teardown_list_frame [simp]:
  "request_teardown_list app t (s\<lparr>trace := tr\<rparr>) = request_teardown_list app t s"
  "request_teardown_list app t (s\<lparr>req_ctxs := (req_ctxs s)(r := (req_ctxs s r)\<lparr>preserved := b, preserved_exc := pe\<rparr>)\<rparr>)
     = request_teardown_list app t s"
  by (simp_all add: request_teardown_list_def Let_def cong: option.case_cong)

lemma RequestContext_pop_try_eq:
  "RequestContext_pop_try r exc s =
     (if implicit_app_ctx_stack (req_ctxs s r) = [] then
        (try_error r exc s, Given (resolve_exc exc s), try_error r exc s = None,
         s\<lparr>req_ctxs := (req_ctxs s)(r := (req_ctxs s r)\<lparr>preserved := False, preserved_exc := None\<rparr>),
           exc_info := (if try_error r exc s = None \<and> has_exc_clear s then None else exc_info s),
           trace := trace s @ try_events r exc s\<rparr>)
      else (None, exc, False, s))"
  by (auto simp: RequestContext_pop_try_def do_teardown_request_eq try_error_def try_events_def
      Let_def log_event_def exc_clear_def split: option.splits)

lemma AppContext_pop_error: "fst (AppContext_pop a exc s) = app_pop_error a exc s"
  by (auto simp: AppContext_pop_def Let_def do_teardown_appcontext_eq app_pop_error_def
      log_event_def LocalStack_pop_def LocalStack_top_def split: option.splits list.splits prod.splits)

lemma AppContext_pop_eq:
  "AppContext_pop a exc s =
     (app_pop_error a exc s,
      s\<lparr>app_ctxs := (app_ctxs s)(a := (app_ctxs s a)\<lparr>refcnt := refcnt (app_ctxs s a) - 1\<rparr>),
        app_ctx_stack := tl (app_ctx_stack s),
        trace := trace s @ app_pop_events a exc s\<rparr>)"
  using AppContext_pop_error [of a exc s] AppContext_pop_state [of a exc s]
  by (cases "AppContext_pop a exc s") simp

lemma app_pop_events_no_request_marks [simp]:
  "filter (is_request_teardown q) (app_pop_events a exc s) = []"
  "filter (is_request_closed q) (app_pop_events a exc s) = []"
  by (simp_all add: app_pop_events_def Let_def is_request_teardown_def is_request_closed_def)

lemma RequestContext_pop_finally_obs:
  "implicit_app_ctx_stack (req_ctxs (snd (RequestContext_pop_finally r app_ctx err exc1 cl s)) q)
     = implicit_app_ctx_stack (req_ctxs s q)"
  "preserved (req_ctxs (snd (RequestContext_pop_finally r app_ctx err exc1 cl s)) q)
     = preserved (req_ctxs s q)"
  "preserved_exc (req_ctxs (snd (RequestContext_pop_finally r app_ctx err exc1 cl s)) q)
     = preserved_exc (req_ctxs s q)"
  "rc_app (req_ctxs (snd (RequestContext_pop_finally r app_ctx err exc1 cl s)) q)
     = rc_app (req_ctxs s q)"
  "request_ctx_stack (snd (RequestContext_pop_finally r app_ctx err exc1 cl s))
     = tl (request_ctx_stack s)"
  "filter (is_request_teardown q) (trace (snd (RequestContext_pop_finally r app_ctx err exc1 cl s)))
     = filter (is_request_teardown q) (trace s)"
  "filter (is_request_closed q) (trace (snd (RequestContext_pop_finally r app_ctx err exc1 cl s)))
     = filter (is_request_closed q) (trace s)"
  "apps (snd (RequestContext_pop_finally r app_ctx err exc1 cl s)) = apps s"
  by (auto simp: RequestContext_pop_finally_def AppContext_pop_eq LocalStack_pop_def Let_def
      split: list.splits option.splits bool.splits)

lemma try_events_marks:
  "filter (is_request_teardown q) (try_events r exc s) =
     (if q = r then [RequestTeardown r (resolve_exc exc s)] else [])"
  by (simp add: try_events_def is_request_teardown_def split: option.splits)

lemma resolve_exc_implicit [simp]:
  "resolve_exc exc (s\<lparr>req_ctxs := rc\<rparr>) = resolve_exc exc s"
  by (simp add: resolve_exc_def split: exc_arg.splits)

lemma RequestContext_pop_obs:
  "implicit_app_ctx_stack (req_ctxs (snd (RequestContext_pop r exc s)) q) =
     (if q = r then tl (implicit_app_ctx_stack (req_ctxs s r)) else implicit_app_ctx_stack (req_ctxs s q))"
  "preserved (req_ctxs (snd (RequestContext_pop r exc s)) q) =
     (if q = r \<and> length (implicit_app_ctx_stack (req_ctxs s r)) = 1 then False
      else preserved (req_ctxs s q))"
  "rc_app (req_ctxs (snd (RequestContext_pop r exc s)) q) = rc_app (req_ctxs s q)"
  "request_ctx_stack (snd (RequestContext_pop r exc s)) =
     (if implicit_app_ctx_stack (req_ctxs s r) = [] then request_ctx_stack s
      else tl (request_ctx_stack s))"
  "filter (is_request_teardown q) (trace (snd (RequestContext_pop r exc s))) =
     filter (is_request_teardown q) (trace s) @
     (if q = r \<and> length (implicit_app_ctx_stack (req_ctxs s r)) = 1
      then [RequestTeardown r (resolve_exc exc s)] else [])"
  "apps (snd (RequestContext_pop r exc s)) = apps s"
  by (cases "implicit_app_ctx_stack (req_ctxs s r)";
      simp add: RequestContext_pop_def RequestContext_pop_try_eq RequestContext_pop_finally_obs
        try_events_marks Let_def)+

lemma push_app_context_obs:
  "implicit_app_ctx_stack (req_ctxs (push_app_context r s) q) =
     (if q = r
      then (if (case LocalStack_top (app_ctx_stack s) of None \<Rightarrow> False
                | Some t \<Rightarrow> ac_app (app_ctxs s t) = rc_app (req_ctxs s r))
            then None else Some (next_ref s)) # implicit_app_ctx_stack (req_ctxs s r)
      else implicit_app_ctx_stack (req_ctxs s q))"
  "preserved (req_ctxs (push_app_context r s) q) = preserved (req_ctxs s q)"
  "preserved_exc (req_ctxs (push_app_context r s) q) = preserved_exc (req_ctxs s q)"
  "rc_app (req_ctxs (push_app_context r s) q) = rc_app (req_ctxs s q)"
  "request (req_ctxs (push_app_context r s) q) = request (req_ctxs s q)"
  "url_adapter (req_ctxs (push_app_context r s) q) = url_adapter (req_ctxs s q)"
  "session (req_ctxs (push_app_context r s) q) = session (req_ctxs s q)"
  "request_ctx_stack (push_app_context r s) = request_ctx_stack s"
  "filter (is_request_teardown q) (trace (push_app_context r s)) = filter (is_request_teardown q) (trace s)"
  "filter (is_request_closed q) (trace (push_app_context r s)) = filter (is_request_closed q) (trace s)"
  "apps (push_app_context r s) = apps s"
  by (simp_all add: push_app_context_def Let_def AppContext_push_def log_event_def exc_clear_def
      is_request_teardown_def is_request_closed_def)

lemma push_open_session_obs:
  "implicit_app_ctx_stack (req_ctxs (push_open_session r s) q) = implicit_app_ctx_stack (req_ctxs s q)"
  "preserved (req_ctxs (push_open_session r s) q) = preserved (req_ctxs s q)"
  "preserved_exc (req_ctxs (push_open_session r s) q) = preserved_exc (req_ctxs s q)"
  "rc_app (req_ctxs (push_open_session r s) q) = rc_app (req_ctxs s q)"
  "request (req_ctxs (push_open_session r s) q) = request (req_ctxs s q)"
  "url_adapter (req_ctxs (push_open_session r s) q) = url_adapter (req_ctxs s q)"
  "request_ctx_stack (push_open_session r s) = request_ctx_stack s"
  "trace (push_open_session r s) = trace s"
  "apps (push_open_session r s) = apps s"
  by (simp_all add: push_open_session_def Let_def split: option.splits)

lemma match_request_obs:
  "implicit_app_ctx_stack (req_ctxs (snd (match_request r s)) q) = implicit_app_ctx_stack (req_ctxs s q)"
  "preserved (req_ctxs (snd (match_request r s)) q) = preserved (req_ctxs s q)"
  "preserved_exc (req_ctxs (snd (match_request r s)) q) = preserved_exc (req_ctxs s q)"
  "rc_app (req_ctxs (snd (match_request r s)) q) = rc_app (req_ctxs s q)"
  "request_ctx_stack (snd (match_request r s)) = request_ctx_stack s"
  "trace (snd (match_request r s)) = trace s"
  "apps (snd (match_request r s)) = apps s"
  by (simp_all add: match_request_def Let_def split: option.splits sum.splits prod.splits)

lemma exc_clear_obs [simp]:
  "req_ctxs (exc_clear s) = req_ctxs s"
  "request_ctx_stack (exc_clear s) = request_ctx_stack s"
  "app_ctx_stack (exc_clear s) = app_ctx_stack s"
  "app_ctxs (exc_clear s) = app_ctxs s"
  "trace (exc_clear s) = trace s"
  "apps (exc_clear s) = apps s"
  by (simp_all add: exc_clear_def)

text \<open>After the reclaim step, the rest of push.\<close>

lemma push_reclaim_obs:
  assumes "\<not> preserved (req_ctxs s r)"
  shows "implicit_app_ctx_stack (req_ctxs (snd (push_reclaim_preserved s)) r) = implicit_app_ctx_stack (req_ctxs s r)"
    and "\<not> preserved (req_ctxs (snd (push_reclaim_preserved s)) r)"
    and "filter (is_request_teardown r) (trace (snd (push_reclaim_preserved s))) = filter (is_request_teardown r) (trace s)"
  using assms
  by (auto simp: push_reclaim_preserved_def RequestContext_pop_obs LocalStack_top_def split: list.splits)

lemma RequestContext_push_obs:
  assumes np: "\<not> preserved (req_ctxs s r)" and ok: "RequestContext_push r s = (None, s')"
  shows "length (implicit_app_ctx_stack (req_ctxs s' r)) = Suc (length (implicit_app_ctx_stack (req_ctxs s r)))"
    and "\<not> preserved (req_ctxs s' r)"
    and "filter (is_request_teardown r) (trace s') = filter (is_request_teardown r) (trace s)"
proof -
  obtain e0 s0 where rec: "push_reclaim_preserved s = (e0, s0)" by (cases "push_reclaim_preserved s")
  with ok have e0: "e0 = None" by (auto simp: RequestContext_push_def split: option.splits)
  let ?s3 = "(exc_clear (push_app_context r s0))\<lparr>request_ctx_stack := r # request_ctx_stack (exc_clear (push_app_context r s0))\<rparr>"
  let ?s4 = "push_open_session r ?s3"
  from ok rec e0 have s': "s' = (if url_adapter (req_ctxs ?s4 r) \<noteq> None then snd (match_request r ?s4) else ?s4)"
    by (auto simp: RequestContext_push_def Let_def split: if_splits)
  from push_reclaim_obs [OF np] rec have
    a: "implicit_app_ctx_stack (req_ctxs s0 r) = implicit_app_ctx_stack (req_ctxs s r)"
    and b: "\<not> preserved (req_ctxs s0 r)"
    and c: "filter (is_request_teardown r) (trace s0) = filter (is_request_teardown r) (trace s)"
    by simp_all
  show "length (implicit_app_ctx_stack (req_ctxs s' r)) = Suc (length (implicit_app_ctx_stack (req_ctxs s r)))"
    by (simp add: s' match_request_obs push_open_session_obs push_app_context_obs a)
  show "\<not> preserved (req_ctxs s' r)"
    by (simp add: s' match_request_obs push_open_session_obs push_app_context_obs b)
  show "filter (is_request_teardown r) (trace s') = filter (is_request_teardown r) (trace s)"
    by (simp add: s' match_request_obs push_open_session_obs push_app_context_obs c)
qed

lemma request_teardown_list_frame2 [simp]:
  "request_teardown_list app t (s\<lparr>req_ctxs := (req_ctxs s)(q := (req_ctxs s q)\<lparr>implicit_app_ctx_stack := x\<rparr>)\<rparr>)
     = request_teardown_list app t s"
  by (cases "t = q") (simp_all add: request_teardown_list_def Let_def cong: option.case_cong)

lemma try_error_frame [simp]:
  "try_error r exc (s\<lparr>req_ctxs := (req_ctxs s)(q := (req_ctxs s q)\<lparr>implicit_app_ctx_stack := x\<rparr>)\<rparr>)
     = try_error r exc s"
  by (cases "r = q") (simp_all add: try_error_def cong: option.case_cong)

lemma try_events_closed:
  "filter (is_request_closed q) (try_events r exc s) =
     (if q = r \<and> try_error r exc s = None \<and> has_close (request (req_ctxs s r))
      then [RequestClosed r] else [])"
  by (simp add: try_events_def is_request_closed_def split: option.splits)

lemma RequestContext_pop_finally_obs2:
  "exc_info (snd (RequestContext_pop_finally r app_ctx err exc1 cl s)) = exc_info s"
  "has_exc_clear (snd (RequestContext_pop_finally r app_ctx err exc1 cl s)) = has_exc_clear s"
  "\<not> cl \<Longrightarrow> request (req_ctxs (snd (RequestContext_pop_finally r app_ctx err exc1 cl s)) q)
     = request (req_ctxs s q)"
  by (auto simp: RequestContext_pop_finally_def AppContext_pop_eq LocalStack_pop_def Let_def
      split: list.splits option.splits bool.splits)

lemma RequestContext_pop_closed:
  "filter (is_request_closed q) (trace (snd (RequestContext_pop r exc s))) =
     filter (is_request_closed q) (trace s) @
     (if q = r \<and> length (implicit_app_ctx_stack (req_ctxs s r)) = 1
         \<and> try_error r exc s = None \<and> has_close (request (req_ctxs s r))
      then [RequestClosed r] else [])"
  by (cases "implicit_app_ctx_stack (req_ctxs s r)";
      simp add: RequestContext_pop_def RequestContext_pop_try_eq RequestContext_pop_finally_obs
        try_events_closed Let_def)

lemma RequestContext_pop_intermediate:
  assumes "length (implicit_app_ctx_stack (req_ctxs s r)) \<noteq> 1"
  shows "exc_info (snd (RequestContext_pop r exc s)) = exc_info s"
    and "has_exc_clear (snd (RequestContext_pop r exc s)) = has_exc_clear s"
    and "request (req_ctxs (snd (RequestContext_pop r exc s)) q) = request (req_ctxs s q)"
  using assms
  by (cases "implicit_app_ctx_stack (req_ctxs s r)";
      simp add: RequestContext_pop_def RequestContext_pop_try_eq RequestContext_pop_finally_obs2 Let_def)+

lemma try_error_cong:
  assumes "LocalStack_top (request_ctx_stack s) = LocalStack_top (request_ctx_stack s')"
    and "apps s = apps s'" and "exc_info s = exc_info s'"
    and "rc_app (req_ctxs s r) = rc_app (req_ctxs s' r)"
    and "\<And>q. request (req_ctxs s q) = request (req_ctxs s' q)"
  shows "try_error r exc s = try_error r exc s'"
  using assms
  by (simp add: try_error_def request_teardown_list_def Let_def resolve_exc_def
      cong: option.case_cong exc_arg.case_cong)

lemma RequestContext_push_obs2:
  assumes np: "\<not> preserved (req_ctxs s r)" and ok: "RequestContext_push r s = (None, s')"
  shows "LocalStack_top (request_ctx_stack s') = Some r"
    and "filter (is_request_closed r) (trace s') = filter (is_request_closed r) (trace s)"
    and "rc_app (req_ctxs s' r) = rc_app (req_ctxs s r)"
    and "apps s' = apps s"
proof -
  obtain e0 s0 where rec: "push_reclaim_preserved s = (e0, s0)" by (cases "push_reclaim_preserved s")
  with ok have e0: "e0 = None" by (auto simp: RequestContext_push_def split: option.splits)
  let ?s3 = "(exc_clear (push_app_context r s0))\<lparr>request_ctx_stack := r # request_ctx_stack (exc_clear (push_app_context r s0))\<rparr>"
  let ?s4 = "push_open_session r ?s3"
  from ok rec e0 have s': "s' = (if url_adapter (req_ctxs ?s4 r) \<noteq> None then snd (match_request r ?s4) else ?s4)"
    by (auto simp: RequestContext_push_def Let_def split: if_splits)
  have s0: "s0 = snd (push_reclaim_preserved s)" using rec by simp
  have c: "filter (is_request_closed r) (trace s0) = filter (is_request_closed r) (trace s)"
    using np unfolding s0
    by (auto simp: push_reclaim_preserved_def RequestContext_pop_closed LocalStack_top_def split: list.splits)
  have d: "rc_app (req_ctxs s0 r) = rc_app (req_ctxs s r)" "apps s0 = apps s"
    unfolding s0
    by (auto simp: push_reclaim_preserved_def RequestContext_pop_obs LocalStack_top_def split: list.splits)
  show "LocalStack_top (request_ctx_stack s') = Some r"
    by (simp add: s' match_request_obs push_open_session_obs LocalStack_top_def)
  show "filter (is_request_closed r) (trace s') = filter (is_request_closed r) (trace s)"
    by (simp add: s' match_request_obs push_open_session_obs push_app_context_obs c)
  show "rc_app (req_ctxs s' r) = rc_app (req_ctxs s r)"
    by (simp add: s' match_request_obs push_open_session_obs push_app_context_obs d)
  show "apps s' = apps s"
    by (simp add: s' match_request_obs push_open_session_obs push_app_context_obs d)
qed

text \<open>What a run of successful pushes of a context that is not preserved leaves.\<close>

lemma RequestContext_pushes_obs:
  assumes "\<not> preserved (req_ctxs s r)" and "RequestContext_pushes n r s = (None, s')"
  shows "length (implicit_app_ctx_stack (req_ctxs s' r)) = length (implicit_app_ctx_stack (req_ctxs s r)) + n
       \<and> \<not> preserved (req_ctxs s' r)
       \<and> filter (is_request_teardown r) (trace s') = filter (is_request_teardown r) (trace s)
       \<and> filter (is_request_closed r) (trace s') = filter (is_request_closed r) (trace s)
       \<and> (0 < n \<longrightarrow> LocalStack_top (request_ctx_stack s') = Some r)"
  using assms
proof (induction n arbitrary: s)
  case 0
  then show ?case by simp
next
  case (Suc n)
  obtain e1 s1 where p: "RequestContext_push r s = (e1, s1)" by (cases "RequestContext_push r s")
  with Suc.prems(2) have e1: "e1 = None" and rest: "RequestContext_pushes n r s1 = (None, s')"
    by (auto split: option.splits)
  note o1 = RequestContext_push_obs [OF Suc.prems(1) p [unfolded e1]]
  note o2 = RequestContext_push_obs2 [OF Suc.prems(1) p [unfolded e1]]
  from Suc.IH [OF o1(2) rest] o1 o2 rest show ?case
    by (cases n) auto
qed


lemma RequestContext_pops_append:
  "RequestContext_pops r (xs @ ys) s = RequestContext_pops r ys (RequestContext_pops r xs s)"
  by (induction xs arbitrary: s) simp_all

text \<open>Fewer pops than pushes outstanding: nothing of the teardown sequence happens.\<close>

lemma RequestContext_pops_quiet:
  "length excs < length (implicit_app_ctx_stack (req_ctxs s r)) \<Longrightarrow>
     length (implicit_app_ctx_stack (req_ctxs (RequestContext_pops r excs s) r))
       = length (implicit_app_ctx_stack (req_ctxs s r)) - length excs
   \<and> filter (is_request_teardown r) (trace (RequestContext_pops r excs s))
       = filter (is_request_teardown r) (trace s)
   \<and> filter (is_request_closed r) (trace (RequestContext_pops r excs s))
       = filter (is_request_closed r) (trace s)
   \<and> exc_info (RequestContext_pops r excs s) = exc_info s
   \<and> apps (RequestContext_pops r excs s) = apps s
   \<and> rc_app (req_ctxs (RequestContext_pops r excs s) r) = rc_app (req_ctxs s r)
   \<and> (\<forall>q. request (req_ctxs (RequestContext_pops r excs s) q) = request (req_ctxs s q))
   \<and> request_ctx_stack (RequestContext_pops r excs s) = drop (length excs) (request_ctx_stack s)"
proof (induction excs arbitrary: s)
  case Nil
  then show ?case by simp
next
  case (Cons x xs)
  let ?s1 = "snd (RequestContext_pop r x s)"
  from Cons.prems have big: "length (implicit_app_ctx_stack (req_ctxs s r)) \<noteq> 1"
    and ne: "implicit_app_ctx_stack (req_ctxs s r) \<noteq> []" by auto
  have l1: "length (implicit_app_ctx_stack (req_ctxs ?s1 r)) = length (implicit_app_ctx_stack (req_ctxs s r)) - 1"
    by (simp add: RequestContext_pop_obs)
  with Cons.prems have "length xs < length (implicit_app_ctx_stack (req_ctxs ?s1 r))" by simp
  from Cons.IH [OF this] l1 big ne show ?case
    by (simp add: RequestContext_pop_obs RequestContext_pop_closed RequestContext_pop_intermediate
        drop_Suc)
qed


lemma RequestContext_push_on_top:
  assumes np: "\<not> preserved (req_ctxs s r)" and top: "LocalStack_top (request_ctx_stack s) = Some r"
    and ok: "RequestContext_push r s = (None, s')"
  shows "request_ctx_stack s' = r # request_ctx_stack s"
proof -
  from np top have rec: "push_reclaim_preserved s = (None, s)"
    by (simp add: push_reclaim_preserved_def)
  let ?s3 = "(exc_clear (push_app_context r s))\<lparr>request_ctx_stack := r # request_ctx_stack (exc_clear (push_app_context r s))\<rparr>"
  let ?s4 = "push_open_session r ?s3"
  from ok rec have s': "s' = (if url_adapter (req_ctxs ?s4 r) \<noteq> None then snd (match_request r ?s4) else ?s4)"
    by (auto simp: RequestContext_push_def Let_def split: if_splits)
  show ?thesis
    by (simp add: s' match_request_obs push_open_session_obs push_app_context_obs)
qed

lemma RequestContext_pushes_on_top:
  assumes "\<not> preserved (req_ctxs s r)" and "LocalStack_top (request_ctx_stack s) = Some r"
    and "RequestContext_pushes n r s = (None, s')"
  shows "request_ctx_stack s' = replicate n r @ request_ctx_stack s"
  using assms
proof (induction n arbitrary: s)
  case 0
  then show ?case by simp
next
  case (Suc n)
  obtain e1 s1 where p: "RequestContext_push r s = (e1, s1)" by (cases "RequestContext_push r s")
  with Suc.prems(3) have e1: "e1 = None" and rest: "RequestContext_pushes n r s1 = (None, s')"
    by (auto split: option.splits)
  note o1 = RequestContext_push_obs [OF Suc.prems(1) p [unfolded e1]]
  note o2 = RequestContext_push_obs2 [OF Suc.prems(1) p [unfolded e1]]
  note o3 = RequestContext_push_on_top [OF Suc.prems(1,2) p [unfolded e1]]
  from Suc.IH [OF o1(2) o2(1) rest] o3 show ?case
    by (simp add: replicate_app_Cons_same)
qed

lemma RequestContext_pushes_stack:
  assumes np: "\<not> preserved (req_ctxs s r)" and ok: "RequestContext_pushes (Suc n) r s = (None, s')"
  shows "\<exists>rest. request_ctx_stack s' = replicate (Suc n) r @ rest"
proof -
  obtain e1 s1 where p: "RequestContext_push r s = (e1, s1)" by (cases "RequestContext_push r s")
  with ok have e1: "e1 = None" and rest: "RequestContext_pushes n r s1 = (None, s')"
    by (auto split: option.splits)
  note o1 = RequestContext_push_obs [OF np p [unfolded e1]]
  note o2 = RequestContext_push_obs2 [OF np p [unfolded e1]]
  from o2(1) obtain tl1 where s1: "request_ctx_stack s1 = r # tl1"
    by (auto simp: LocalStack_top_def split: list.splits)
  from RequestContext_pushes_on_top [OF o1(2) o2(1) rest] s1
  have "request_ctx_stack s' = replicate (Suc n) r @ tl1"
    by (simp add: replicate_app_Cons_same)
  then show ?thesis by blast
qed

lemma RequestContext_pop_returns:
  "fst (RequestContext_pop r exc s) = None \<Longrightarrow> implicit_app_ctx_stack (req_ctxs s r) \<noteq> []"
  by (auto simp: RequestContext_pop_def)

lemma match_request_never_raises:
  assumes "url_adapter (req_ctxs s r) = Some ad" and "raises_only_http (match ad)"
  shows "fst (match_request r s) = None"
    and "request (req_ctxs (snd (match_request r s)) r) =
           (case match ad of
              Inr (rule, args) \<Rightarrow> (request (req_ctxs s r))\<lparr>url_rule := Some rule, view_args := Some args\<rparr>
            | Inl e \<Rightarrow> (request (req_ctxs s r))\<lparr>routing_exception := Some e\<rparr>)"
  using assms
  by (auto simp: match_request_def raises_only_http_def Let_def split: sum.splits prod.splits)

lemma RequestContext_init_never_raises:
  assumes "raises_only_http (bind_to_environ (apps s app) req)"
  shows "fst (RequestContext_init app req sess s) = Inr (next_ref s)"
    and "req_ctxs (snd (RequestContext_init app req sess s)) (next_ref s) =
           (case bind_to_environ (apps s app) req of
              Inr ad \<Rightarrow> \<lparr>rc_app = app, request = req, url_adapter = Some ad, session = sess,
                 implicit_app_ctx_stack = [], preserved = False, preserved_exc = None,
                 after_request_functions = []\<rparr>
            | Inl e \<Rightarrow> \<lparr>rc_app = app, request = req\<lparr>routing_exception := Some e\<rparr>,
                 url_adapter = None, session = sess,
                 implicit_app_ctx_stack = [], preserved = False, preserved_exc = None,
                 after_request_functions = []\<rparr>)"
    and "apps (snd (RequestContext_init app req sess s)) = apps s"
  using assms
  by (auto simp: RequestContext_init_def create_url_adapter_def raises_only_http_def Let_def
      split: sum.splits)

lemma RequestContext_pop_finally_other:
  "LocalStack_top (request_ctx_stack s) \<noteq> Some q \<Longrightarrow>
     request (req_ctxs (snd (RequestContext_pop_finally r app_ctx err exc1 cl s)) q)
       = request (req_ctxs s q)"
  "url_adapter (req_ctxs (snd (RequestContext_pop_finally r app_ctx err exc1 cl s)) q)
       = url_adapter (req_ctxs s q)"
  "session (req_ctxs (snd (RequestContext_pop_finally r app_ctx err exc1 cl s)) q)
       = session (req_ctxs s q)"
  by (auto simp: RequestContext_pop_finally_def AppContext_pop_eq LocalStack_pop_def
      LocalStack_top_def Let_def split: list.splits option.splits bool.splits)

lemma RequestContext_pop_other:
  "LocalStack_top (request_ctx_stack s) \<noteq> Some q \<Longrightarrow>
     request (req_ctxs (snd (RequestContext_pop r exc s)) q) = request (req_ctxs s q)"
  "url_adapter (req_ctxs (snd (RequestContext_pop r exc s)) q) = url_adapter (req_ctxs s q)"
  "session (req_ctxs (snd (RequestContext_pop r exc s)) q) = session (req_ctxs s q)"
  by (cases "implicit_app_ctx_stack (req_ctxs s r)";
      simp add: RequestContext_pop_def RequestContext_pop_try_eq RequestContext_pop_finally_other Let_def)+

lemma push_reclaim_other:
  assumes "\<not> preserved (req_ctxs s r)"
  shows "request (req_ctxs (snd (push_reclaim_preserved s)) r) = request (req_ctxs s r)"
    and "url_adapter (req_ctxs (snd (push_reclaim_preserved s)) r) = url_adapter (req_ctxs s r)"
    and "apps (snd (push_reclaim_preserved s)) = apps s"
proof -
  show "apps (snd (push_reclaim_preserved s)) = apps s"
    by (simp add: push_reclaim_preserved_def RequestContext_pop_obs split: option.splits)
  show "request (req_ctxs (snd (push_reclaim_preserved s)) r) = request (req_ctxs s r)"
  proof (cases "LocalStack_top (request_ctx_stack s) = Some r")
    case True
    with assms show ?thesis by (simp add: push_reclaim_preserved_def)
  next
    case False
    then show ?thesis
      by (auto simp: push_reclaim_preserved_def RequestContext_pop_other split: option.splits)
  qed
  show "url_adapter (req_ctxs (snd (push_reclaim_preserved s)) r) = url_adapter (req_ctxs s r)"
    by (simp add: push_reclaim_preserved_def RequestContext_pop_other split: option.splits)
qed


lemma RequestContext_push_after_reclaim:
  "RequestContext_push r s =
     (case push_reclaim_preserved s of
        (Some e, s0) \<Rightarrow> (Some e, s0)
      | (None, s0) \<Rightarrow>
          (let s4 = push_open_session r
                      ((exc_clear (push_app_context r s0))
                         \<lparr>request_ctx_stack := r # request_ctx_stack (exc_clear (push_app_context r s0))\<rparr>)
           in if url_adapter (req_ctxs s4 r) \<noteq> None then match_request r s4 else (None, s4)))"
  by (simp add: RequestContext_push_def Let_def split: prod.splits option.splits)

text \<open>The calls of request teardown callbacks that a pop makes.\<close>

lemma app_pop_events_no_request_calls:
  "filter is_request_teardown_call (app_pop_events a exc s) = []"
  by (simp add: app_pop_events_def Let_def is_request_teardown_call_def)

lemma try_events_calls:
  "filter is_request_teardown_call (try_events r exc s) =
     (case LocalStack_top (request_ctx_stack s) of
        None \<Rightarrow> []
      | Some t \<Rightarrow> teardown_calls CalledRequestTeardown
                   (request_teardown_list (rc_app (req_ctxs s r)) t s) (resolve_exc exc s))"
  by (simp add: try_events_def is_request_teardown_call_def split: option.splits)

lemma RequestContext_pop_finally_calls:
  "filter is_request_teardown_call (trace (snd (RequestContext_pop_finally r app_ctx err exc1 cl s)))
     = filter is_request_teardown_call (trace s)"
  by (auto simp: RequestContext_pop_finally_def AppContext_pop_eq LocalStack_pop_def Let_def
      app_pop_events_no_request_calls
      split: list.splits option.splits bool.splits)

lemma RequestContext_pop_calls:
  "filter is_request_teardown_call (trace (snd (RequestContext_pop r exc s))) =
     filter is_request_teardown_call (trace s) @
     (if length (implicit_app_ctx_stack (req_ctxs s r)) = 1
      then (case LocalStack_top (request_ctx_stack s) of
              None \<Rightarrow> []
            | Some t \<Rightarrow> teardown_calls CalledRequestTeardown
                         (request_teardown_list (rc_app (req_ctxs s r)) t s) (resolve_exc exc s))
      else [])"
  by (cases "implicit_app_ctx_stack (req_ctxs s r)";
      simp add: RequestContext_pop_def RequestContext_pop_try_eq RequestContext_pop_finally_calls
        try_events_calls Let_def cong: option.case_cong)

lemma request_teardown_list_cong:
  assumes "apps s = apps s'" and "request (req_ctxs s t) = request (req_ctxs s' t)"
  shows "request_teardown_list app t s = request_teardown_list app t s'"
  using assms by (simp add: request_teardown_list_def Let_def cong: option.case_cong)

lemma RequestContext_pops_quiet_calls:
  "length excs < length (implicit_app_ctx_stack (req_ctxs s r)) \<Longrightarrow>
     filter is_request_teardown_call (trace (RequestContext_pops r excs s))
       = filter is_request_teardown_call (trace s)"
proof (induction excs arbitrary: s)
  case Nil
  then show ?case by simp
next
  case (Cons x xs)
  let ?s1 = "snd (RequestContext_pop r x s)"
  from Cons.prems have big: "length (implicit_app_ctx_stack (req_ctxs s r)) \<noteq> 1" by auto
  have l1: "length (implicit_app_ctx_stack (req_ctxs ?s1 r)) = length (implicit_app_ctx_stack (req_ctxs s r)) - 1"
    by (simp add: RequestContext_pop_obs)
  with Cons.prems have "length xs < length (implicit_app_ctx_stack (req_ctxs ?s1 r))" by simp
  from Cons.IH [OF this] big show ?case
    by (simp add: RequestContext_pop_calls)
qed

text \<open>
  A push onto a preserved top pops one level of it, with the stored error; the teardown
  runs only if that was its last level.
\<close>

lemma push_app_context_calls:
  "filter is_request_teardown_call (trace (push_app_context r s)) = filter is_request_teardown_call (trace s)"
  by (simp add: push_app_context_def Let_def AppContext_push_def log_event_def exc_clear_def
      is_request_teardown_call_def)

lemma push_reclaims_one_level:
  assumes top: "LocalStack_top (request_ctx_stack s) = Some old"
    and pres: "preserved (req_ctxs s old)"
    and ok: "RequestContext_push r s = (None, s')"
  shows "request_ctx_stack s' = r # tl (request_ctx_stack s)"
    and "filter (is_request_teardown old) (trace s')
           = filter (is_request_teardown old) (trace s) @
             (if length (implicit_app_ctx_stack (req_ctxs s old)) = 1
              then [RequestTeardown old (preserved_exc (req_ctxs s old))] else [])"
    and "filter is_request_teardown_call (trace s')
           = filter is_request_teardown_call (trace s) @
             (if length (implicit_app_ctx_stack (req_ctxs s old)) = 1
              then teardown_calls CalledRequestTeardown
                     (request_teardown_list (rc_app (req_ctxs s old)) old s)
                     (preserved_exc (req_ctxs s old))
              else [])"
    and "preserved (req_ctxs s' old) = (length (implicit_app_ctx_stack (req_ctxs s old)) \<noteq> 1)"
proof -
  let ?pop = "RequestContext_pop old (Given (preserved_exc (req_ctxs s old))) s"
  from top pres have rec: "push_reclaim_preserved s = ?pop"
    by (simp add: push_reclaim_preserved_def)
  let ?s0 = "snd ?pop"
  from ok rec have e0: "fst ?pop = None"
    by (cases ?pop) (auto simp: RequestContext_push_def split: option.splits)
  then have ne: "implicit_app_ctx_stack (req_ctxs s old) \<noteq> []" by (rule RequestContext_pop_returns)
  let ?s3 = "(exc_clear (push_app_context r ?s0))\<lparr>request_ctx_stack := r # request_ctx_stack (exc_clear (push_app_context r ?s0))\<rparr>"
  let ?s4 = "push_open_session r ?s3"
  from ok rec e0 have s': "s' = (if url_adapter (req_ctxs ?s4 r) \<noteq> None then snd (match_request r ?s4) else ?s4)"
    by (cases ?pop) (auto simp: RequestContext_push_def Let_def split: if_splits)
  show "request_ctx_stack s' = r # tl (request_ctx_stack s)"
    using ne by (simp add: s' match_request_obs push_open_session_obs push_app_context_obs
        RequestContext_pop_obs)
  show "filter (is_request_teardown old) (trace s')
           = filter (is_request_teardown old) (trace s) @
             (if length (implicit_app_ctx_stack (req_ctxs s old)) = 1
              then [RequestTeardown old (preserved_exc (req_ctxs s old))] else [])"
    by (simp add: s' match_request_obs push_open_session_obs push_app_context_obs
        RequestContext_pop_obs)
  show "filter is_request_teardown_call (trace s')
           = filter is_request_teardown_call (trace s) @
             (if length (implicit_app_ctx_stack (req_ctxs s old)) = 1
              then teardown_calls CalledRequestTeardown
                     (request_teardown_list (rc_app (req_ctxs s old)) old s)
                     (preserved_exc (req_ctxs s old))
              else [])"
    using top by (simp add: s' match_request_obs push_open_session_obs push_app_context_calls
        RequestContext_pop_calls)
  show "preserved (req_ctxs s' old) = (length (implicit_app_ctx_stack (req_ctxs s old)) \<noteq> 1)"
    using pres by (simp add: s' match_request_obs push_open_session_obs push_app_context_obs
        RequestContext_pop_obs)
qed

section \<open>Facts about the request pipeline\<close>

lemma call_first_request_funcs_ok:
  "list_all (\<lambda>f. frf_outcome f = None) fs \<Longrightarrow>
     call_first_request_funcs fs s = (None, s\<lparr>trace := trace s @ map (\<lambda>f. Called (frf_name f)) fs\<rparr>)"
  by (induction fs arbitrary: s) (simp_all add: log_event_def)

lemma call_url_value_preprocessors_ok:
  "uvp_args fs (request_endpoint (request (req_ctxs s t))) (view_args (request (req_ctxs s t))) = Inr args \<Longrightarrow>
     call_url_value_preprocessors fs t s =
       (None, s\<lparr>req_ctxs := (req_ctxs s)
                   (t := (req_ctxs s t)\<lparr>request := (request (req_ctxs s t))\<lparr>view_args := args\<rparr>\<rparr>),
                trace := trace s @ map (\<lambda>f. Called (uvp_name f)) fs\<rparr>)"
proof (induction fs arbitrary: s)
  case Nil
  then have "args = view_args (request (req_ctxs s t))" by simp
  then show ?case by simp
next
  case (Cons f fs)
  let ?req = "request (req_ctxs s t)"
  from Cons.prems obtain a1 where
    o: "uvp_outcome f (request_endpoint ?req) (view_args ?req) = Inr a1"
    and r: "uvp_args fs (request_endpoint ?req) a1 = Inr args"
    by (auto split: sum.splits)
  let ?s1 = "(log_event (Called (uvp_name f)) s)\<lparr>req_ctxs := (req_ctxs (log_event (Called (uvp_name f)) s))
                (t := (req_ctxs (log_event (Called (uvp_name f)) s) t)\<lparr>request := ?req\<lparr>view_args := a1\<rparr>\<rparr>)\<rparr>"
  have "uvp_args fs (request_endpoint (request (req_ctxs ?s1 t))) (view_args (request (req_ctxs ?s1 t))) = Inr args"
    using r by (simp add: request_endpoint_def log_event_def)
  from Cons.IH [OF this] o show ?case
    by (simp add: Let_def log_event_def fun_upd_def cong: if_cong)
qed

lemma call_before_request_funcs_ok:
  "list_all (\<lambda>f. bf_outcome f (request (req_ctxs s t)) = Inr PNone) fs \<Longrightarrow>
     call_before_request_funcs fs t s =
       (Inr PNone, s\<lparr>trace := trace s @ map (\<lambda>f. Called (bf_name f)) fs\<rparr>)"
  by (induction fs arbitrary: s) (simp_all add: log_event_def)

lemma call_after_request_funcs_ok:
  "after_result fs response = Inr response1 \<Longrightarrow>
     call_after_request_funcs fs response s =
       (Inr response1, s\<lparr>trace := trace s @ map (\<lambda>f. Called (af_name f)) fs\<rparr>)"
  by (induction fs arbitrary: s response) (auto simp: log_event_def split: sum.splits)


lemma coerce_body_got_first [simp]:
  "coerce_body (a\<lparr>got_first_request := b\<rparr>) rv status headers = coerce_body a rv status headers"
  by (simp add: coerce_body_def split: pyval.splits)

lemma make_response_got_first [simp]:
  "make_response (a\<lparr>got_first_request := b\<rparr>) rv = make_response a rv"
  by (simp add: make_response_def split: sum.splits prod.splits)

lemma try_trigger_ok:
  assumes "got_first_request (apps s app)
           \<or> list_all (\<lambda>f. frf_outcome f = None) (before_first_request_funcs (apps s app))"
  shows "\<exists>s1. try_trigger_before_first_request_functions app s = (None, s1)
           \<and> trace s1 = trace s @ (if got_first_request (apps s app) then []
                else map (\<lambda>f. Called (frf_name f)) (before_first_request_funcs (apps s app)))
           \<and> req_ctxs s1 = req_ctxs s \<and> request_ctx_stack s1 = request_ctx_stack s
           \<and> apps s1 app = (apps s app)\<lparr>got_first_request := True\<rparr>"
proof (cases "got_first_request (apps s app)")
  case True
  then show ?thesis by (simp add: try_trigger_before_first_request_functions_def)
next
  case False
  with assms have "list_all (\<lambda>f. frf_outcome f = None) (before_first_request_funcs (apps s app))"
    by simp
  from call_first_request_funcs_ok [OF this] False show ?thesis
    by (simp add: try_trigger_before_first_request_functions_def)
qed

lemma blueprint_admin: "blueprint (demo_request\<lparr>url_rule := Some admin_rule, view_args := Some []\<rparr>) = Some ''admin''"
  by (simp add: blueprint_def admin_rule_def rsplit_dot_def)

lemma hooks_state_simps:
  "LocalStack_top (request_ctx_stack hooks_state) = Some 5"
  "apps hooks_state 0 = hooks_app"
  "req_ctxs hooks_state 5 = matched_context"
  "trace hooks_state = []"
  by (simp_all add: hooks_state_def demo_state_def LocalStack_top_def)

lemma matched_context_simps:
  "request matched_context = demo_request\<lparr>url_rule := Some index_rule, view_args := Some []\<rparr>"
  "after_request_functions matched_context = []"
  by (simp_all add: matched_context_def demo_request_context_def)

lemma hooks_app_simps:
  "got_first_request hooks_app"
  "url_value_preprocessors hooks_app = Map.empty"
  "before_request_funcs hooks_app = [None \<mapsto> [BeforeFunc ''A'' (\<lambda>_. Inr PNone), BeforeFunc ''B'' (\<lambda>_. Inr PNone)]]"
  "after_request_funcs hooks_app = [None \<mapsto> [AfterFunc ''C'' Inr, AfterFunc ''D'' Inr]]"
  "view_functions hooks_app = [''index'' \<mapsto> ViewFunc ''handler'' (\<lambda>_. Inr (PStr ''Hello''))]"
  "response_class_new hooks_app = demo_response_new"
  by (simp_all add: hooks_app_def demo_app_def)

lemma make_response_hello:
  "make_response hooks_app (PStr ''Hello'') = demo_response_new (PStr ''Hello'') PNone PNone"
  by (simp add: make_response_def unpack_tuple_return_def coerce_body_def is_text_or_bytes_def
      hooks_app_simps demo_response_new_def with_headers_def header_items_def truthy_def)

lemma admin_state_simps:
  "LocalStack_top (request_ctx_stack admin_state) = Some 5"
  "apps admin_state 0 = admin_app"
  "request (req_ctxs admin_state 5) = demo_request\<lparr>url_rule := Some admin_rule, view_args := Some []\<rparr>"
  "after_request_functions (req_ctxs admin_state 5) = []"
  "trace admin_state = []"
  by (simp_all add: admin_state_def demo_state_def LocalStack_top_def matched_context_def
      demo_request_context_def)

lemma admin_app_simps:
  "got_first_request admin_app"
  "url_value_preprocessors admin_app = Map.empty"
  "before_request_funcs admin_app =
     [None \<mapsto> [BeforeFunc ''A'' (\<lambda>_. Inr PNone), BeforeFunc ''B'' (\<lambda>_. Inr PNone)],
      Some ''admin'' \<mapsto> [BeforeFunc ''E'' (\<lambda>_. Inr PNone)]]"
  "after_request_funcs admin_app =
     [None \<mapsto> [AfterFunc ''C'' Inr, AfterFunc ''D'' Inr],
      Some ''admin'' \<mapsto> [AfterFunc ''F'' Inr, AfterFunc ''G'' Inr]]"
  "view_functions admin_app = [''admin.index'' \<mapsto> ViewFunc ''admin_handler'' (\<lambda>_. Inr (PStr ''Admin''))]"
  "response_class_new admin_app = demo_response_new"
  by (simp_all add: admin_app_def hooks_app_def demo_app_def)

lemma make_response_admin:
  "make_response admin_app (PStr ''Admin'') = demo_response_new (PStr ''Admin'') PNone PNone"
  by (simp add: make_response_def unpack_tuple_return_def coerce_body_def is_text_or_bytes_def
      admin_app_simps demo_response_new_def with_headers_def header_items_def truthy_def)

lemma call_after_request_funcs_result:
  "fst (call_after_request_funcs fs response s) = after_result fs response"
  by (induction fs arbitrary: response s) (simp_all add: Let_def split: sum.splits)

lemma call_after_request_funcs_frame:
  "apps (snd (call_after_request_funcs fs response s)) = apps s"
  by (induction fs arbitrary: response s) (simp_all add: Let_def log_event_def split: sum.splits)

lemma process_response_result:
  assumes "LocalStack_top (request_ctx_stack s) = Some t"
  shows "fst (process_response app response s) =
           (case after_result (after_request_functions (req_ctxs s t) @
                    rev (registered_for (after_request_funcs (apps s app))
                           (blueprint (request (req_ctxs s t)))) @
                    rev (registered (after_request_funcs (apps s app)) None)) response of
              Inl e \<Rightarrow> Inl e
            | Inr response1 \<Rightarrow>
                if session (req_ctxs s t) \<noteq> Some NullSession
                then save_session (apps s app) (session (req_ctxs s t)) response1
                else Inr response1)"
proof -
  let ?fs = "after_request_functions (req_ctxs s t) @
               rev (registered_for (after_request_funcs (apps s app))
                      (blueprint (request (req_ctxs s t)))) @
               rev (registered (after_request_funcs (apps s app)) None)"
  obtain r s1 where c: "call_after_request_funcs ?fs response s = (r, s1)"
    by (cases "call_after_request_funcs ?fs response s")
  with call_after_request_funcs_result [of ?fs response s]
       call_after_request_funcs_frame [of ?fs response s]
  have "r = after_result ?fs response" and "apps s1 = apps s" by simp_all
  with assms c show ?thesis
    by (simp add: process_response_def Let_def split: sum.splits)
qed

lemma failing_after_state_simps:
  "LocalStack_top (request_ctx_stack failing_after_state) = Some 5"
  "apps failing_after_state 0 = failing_after_app"
  "req_ctxs failing_after_state 5 = matched_context"
  "trace failing_after_state = []"
  by (simp_all add: failing_after_state_def hooks_state_def demo_state_def LocalStack_top_def)

lemma make_response_failing_after:
  "make_response failing_after_app (PStr ''Oops'') = demo_response_new (PStr ''Oops'') PNone PNone"
  "make_response failing_after_app PNone = Inl (TypeError none_error_message)"
  by (simp_all add: make_response_def unpack_tuple_return_def coerce_body_def is_text_or_bytes_def
      failing_after_app_def hooks_app_def demo_app_def demo_response_new_def with_headers_def header_items_def truthy_def)

lemma none_handler_state_simps:
  "LocalStack_top (request_ctx_stack none_handler_state) = Some 5"
  "apps none_handler_state 0 = none_handler_app"
  "req_ctxs none_handler_state 5 = matched_context"
  "trace none_handler_state = []"
  by (simp_all add: none_handler_state_def hooks_state_def demo_state_def LocalStack_top_def)

lemma lookup_mro_most_specific: "lookup_mro hm mro = most_specific_handler hm mro"
  by (induction mro) (auto simp: most_specific_handler_def split: option.splits)

lemma handlers_in_scope_setdefault:
  "spec name = None \<Longrightarrow> handlers_in_scope (spec(name \<mapsto> Map.empty)) scope c = handlers_in_scope spec scope c"
  by (simp add: handlers_in_scope_def)

lemma first_in_scopes_setdefault:
  "spec name = None \<Longrightarrow> first_in_scopes (spec(name \<mapsto> Map.empty)) scopes mro = first_in_scopes spec scopes mro"
  by (induction scopes) (auto simp: handlers_in_scope_setdefault split: option.splits)

lemma most_specific_handler_Nil [simp]: "most_specific_handler [] mro = None"
  by (induction mro) (simp_all add: most_specific_handler_def)

lemma find_error_handler_loop_first:
  "fst (find_error_handler_loop scopes mro spec) = first_in_scopes spec scopes mro"
proof (induction scopes arbitrary: spec)
  case Nil
  then show ?case by simp
next
  case (Cons sc scopes)
  obtain name c where sc: "sc = (name, c)" by (cases sc)
  show ?case
  proof (cases "spec name")
    case None
    then have step: "find_error_handler_loop ((name, c) # scopes) mro spec
                       = find_error_handler_loop scopes mro (spec(name \<mapsto> Map.empty))"
      by simp
    have "first_in_scopes spec ((name, c) # scopes) mro = first_in_scopes spec scopes mro"
      using None by (simp add: handlers_in_scope_def)
    then show ?thesis
      unfolding sc step
      by (simp only: Cons.IH first_in_scopes_setdefault [of spec name, OF None])
  next
    case (Some by_code)
    then show ?thesis
      by (cases "by_code c")
         (auto simp: sc Cons.IH handlers_in_scope_def lookup_mro_most_specific
            split: list.splits option.splits)
  qed
qed

lemma first_in_scopes_order:
  "first_in_scopes spec [(bp, code), (None, code), (bp, None), (None, None)] mro
     = handler_lookup_order spec bp code mro"
  by (simp add: handler_lookup_order_def split: option.splits)


lemma prepare_bad_request_key_error_simps [simp]:
  "exn_mro (prepare_bad_request_key_error a e) = exn_mro e"
  "exn_class_code (prepare_bad_request_key_error a e) = exn_class_code e"
  "exn_code (prepare_bad_request_key_error a e) = exn_code e"
  "isinstance (prepare_bad_request_key_error a e) cls = isinstance e cls"
  by (simp_all add: prepare_bad_request_key_error_def isinstance_def)

lemma find_error_handler_eq:
  assumes top: "LocalStack_top (request_ctx_stack s) = Some t" and exn: "isinstance e ''Exception''"
  shows "\<exists>s1. find_error_handler app e s =
           (Inr (handler_lookup_order (error_handler_spec (apps s app))
                   (blueprint (request (req_ctxs s t)))
                   (if isinstance e ''HTTPException'' then exn_class_code e else None) (exn_mro e)), s1)
         \<and> trace s1 = trace s"
proof -
  let ?bp = "blueprint (request (req_ctxs s t))"
  let ?code = "if isinstance e ''HTTPException'' then exn_class_code e else None"
  let ?scopes = "[(?bp, ?code), (None, ?code), (?bp, None), (None, None)]"
  obtain h spec1 where l: "find_error_handler_loop ?scopes (exn_mro e) (error_handler_spec (apps s app)) = (h, spec1)"
    by (cases "find_error_handler_loop ?scopes (exn_mro e) (error_handler_spec (apps s app))")
  with find_error_handler_loop_first [of ?scopes "exn_mro e" "error_handler_spec (apps s app)"]
  have h: "h = handler_lookup_order (error_handler_spec (apps s app)) ?bp ?code (exn_mro e)"
    by (simp only: first_in_scopes_order fst_conv)
  from top exn l show ?thesis
    unfolding h [symmetric]
    by (cases "isinstance e ''HTTPException''")
       (simp_all add: find_error_handler_def get_exc_class_and_code_def request_proxy_def Let_def)
qed

lemma handling_state_simps:
  "LocalStack_top (request_ctx_stack (handling_state e)) = Some 5"
  "apps (handling_state e) 0 = handlers_app"
  "request (req_ctxs (handling_state e) 5) = demo_request\<lparr>url_rule := Some admin_rule, view_args := Some []\<rparr>"
  "exc_info (handling_state e) = Some e"
  "trace (handling_state e) = []"
  by (simp_all add: handling_state_def admin_state_def demo_state_def LocalStack_top_def
      matched_context_def demo_request_context_def)

lemma handlers_app_simps:
  "error_handler_spec handlers_app =
        [Some ''admin'' \<mapsto> [Some 404 \<mapsto> [(''NotFound'', ErrorHandler ''admin_404'' (\<lambda>_. Inr (PStr ''admin: not found'')))]],
         None \<mapsto> [Some 404 \<mapsto> [(''NotFound'', ErrorHandler ''app_not_found'' (\<lambda>_. Inr (PStr ''not found'')))],
                  None \<mapsto> [(''HTTPException'', ErrorHandler ''app_http'' (\<lambda>_. Inr (PStr ''http error'')))]]]"
  "trap_http_exception handlers_app e = False"
  "prepare_bad_request_key_error handlers_app e = e"
  by (simp_all add: handlers_app_def admin_app_def hooks_app_def demo_app_def
      trap_http_exception_def prepare_bad_request_key_error_def)

section \<open>Claims about the application context\<close>

lemma resolve_exc_cong: "exc_info s = exc_info s' \<Longrightarrow> resolve_exc exc s = resolve_exc exc s'"
  by (simp add: resolve_exc_def split: exc_arg.splits)

text \<open>
  C3, as the code has it. \<^verbatim>\<open>AppContext.push\<close> adds one to the reference count, puts the
  context on top of the application stack and sends the pushed signal at every reference
  count, not only on the transition from 0 to 1; \<^verbatim>\<open>AppContext.pop\<close> takes one from the
  count and removes the top entry of the stack at every reference count, not only when
  the count returns to 0.
\<close>

theorem AppContext_push_pop_every_count:
  "app_ctx_stack (AppContext_push a s) = a # app_ctx_stack s
   \<and> trace (AppContext_push a s) =
       trace s @ [Signal ''appcontext-pushed'' (ac_app (app_ctxs s a)) None]
   \<and> refcnt (app_ctxs (AppContext_push a s) a) = refcnt (app_ctxs s a) + 1
   \<and> app_ctx_stack (snd (AppContext_pop a exc s)) = tl (app_ctx_stack s)
   \<and> refcnt (app_ctxs (snd (AppContext_pop a exc s)) a) = refcnt (app_ctxs s a) - 1"
  by (simp add: AppContext_push_facts AppContext_pop_state)

text \<open>
  C3 as stated fails: with the context already pushed once (reference count 1), a second
  push changes the stack and sends the signal again, and the pop at count 2 that follows
  removes an entry although the count only returns to 1.
\<close>

theorem AppContext_push_only_first_counterexample:
  "refcnt (app_ctxs (AppContext_push 0 demo_state) 0) = 1
   \<and> app_ctx_stack (AppContext_push 0 demo_state) = [0]
   \<and> app_ctx_stack (AppContext_push 0 (AppContext_push 0 demo_state)) = [0, 0]
   \<and> trace (AppContext_push 0 (AppContext_push 0 demo_state)) =
       [Signal ''appcontext-pushed'' 0 None, Signal ''appcontext-pushed'' 0 None]
   \<and> refcnt (app_ctxs (snd (AppContext_pop 0 Sentinel
         (AppContext_push 0 (AppContext_push 0 demo_state)))) 0) = 1
   \<and> app_ctx_stack (snd (AppContext_pop 0 Sentinel
         (AppContext_push 0 (AppContext_push 0 demo_state)))) = [0]"
  by (simp add: AppContext_push_facts AppContext_pop_state demo_state_def)

text \<open>
  C4. Let an application context with reference count 0 be pushed \<open>N \<ge> 1\<close> times and
  then popped at most \<open>N\<close> times, each pop with any \<^verbatim>\<open>exc\<close> argument. The pops call
  \<^verbatim>\<open>do_teardown_appcontext\<close> once if there are \<open>N\<close> of them and not at all if there are
  fewer; and the teardown callbacks called are none before the last pop, and in the last
  pop the registered ones in reverse order of registration (up to the first that raises),
  each with the error of that pop.
\<close>

theorem app_teardown_exactly_once:
  assumes fresh: "refcnt (app_ctxs s a) = 0" and N: "1 \<le> N" and len: "length excs \<le> N"
  shows "length (filter (is_app_teardown a)
                  (trace (AppContext_pops a excs (AppContext_pushes N a s))))
           = length (filter (is_app_teardown a) (trace s)) + (if length excs = N then 1 else 0)
       \<and> filter is_app_teardown_call (trace (AppContext_pops a excs (AppContext_pushes N a s)))
           = filter is_app_teardown_call (trace s) @
             (if length excs = N
              then teardown_calls CalledAppTeardown
                     (rev (teardown_appcontext_funcs (apps s (ac_app (app_ctxs s a)))))
                     (resolve_exc (last excs) (AppContext_pushes N a s))
              else [])"
proof -
  let ?p = "AppContext_pushes N a s"
  have rc: "refcnt (app_ctxs ?p a) = int N" using fresh by (simp add: AppContext_pushes_facts)
  show ?thesis
  proof (cases "length excs = N")
    case False
    with len have "int (length excs) < refcnt (app_ctxs ?p a)" using rc by simp
    from AppContext_pops_quiet [OF this] False show ?thesis
      by (simp add: AppContext_pushes_facts)
  next
    case True
    with N obtain xs x where excs: "excs = xs @ [x]"
      by (cases excs rule: rev_cases) auto
    let ?q = "AppContext_pops a xs ?p"
    from True excs have lx: "int (length xs) < refcnt (app_ctxs ?p a)" using rc by simp
    note q = AppContext_pops_quiet [OF lx]
    from q rc True excs have one: "refcnt (app_ctxs ?q a) \<le> 1" by simp
    have res: "resolve_exc x ?q = resolve_exc x ?p"
      by (rule resolve_exc_cong) (simp add: AppContext_pops_frame)
    from one q True res show ?thesis
      by (simp add: excs AppContext_pops_append AppContext_pop_state app_pop_events_final
          AppContext_pushes_facts AppContext_pops_frame)
  qed
qed

theorem app_teardown_exactly_once_witness:
  "refcnt (app_ctxs demo_state 0) = 0
   \<and> length (filter (is_app_teardown 0)
        (trace (AppContext_pops 0 [Sentinel, Given None] (AppContext_pushes 2 0 demo_state)))) = 1
   \<and> filter is_app_teardown_call
        (trace (AppContext_pops 0 [Sentinel, Given None] (AppContext_pushes 2 0 demo_state)))
       = [CalledAppTeardown ''flush_log'' None, CalledAppTeardown ''close_db'' None]
   \<and> length (filter (is_app_teardown 0)
        (trace (AppContext_pops 0 [Sentinel] (AppContext_pushes 2 0 demo_state)))) = 0
   \<and> filter is_app_teardown_call
        (trace (AppContext_pops 0 [Sentinel] (AppContext_pushes 2 0 demo_state))) = []"
  using app_teardown_exactly_once [of demo_state 0 2 "[Sentinel, Given None]"]
        app_teardown_exactly_once [of demo_state 0 2 "[Sentinel]"]
  by (simp add: demo_state_def demo_app_def)

section \<open>Claims about the request context\<close>

text \<open>
  C1. Let a request context that was never pushed and is not preserved be pushed \<open>K \<ge> 1\<close>
  times, every push returning, and then popped at most \<open>K\<close> times, each pop with any
  \<^verbatim>\<open>exc\<close> argument and whatever the pops before it raised. Then the teardown branch of
  \<^verbatim>\<open>RequestContext.pop\<close> (reset of the preservation state, resolution of the error, the
  request teardown callbacks, closing the request) is entered for this context once if
  there are \<open>K\<close> pops, in the last of them and with that pop's error, and never if there
  are fewer; the request teardown callbacks of the application are called only in that
  last pop, each at most once (in the order of \<^verbatim>\<open>do_teardown_request\<close>, up to the first
  one that raises), and in no pop before it; and the request is closed once, in that last pop, when no teardown callback
  raises and the request has a \<^verbatim>\<open>close\<close> method, and is not closed otherwise.
\<close>

theorem request_teardown_exactly_once:
  assumes never_pushed: "implicit_app_ctx_stack (req_ctxs s r) = []"
    and not_preserved: "\<not> preserved (req_ctxs s r)"
    and K: "1 \<le> K"
    and pushed: "RequestContext_pushes K r s = (None, s1)"
    and len: "length excs \<le> K"
  shows "filter (is_request_teardown r) (trace (RequestContext_pops r excs s1))
           = filter (is_request_teardown r) (trace s) @
             (if length excs = K then [RequestTeardown r (resolve_exc (last excs) s1)] else [])
       \<and> filter is_request_teardown_call (trace (RequestContext_pops r excs s1))
           = filter is_request_teardown_call (trace s1) @
             (if length excs = K
              then teardown_calls CalledRequestTeardown
                     (request_teardown_list (rc_app (req_ctxs s1 r)) r s1) (resolve_exc (last excs) s1)
              else [])
       \<and> filter (is_request_closed r) (trace (RequestContext_pops r excs s1))
           = filter (is_request_closed r) (trace s) @
             (if length excs = K
                 \<and> teardown_error (request_teardown_list (rc_app (req_ctxs s1 r)) r s1)
                      (resolve_exc (last excs) s1) = None
                 \<and> has_close (request (req_ctxs s1 r))
              then [RequestClosed r] else [])"
proof -
  note p = RequestContext_pushes_obs [OF not_preserved pushed]
  from p never_pushed have depth: "length (implicit_app_ctx_stack (req_ctxs s1 r)) = K" by simp
  show ?thesis
  proof (cases "length excs = K")
    case False
    with len depth have lt: "length excs < length (implicit_app_ctx_stack (req_ctxs s1 r))" by simp
    from RequestContext_pops_quiet [OF lt] RequestContext_pops_quiet_calls [OF lt] p False
    show ?thesis by simp
  next
    case True
    with K obtain xs x where excs: "excs = xs @ [x]"
      by (cases excs rule: rev_cases) auto
    let ?q = "RequestContext_pops r xs s1"
    from True excs depth have lx: "length xs < length (implicit_app_ctx_stack (req_ctxs s1 r))" by simp
    note q = RequestContext_pops_quiet [OF lx]
    note qc = RequestContext_pops_quiet_calls [OF lx]
    from q depth True excs have one: "length (implicit_app_ctx_stack (req_ctxs ?q r)) = 1" by simp
    from K obtain n where Kn: "K = Suc n" by (cases K) auto
    from RequestContext_pushes_stack [OF not_preserved pushed [unfolded Kn]]
    obtain rest where stk: "request_ctx_stack s1 = replicate (Suc n) r @ rest" by blast
    from True excs Kn have xn: "length xs = n" by simp
    have "replicate (Suc n) r @ rest = replicate n r @ r # rest"
      by (simp add: replicate_app_Cons_same)
    then have "drop n (replicate (Suc n) r @ rest) = r # rest"
      by (simp only: drop_append length_replicate) simp
    with stk have "drop n (request_ctx_stack s1) = r # rest" by (simp only:)
    with q xn have topq: "LocalStack_top (request_ctx_stack ?q) = Some r"
      by (simp add: LocalStack_top_def)
    have top1: "LocalStack_top (request_ctx_stack s1) = Some r"
      using stk by (simp add: LocalStack_top_def)
    have res: "resolve_exc x ?q = resolve_exc x s1"
      by (rule resolve_exc_cong) (simp add: q)
    have te: "try_error r x ?q = try_error r x s1"
    proof (rule try_error_cong)
      show "LocalStack_top (request_ctx_stack ?q) = LocalStack_top (request_ctx_stack s1)"
        using topq top1 by (simp only:)
    qed (simp_all add: q)
    have te1: "try_error r x s1
                 = teardown_error (request_teardown_list (rc_app (req_ctxs s1 r)) r s1) (resolve_exc x s1)"
      by (simp add: try_error_def top1)
    have tl: "request_teardown_list (rc_app (req_ctxs ?q r)) r ?q
                = request_teardown_list (rc_app (req_ctxs s1 r)) r s1"
      using q by (simp add: request_teardown_list_cong [of ?q s1])
    have calls: "filter is_request_teardown_call (trace (snd (RequestContext_pop r x ?q)))
                   = filter is_request_teardown_call (trace s1) @
                     teardown_calls CalledRequestTeardown
                       (request_teardown_list (rc_app (req_ctxs s1 r)) r s1) (resolve_exc x s1)"
      using one topq qc res tl by (simp add: RequestContext_pop_calls)
    from one q p res te te1 True have a:
      "filter (is_request_teardown r) (trace (RequestContext_pops r excs s1))
           = filter (is_request_teardown r) (trace s) @
             (if length excs = K then [RequestTeardown r (resolve_exc (last excs) s1)] else [])"
      by (simp add: excs RequestContext_pops_append RequestContext_pop_obs)
    from one q p res te te1 True have c:
      "filter (is_request_closed r) (trace (RequestContext_pops r excs s1))
           = filter (is_request_closed r) (trace s) @
             (if length excs = K
                 \<and> teardown_error (request_teardown_list (rc_app (req_ctxs s1 r)) r s1)
                      (resolve_exc (last excs) s1) = None
                 \<and> has_close (request (req_ctxs s1 r))
              then [RequestClosed r] else [])"
      by (simp add: excs RequestContext_pops_append RequestContext_pop_closed)
    from calls True have b:
      "filter is_request_teardown_call (trace (RequestContext_pops r excs s1))
           = filter is_request_teardown_call (trace s1) @
             (if length excs = K
              then teardown_calls CalledRequestTeardown
                     (request_teardown_list (rc_app (req_ctxs s1 r)) r s1) (resolve_exc (last excs) s1)
              else [])"
      by (simp add: excs RequestContext_pops_append)
    from a b c show ?thesis by (simp only: simp_thms)
  qed
qed

theorem request_teardown_exactly_once_witness:
  "implicit_app_ctx_stack (req_ctxs demo_state 1) = []
   \<and> \<not> preserved (req_ctxs demo_state 1)
   \<and> fst (RequestContext_pushes 2 1 demo_state) = None
   \<and> filter (is_request_teardown 1)
        (trace (RequestContext_pops 1 [Sentinel, Given None] (snd (RequestContext_pushes 2 1 demo_state))))
       = [RequestTeardown 1 None]
   \<and> filter is_request_teardown_call
        (trace (RequestContext_pops 1 [Sentinel, Given None] (snd (RequestContext_pushes 2 1 demo_state))))
       = [CalledRequestTeardown ''release'' None]
   \<and> filter (is_request_closed 1)
        (trace (RequestContext_pops 1 [Sentinel, Given None] (snd (RequestContext_pushes 2 1 demo_state))))
       = [RequestClosed 1]
   \<and> filter (is_request_teardown 1)
        (trace (RequestContext_pops 1 [Sentinel] (snd (RequestContext_pushes 2 1 demo_state)))) = []
   \<and> filter is_request_teardown_call
        (trace (RequestContext_pops 1 [Sentinel] (snd (RequestContext_pushes 2 1 demo_state)))) = []
   \<and> filter (is_request_closed 1)
        (trace (RequestContext_pops 1 [Sentinel] (snd (RequestContext_pushes 2 1 demo_state)))) = []"
proof -
  let ?s1 = "snd (RequestContext_pushes 2 1 demo_state)"
  have a: "implicit_app_ctx_stack (req_ctxs demo_state 1) = []"
    and b: "\<not> preserved (req_ctxs demo_state 1)"
    and t0: "trace demo_state = []"
    by (simp_all add: demo_state_def demo_request_context_def)
  have c: "fst (RequestContext_pushes 2 1 demo_state) = None" by code_simp
  then have p: "RequestContext_pushes 2 1 demo_state = (None, ?s1)"
    by (simp add: prod_eq_iff)
  have d: "teardown_error (request_teardown_list (rc_app (req_ctxs ?s1 1)) 1 ?s1) None = None"
    by code_simp
  have e: "has_close (request (req_ctxs ?s1 1))" by code_simp
  have f: "filter is_request_teardown_call (trace ?s1) = []" by code_simp
  have g: "teardown_calls CalledRequestTeardown (request_teardown_list (rc_app (req_ctxs ?s1 1)) 1 ?s1) None
             = [CalledRequestTeardown ''release'' None]" by code_simp
  from request_teardown_exactly_once [OF a b _ p, of "[Sentinel, Given None]"]
       request_teardown_exactly_once [OF a b _ p, of "[Sentinel]"]
       a b c d e f g t0
  show ?thesis by simp
qed

text \<open>
  C8, for a preserved context that was pushed exactly once. When \<^verbatim>\<open>RequestContext.push\<close>
  of another context runs while the top of the request stack is a preserved context
  \<open>old\<close> that has one level (one entry on its implicit application context stack, and no
  entry on the request stack below the top), and the push returns, then \<open>old\<close> was popped
  first with its stored error as \<^verbatim>\<open>exc\<close>: exactly one teardown sequence has run for it, its
  request teardown callbacks were called with the stored error, it is no longer preserved,
  and it is no longer on the stack, where the new context has taken its place.
\<close>

theorem preserved_context_reclaimed:
  assumes top: "LocalStack_top (request_ctx_stack s) = Some old"
    and pres: "preserved (req_ctxs s old)"
    and once: "length (implicit_app_ctx_stack (req_ctxs s old)) = 1"
    and single: "old \<notin> set (tl (request_ctx_stack s))"
    and other: "r \<noteq> old"
    and ok: "RequestContext_push r s = (None, s')"
  shows "push_reclaim_preserved s = RequestContext_pop old (Given (preserved_exc (req_ctxs s old))) s
       \<and> filter (is_request_teardown old) (trace s')
           = filter (is_request_teardown old) (trace s) @
             [RequestTeardown old (preserved_exc (req_ctxs s old))]
       \<and> filter is_request_teardown_call (trace s')
           = filter is_request_teardown_call (trace s) @
             teardown_calls CalledRequestTeardown
               (request_teardown_list (rc_app (req_ctxs s old)) old s) (preserved_exc (req_ctxs s old))
       \<and> \<not> preserved (req_ctxs s' old)
       \<and> old \<notin> set (request_ctx_stack s')
       \<and> request_ctx_stack s' = r # tl (request_ctx_stack s)"
proof -
  from top pres
  have rec: "push_reclaim_preserved s = RequestContext_pop old (Given (preserved_exc (req_ctxs s old))) s"
    by (simp add: push_reclaim_preserved_def)
  note lv = push_reclaims_one_level [OF top pres ok]
  from lv(1) single other have off: "old \<notin> set (request_ctx_stack s')" by simp
  from rec lv once off show ?thesis by simp
qed

theorem preserved_context_reclaimed_witness:
  "LocalStack_top (request_ctx_stack preserved_once_state) = Some 1
   \<and> preserved (req_ctxs preserved_once_state 1)
   \<and> length (implicit_app_ctx_stack (req_ctxs preserved_once_state 1)) = 1
   \<and> 1 \<notin> set (tl (request_ctx_stack preserved_once_state))
   \<and> fst (RequestContext_push 2 preserved_once_state) = None
   \<and> request_ctx_stack (snd (RequestContext_push 2 preserved_once_state)) = [2]
   \<and> filter (is_request_teardown 1) (trace (snd (RequestContext_push 2 preserved_once_state)))
       = [RequestTeardown 1 (Some demo_exn)]
   \<and> filter is_request_teardown_call (trace (snd (RequestContext_push 2 preserved_once_state)))
       = [CalledRequestTeardown ''release'' (Some demo_exn)]
   \<and> \<not> preserved (req_ctxs (snd (RequestContext_push 2 preserved_once_state)) 1)
   \<and> 1 \<notin> set (request_ctx_stack (snd (RequestContext_push 2 preserved_once_state)))"
proof -
  have a: "LocalStack_top (request_ctx_stack preserved_once_state) = Some 1"
    and b: "preserved (req_ctxs preserved_once_state 1)"
    and c: "fst (RequestContext_push 2 preserved_once_state) = None"
    and d: "tl (request_ctx_stack preserved_once_state) = []"
    and e: "filter (is_request_teardown 1) (trace preserved_once_state) = []"
    and f: "length (implicit_app_ctx_stack (req_ctxs preserved_once_state 1)) = 1"
    and g: "preserved_exc (req_ctxs preserved_once_state 1) = Some demo_exn"
    and h: "filter is_request_teardown_call (trace preserved_once_state) = []"
    and i: "teardown_calls CalledRequestTeardown
              (request_teardown_list (rc_app (req_ctxs preserved_once_state 1)) 1 preserved_once_state)
              (Some demo_exn) = [CalledRequestTeardown ''release'' (Some demo_exn)]"
    by code_simp+
  from d have d': "1 \<notin> set (tl (request_ctx_stack preserved_once_state))" by simp
  from c have p: "RequestContext_push 2 preserved_once_state
                    = (None, snd (RequestContext_push 2 preserved_once_state))"
    by (simp add: prod_eq_iff)
  have ne: "(2::nat) \<noteq> 1" by simp
  from preserved_context_reclaimed [OF a b f d' ne p] a b c d e f g h i show ?thesis by simp
qed

text \<open>
  C8 as stated fails for a preserved context that was pushed twice: the next push of
  another context returns, no teardown sequence has run for the old context, and it is
  still on the stack.
\<close>

theorem preserved_context_reclaimed_counterexample:
  "LocalStack_top (request_ctx_stack preserved_twice_state) = Some 1
   \<and> preserved (req_ctxs preserved_twice_state 1)
   \<and> fst (RequestContext_push 2 preserved_twice_state) = None
   \<and> filter (is_request_teardown 1) (trace (snd (RequestContext_push 2 preserved_twice_state))) = []
   \<and> request_ctx_stack (snd (RequestContext_push 2 preserved_twice_state)) = [2, 1]"
  by code_simp

text \<open>
  C9, for a router that keeps its contract. Let binding the URL map to the request and
  matching either give a result or raise an \<^verbatim>\<open>HTTPException\<close>. Then the constructor of
  \<^verbatim>\<open>RequestContext\<close> does not raise, and the push of the new context raises only what the
  reclaiming of a preserved context raises before the matching step, never something from
  the matching. After a push that returns, the request object holds the matched rule and
  view arguments if the adapter was created and matched, and otherwise holds the routing
  failure (of the adapter's creation or of the match) in \<^verbatim>\<open>routing_exception\<close>, the other
  routing attributes being as they were.
\<close>

theorem route_matching_never_raises:
  assumes bind: "raises_only_http (bind_to_environ (apps s app) req)"
    and mtch: "case bind_to_environ (apps s app) req of
                 Inr ad \<Rightarrow> raises_only_http (match ad) | Inl e \<Rightarrow> True"
  shows "fst (RequestContext_init app req sess s) = Inr (next_ref s)
       \<and> fst (RequestContext_push (next_ref s) (snd (RequestContext_init app req sess s)))
           = fst (push_reclaim_preserved (snd (RequestContext_init app req sess s)))
       \<and> (if fst (push_reclaim_preserved (snd (RequestContext_init app req sess s))) = None
          then request (req_ctxs (snd (RequestContext_push (next_ref s)
                          (snd (RequestContext_init app req sess s)))) (next_ref s))
               = (case bind_to_environ (apps s app) req of
                    Inl e \<Rightarrow> req\<lparr>routing_exception := Some e\<rparr>
                  | Inr ad \<Rightarrow>
                      (case match ad of
                         Inr (rule, args) \<Rightarrow> req\<lparr>url_rule := Some rule, view_args := Some args\<rparr>
                       | Inl e \<Rightarrow> req\<lparr>routing_exception := Some e\<rparr>))
          else True)"
proof -
  let ?r = "next_ref s"
  let ?s1 = "snd (RequestContext_init app req sess s)"
  note init = RequestContext_init_never_raises [OF bind, of sess]
  have np: "\<not> preserved (req_ctxs ?s1 ?r)"
    by (simp add: init split: sum.splits)
  obtain e0 s0 where rec: "push_reclaim_preserved ?s1 = (e0, s0)"
    by (cases "push_reclaim_preserved ?s1")
  then have s0: "s0 = snd (push_reclaim_preserved ?s1)" by simp
  note other = push_reclaim_other [OF np, folded s0]
  define s4 where "s4 = push_open_session ?r
               ((exc_clear (push_app_context ?r s0))
                  \<lparr>request_ctx_stack := ?r # request_ctx_stack (exc_clear (push_app_context ?r s0))\<rparr>)"
  have ad4: "url_adapter (req_ctxs s4 ?r) = url_adapter (req_ctxs ?s1 ?r)"
    by (simp add: s4_def push_open_session_obs push_app_context_obs other)
  have rq4: "request (req_ctxs s4 ?r) = request (req_ctxs ?s1 ?r)"
    by (simp add: s4_def push_open_session_obs push_app_context_obs other)
  have push: "RequestContext_push ?r ?s1 =
                (case e0 of Some e \<Rightarrow> (Some e, s0)
                 | None \<Rightarrow> if url_adapter (req_ctxs s4 ?r) \<noteq> None then match_request ?r s4
                           else (None, s4))"
    by (simp add: RequestContext_push_after_reclaim rec s4_def Let_def split: option.splits)
  show ?thesis
  proof (cases "bind_to_environ (apps s app) req")
    case (Inl e)
    with ad4 rq4 rec show ?thesis
      by (simp add: init push split: option.splits)
  next
    case (Inr ad)
    with mtch have m: "raises_only_http (match ad)" by simp
    from Inr ad4 have a4: "url_adapter (req_ctxs s4 ?r) = Some ad" by (simp add: init)
    note mr = match_request_never_raises [OF a4 m]
    from Inr rq4 rec a4 mr show ?thesis
      by (simp add: init push split: option.splits sum.splits prod.splits)
  qed
qed


theorem route_matching_never_raises_witness:
  "raises_only_http (bind_to_environ (apps demo_state 0) demo_request)
   \<and> fst (RequestContext_init 0 demo_request None demo_state) = Inr 100
   \<and> fst (RequestContext_push 100 (snd (RequestContext_init 0 demo_request None demo_state))) = None
   \<and> request (req_ctxs (snd (RequestContext_push 100
         (snd (RequestContext_init 0 demo_request None demo_state)))) 100)
       = demo_request\<lparr>url_rule := Some \<lparr>endpoint = ''index'', provide_automatic_options = True\<rparr>,
                      view_args := Some []\<rparr>
   \<and> raises_only_http (bind_to_environ (apps no_route_state 0) demo_request)
   \<and> fst (RequestContext_init 0 demo_request None no_route_state) = Inr 100
   \<and> fst (RequestContext_push 100 (snd (RequestContext_init 0 demo_request None no_route_state))) = None
   \<and> request (req_ctxs (snd (RequestContext_push 100
         (snd (RequestContext_init 0 demo_request None no_route_state)))) 100)
       = demo_request\<lparr>routing_exception := Some NotFound\<rparr>"
proof -
  have a: "raises_only_http (bind_to_environ (apps demo_state 0) demo_request)"
    and b: "case bind_to_environ (apps demo_state 0) demo_request of
              Inr ad \<Rightarrow> raises_only_http (match ad) | Inl e \<Rightarrow> True"
    and c: "fst (push_reclaim_preserved (snd (RequestContext_init 0 demo_request None demo_state))) = None"
    by (simp_all add: demo_state_def demo_app_def raises_only_http_def push_reclaim_preserved_def
        RequestContext_init_def create_url_adapter_def LocalStack_top_def)
  have a': "raises_only_http (bind_to_environ (apps no_route_state 0) demo_request)"
    and b': "case bind_to_environ (apps no_route_state 0) demo_request of
              Inr ad \<Rightarrow> raises_only_http (match ad) | Inl e \<Rightarrow> True"
    and c': "fst (push_reclaim_preserved (snd (RequestContext_init 0 demo_request None no_route_state))) = None"
    by (simp_all add: no_route_state_def no_route_app_def demo_state_def demo_app_def
        raises_only_http_def push_reclaim_preserved_def NotFound_def isinstance_def
        RequestContext_init_def create_url_adapter_def LocalStack_top_def)
  from route_matching_never_raises [OF a b, of None] c a
       route_matching_never_raises [OF a' b', of None] c' a'
  show ?thesis
    by (simp add: no_route_state_def no_route_app_def demo_state_def demo_app_def)
qed

text \<open>
  C9 as stated, for every request, fails: both \<^verbatim>\<open>RequestContext.__init__\<close> and
  \<^verbatim>\<open>match_request\<close> catch \<^verbatim>\<open>HTTPException\<close> only. When the match raises a
  \<^verbatim>\<open>RuntimeError\<close>, the push raises it, and the request holds neither a rule nor a routing
  failure; when binding the URL map raises it, the constructor raises it and no context is
  made.
\<close>

theorem route_matching_raises_counterexample:
  "\<not> isinstance converter_error ''HTTPException''
   \<and> fst (RequestContext_init 0 demo_request None failing_match_state) = Inr 100
   \<and> fst (RequestContext_push 100 (snd (RequestContext_init 0 demo_request None failing_match_state)))
       = Some converter_error
   \<and> request (req_ctxs (snd (RequestContext_push 100
         (snd (RequestContext_init 0 demo_request None failing_match_state)))) 100) = demo_request
   \<and> fst (RequestContext_init 0 demo_request None failing_bind_state) = Inl converter_error"
  by code_simp

section \<open>Claims about response coercion\<close>

text \<open>
  C6. \<^verbatim>\<open>make_response\<close> fails with a \<^verbatim>\<open>TypeError\<close> when the view's return value is
  \<^verbatim>\<open>None\<close>, when it is a tuple of two or three elements whose first is \<^verbatim>\<open>None\<close>, and when
  it is a tuple of any length other than 2 and 3; in the last case the message names the
  three expected shapes of the tuple.
\<close>

theorem make_response_type_errors:
  assumes body_none: "length rest = 1 \<or> length rest = 2"
    and arity: "length items \<noteq> 2" "length items \<noteq> 3"
  shows "make_response app PNone = Inl (TypeError none_error_message)
       \<and> make_response app (PTuple (PNone # rest)) = Inl (TypeError none_error_message)
       \<and> make_response app (PTuple items) = Inl (TypeError tuple_error_message)
       \<and> tuple_error_message =
           ''The view function did not return a valid response tuple. The tuple must have the form (body, status, headers), (body, status), or (body, headers).''"
  using assms
  by (auto simp: make_response_def unpack_tuple_return_def tuple_error_message_def)

theorem make_response_type_errors_witness:
  "make_response demo_app PNone = Inl (TypeError none_error_message)
   \<and> make_response demo_app (PTuple [PNone, PInt 404]) = Inl (TypeError none_error_message)
   \<and> make_response demo_app (PTuple [PNone, PInt 404, PHeaders []]) = Inl (TypeError none_error_message)
   \<and> make_response demo_app (PTuple [PStr ''body'', PInt 200, PHeaders [], PInt 4])
       = Inl (TypeError tuple_error_message)
   \<and> make_response demo_app (PTuple [PStr ''body'']) = Inl (TypeError tuple_error_message)"
  using make_response_type_errors [of "[PInt 404]" "[PStr ''body'', PInt 200, PHeaders [], PInt 4]" demo_app]
        make_response_type_errors [of "[PInt 404, PHeaders []]" "[PStr ''body'']" demo_app]
  by simp

text \<open>
  C10. For a view return value \<^verbatim>\<open>(body, x)\<close>, the second element is taken as the headers
  exactly when it is a \<^verbatim>\<open>Headers\<close> object, a dictionary, a tuple or a list, whatever it
  holds, and as the status otherwise. So with a response object as the body the headers
  are extended by \<open>x\<close> in the first case and the status is set from \<open>x\<close> in the second,
  and with a string as the body \<open>x\<close> goes to the response class as its \<^verbatim>\<open>headers\<close>
  argument in the first case and as its \<^verbatim>\<open>status\<close> argument in the second.
\<close>

theorem two_tuple_second_element:
  "unpack_tuple_return (PTuple [body, PHeaders h]) = Inr (body, PNone, PHeaders h)
   \<and> unpack_tuple_return (PTuple [body, PDict d]) = Inr (body, PNone, PDict d)
   \<and> unpack_tuple_return (PTuple [body, PTuple t]) = Inr (body, PNone, PTuple t)
   \<and> unpack_tuple_return (PTuple [body, PList l]) = Inr (body, PNone, PList l)
   \<and> unpack_tuple_return (PTuple [body, x])
       = (if (\<exists>h. x = PHeaders h) \<or> (\<exists>d. x = PDict d) \<or> (\<exists>t. x = PTuple t) \<or> (\<exists>l. x = PList l)
          then Inr (body, PNone, x) else Inr (body, x, PNone))
   \<and> make_response app (PTuple [PResponse resp, x])
       = (if (\<exists>h. x = PHeaders h) \<or> (\<exists>d. x = PDict d) \<or> (\<exists>t. x = PTuple t) \<or> (\<exists>l. x = PList l)
          then (if truthy x then headers_extend app x resp else Inr resp)
          else if x = PNone then Inr resp
          else if is_text_or_bytes x then set_status app x resp
          else set_status_code app x resp)
   \<and> make_response app (PTuple [PStr text, x])
       = (case (if (\<exists>h. x = PHeaders h) \<or> (\<exists>d. x = PDict d) \<or> (\<exists>t. x = PTuple t) \<or> (\<exists>l. x = PList l)
                then response_class_new app (PStr text) PNone x
                else response_class_new app (PStr text) x PNone) of
            Inl e \<Rightarrow> Inl e | Inr r \<Rightarrow> Inr r)"
  by (cases x)
     (simp_all add: make_response_def unpack_tuple_return_def is_headers_dict_tuple_list_def
       coerce_body_def is_text_or_bytes_def truthy_def split: sum.splits)

theorem two_tuple_second_element_witness:
  "make_response demo_app (PTuple [PResponse ok_response, PTuple []]) = Inr ok_response
   \<and> make_response demo_app (PTuple [PResponse ok_response, PHeaders [(''X-Served-By'', ''demo'')]])
       = Inr (ok_response\<lparr>resp_headers := resp_headers ok_response @ [(''X-Served-By'', ''demo'')]\<rparr>)
   \<and> make_response demo_app (PTuple [PResponse ok_response, PInt 404])
       = Inr (ok_response\<lparr>resp_status := ''404 NOT FOUND'', resp_status_code := 404\<rparr>)
   \<and> unpack_tuple_return (PTuple [PStr ''body'', PList [PInt 404]])
       = Inr (PStr ''body'', PNone, PList [PInt 404])"
  using two_tuple_second_element [of "PResponse ok_response" "[]" "[]" "[]" "[PInt 404]" "PTuple []" demo_app ok_response "''body''"]
        two_tuple_second_element [of "PStr ''body''" "[]" "[]" "[]" "[PInt 404]"
          "PHeaders [(''X-Served-By'', ''demo'')]" demo_app ok_response "''body''"]
        two_tuple_second_element [of "PStr ''body''" "[]" "[]" "[]" "[PInt 404]"
          "PInt 404" demo_app ok_response "''body''"]
  by (simp add: demo_app_def truthy_def is_text_or_bytes_def with_headers_def header_items_def
      with_status_code_def status_line_def status_phrase_def digits_of.simps)

section \<open>Claims about the request pipeline\<close>

text \<open>
  C7. Take a request whose context is on top of the request stack, with a matched rule
  that has a view function, and let every callback return normally, the
  \<^verbatim>\<open>before_request\<close> functions returning \<^verbatim>\<open>None\<close>. Then \<^verbatim>\<open>full_dispatch_request\<close> calls, in
  this order: the \<^verbatim>\<open>before_first_request\<close> functions if this is the first request; the
  URL value preprocessors of the application and then of the blueprint; the
  \<^verbatim>\<open>before_request\<close> functions of the application in registration order, then those of
  the request's blueprint in registration order; the view; the functions registered on
  the request context during the request; the blueprint's \<^verbatim>\<open>after_request\<close> functions in
  reverse registration order, then the application's in reverse registration order.
\<close>

theorem hook_ordering:
  assumes top: "LocalStack_top (request_ctx_stack s) = Some t"
    and first: "got_first_request (apps s app)
                \<or> list_all (\<lambda>f. frf_outcome f = None) (before_first_request_funcs (apps s app))"
    and rule: "url_rule (request (req_ctxs s t)) = Some rule"
    and matched: "routing_exception (request (req_ctxs s t)) = None"
    and not_options: "provide_automatic_options rule \<Longrightarrow> req_method (request (req_ctxs s t)) \<noteq> ''OPTIONS''"
    and bp: "bp = blueprint (request (req_ctxs s t))"
    and uvps: "uvp_args (registered (url_value_preprocessors (apps s app)) None @
                         registered_for (url_value_preprocessors (apps s app)) bp)
                 (Some (endpoint rule)) (view_args (request (req_ctxs s t))) = Inr (Some args)"
    and befores: "list_all (\<lambda>f. bf_outcome f ((request (req_ctxs s t))\<lparr>view_args := Some args\<rparr>) = Inr PNone)
                    (registered (before_request_funcs (apps s app)) None @
                     registered_for (before_request_funcs (apps s app)) bp)"
    and view: "view_functions (apps s app) (endpoint rule) = Some view"
    and returned: "vf_outcome view args = Inr rv"
    and coerced: "make_response (apps s app) rv = Inr response"
    and afters: "after_result (after_request_functions (req_ctxs s t) @
                              rev (registered_for (after_request_funcs (apps s app)) bp) @
                              rev (registered (after_request_funcs (apps s app)) None)) response
                   = Inr response1"
  shows "filter is_called (trace (snd (full_dispatch_request app s))) =
           filter is_called (trace s) @
           (if got_first_request (apps s app) then []
            else map (\<lambda>f. Called (frf_name f)) (before_first_request_funcs (apps s app))) @
           map (\<lambda>f. Called (uvp_name f)) (registered (url_value_preprocessors (apps s app)) None) @
           map (\<lambda>f. Called (uvp_name f)) (registered_for (url_value_preprocessors (apps s app)) bp) @
           map (\<lambda>f. Called (bf_name f)) (registered (before_request_funcs (apps s app)) None) @
           map (\<lambda>f. Called (bf_name f)) (registered_for (before_request_funcs (apps s app)) bp) @
           [Called (vf_name view)] @
           map (\<lambda>f. Called (af_name f)) (after_request_functions (req_ctxs s t)) @
           map (\<lambda>f. Called (af_name f)) (rev (registered_for (after_request_funcs (apps s app)) bp)) @
           map (\<lambda>f. Called (af_name f)) (rev (registered (after_request_funcs (apps s app)) None))"
proof -
  let ?a = "apps s app"
  let ?req = "request (req_ctxs s t)"
  let ?uv = "registered (url_value_preprocessors ?a) None @ registered_for (url_value_preprocessors ?a) bp"
  let ?bf = "registered (before_request_funcs ?a) None @ registered_for (before_request_funcs ?a) bp"
  let ?af = "after_request_functions (req_ctxs s t) @ rev (registered_for (after_request_funcs ?a) bp)
             @ rev (registered (after_request_funcs ?a) None)"
  let ?first = "if got_first_request ?a then []
                else map (\<lambda>f. Called (frf_name f)) (before_first_request_funcs ?a)"
  from try_trigger_ok [OF first] obtain s1 where
    t1: "try_trigger_before_first_request_functions app s = (None, s1)"
    and tr1: "trace s1 = trace s @ ?first"
    and rc1: "req_ctxs s1 = req_ctxs s" and st1: "request_ctx_stack s1 = request_ctx_stack s"
    and a1: "apps s1 app = ?a\<lparr>got_first_request := True\<rparr>"
    by blast
  define s2 where "s2 = log_event (Signal ''request-started'' app None) s1"
  have s2: "req_ctxs s2 = req_ctxs s" "request_ctx_stack s2 = request_ctx_stack s"
    "apps s2 app = ?a\<lparr>got_first_request := True\<rparr>"
    "trace s2 = trace s @ ?first @ [Signal ''request-started'' app None]"
    by (simp_all add: s2_def log_event_def rc1 st1 a1 tr1)
  \<comment> \<open>the URL value preprocessors\<close>
  define s3 where "s3 = s2\<lparr>req_ctxs := (req_ctxs s2)
                   (t := (req_ctxs s2 t)\<lparr>request := (request (req_ctxs s2 t))\<lparr>view_args := Some args\<rparr>\<rparr>),
                trace := trace s2 @ map (\<lambda>f. Called (uvp_name f)) ?uv\<rparr>"
  have "uvp_args ?uv (request_endpoint (request (req_ctxs s2 t))) (view_args (request (req_ctxs s2 t)))
          = Inr (Some args)"
    using uvps rule by (simp add: s2 request_endpoint_def)
  from call_url_value_preprocessors_ok [OF this]
  have u: "call_url_value_preprocessors ?uv t s2 = (None, s3)" by (simp add: s3_def)
  have s3: "request (req_ctxs s3 t) = ?req\<lparr>view_args := Some args\<rparr>"
    "request_ctx_stack s3 = request_ctx_stack s" "apps s3 app = ?a\<lparr>got_first_request := True\<rparr>"
    "after_request_functions (req_ctxs s3 t) = after_request_functions (req_ctxs s t)"
    "session (req_ctxs s3 t) = session (req_ctxs s t)"
    "trace s3 = trace s @ ?first @ [Signal ''request-started'' app None]
                 @ map (\<lambda>f. Called (uvp_name f)) ?uv"
    by (simp_all add: s3_def s2)
  \<comment> \<open>the \<^verbatim>\<open>before_request\<close> functions\<close>
  define s4 where "s4 = s3\<lparr>trace := trace s3 @ map (\<lambda>f. Called (bf_name f)) ?bf\<rparr>"
  have "list_all (\<lambda>f. bf_outcome f (request (req_ctxs s3 t)) = Inr PNone) ?bf"
    using befores by (simp add: s3)
  from call_before_request_funcs_ok [OF this]
  have b: "call_before_request_funcs ?bf t s3 = (Inr PNone, s4)" by (simp add: s4_def)
  have pre: "preprocess_request app s2 = (Inr PNone, s4)"
    using top u b bp by (simp add: preprocess_request_def s2 s3 Let_def)
  have s4: "request (req_ctxs s4 t) = ?req\<lparr>view_args := Some args\<rparr>"
    "request_ctx_stack s4 = request_ctx_stack s" "apps s4 app = ?a\<lparr>got_first_request := True\<rparr>"
    "after_request_functions (req_ctxs s4 t) = after_request_functions (req_ctxs s t)"
    "session (req_ctxs s4 t) = session (req_ctxs s t)"
    "trace s4 = trace s3 @ map (\<lambda>f. Called (bf_name f)) ?bf"
    by (simp_all add: s4_def s3)
  \<comment> \<open>the view\<close>
  define s5 where "s5 = log_event (Called (vf_name view)) s4"
  have disp: "dispatch_request app s4 = (Inr rv, s5)"
    using top rule matched not_options view returned
    by (auto simp: dispatch_request_def s4 s5_def Let_def)
  have s5: "request (req_ctxs s5 t) = ?req\<lparr>view_args := Some args\<rparr>"
    "request_ctx_stack s5 = request_ctx_stack s" "apps s5 app = ?a\<lparr>got_first_request := True\<rparr>"
    "after_request_functions (req_ctxs s5 t) = after_request_functions (req_ctxs s t)"
    "session (req_ctxs s5 t) = session (req_ctxs s t)"
    "trace s5 = trace s4 @ [Called (vf_name view)]"
    by (simp_all add: s5_def log_event_def s4)
  \<comment> \<open>the \<^verbatim>\<open>after_request\<close> functions\<close>
  define s6 where "s6 = s5\<lparr>trace := trace s5 @ map (\<lambda>f. Called (af_name f)) ?af\<rparr>"
  from call_after_request_funcs_ok [OF afters]
  have af: "call_after_request_funcs ?af response s5 = (Inr response1, s6)" by (simp add: s6_def)
  have bp5: "blueprint (request (req_ctxs s5 t)) = bp"
    by (simp add: s5 bp blueprint_def)
  have proc: "snd (process_response app response s5) = s6"
    using top af bp5 by (simp add: process_response_def s5 Let_def)
  have fin: "filter is_called (trace (snd (finalize_request app rv False s5))) = filter is_called (trace s6)"
    using coerced proc
    by (cases "process_response app response s5")
       (auto simp: finalize_request_def s5 log_event_def is_called_def split: sum.splits)
  have full: "full_dispatch_request app s = finalize_request app rv False s5"
    using t1 pre disp by (simp add: full_dispatch_request_def s2_def Let_def)
  show ?thesis
    by (simp add: full fin s6_def s5 s4 s3 is_called_def)
qed


theorem hook_ordering_witness:
  "filter is_called (trace (snd (full_dispatch_request 0 hooks_state)))
     = [Called ''A'', Called ''B'', Called ''handler'', Called ''D'', Called ''C'']
   \<and> filter is_called (trace (snd (full_dispatch_request 0 admin_state)))
     = [Called ''A'', Called ''B'', Called ''E'', Called ''admin_handler'',
        Called ''G'', Called ''F'', Called ''D'', Called ''C'']"
proof -
  have bp: "None = blueprint (request (req_ctxs hooks_state 5))"
    by (simp add: hooks_state_simps matched_context_simps blueprint_def index_rule_def)
  have resp: "make_response (apps hooks_state 0) (PStr ''Hello'')
                = Inr \<lparr>resp_body = ''Hello'', resp_status = ''200 OK'', resp_status_code = 200,
                       resp_headers = [], resp_mimetype = ''text/html''\<rparr>"
    by (simp add: hooks_state_simps make_response_hello demo_response_new_def with_headers_def header_items_def)
  from hook_ordering [where s = hooks_state and t = 5 and app = 0 and rule = index_rule
        and bp = None and args = "[]" and view = "ViewFunc ''handler'' (\<lambda>_. Inr (PStr ''Hello''))"
        and rv = "PStr ''Hello''", OF _ _ _ _ _ bp _ _ _ _ resp]
  have 1: "filter is_called (trace (snd (full_dispatch_request 0 hooks_state)))
     = [Called ''A'', Called ''B'', Called ''handler'', Called ''D'', Called ''C'']"
    by (simp add: hooks_state_simps matched_context_simps hooks_app_simps registered_def
        registered_for_def index_rule_def demo_request_def)
  have bp': "Some ''admin'' = blueprint (request (req_ctxs admin_state 5))"
    by (simp add: admin_state_simps blueprint_admin)
  have resp': "make_response (apps admin_state 0) (PStr ''Admin'')
                = Inr \<lparr>resp_body = ''Admin'', resp_status = ''200 OK'', resp_status_code = 200,
                       resp_headers = [], resp_mimetype = ''text/html''\<rparr>"
    by (simp add: admin_state_simps make_response_admin demo_response_new_def with_headers_def header_items_def)
  from hook_ordering [where s = admin_state and t = 5 and app = 0 and rule = admin_rule
        and bp = "Some ''admin''" and args = "[]"
        and view = "ViewFunc ''admin_handler'' (\<lambda>_. Inr (PStr ''Admin''))"
        and rv = "PStr ''Admin''", OF _ _ _ _ _ bp' _ _ _ _ resp']
  have 2: "filter is_called (trace (snd (full_dispatch_request 0 admin_state)))
     = [Called ''A'', Called ''B'', Called ''E'', Called ''admin_handler'',
        Called ''G'', Called ''F'', Called ''D'', Called ''C'']"
    by (simp add: admin_state_simps admin_app_simps registered_def
        registered_for_def admin_rule_def demo_request_def)
  from 1 2 show ?thesis by simp
qed

text \<open>
  C5, as the code has it. Let the response coercion succeed. If then an
  \<^verbatim>\<open>after_request\<close> function or the saving of the session raises an \<^verbatim>\<open>Exception\<close>,
  \<^verbatim>\<open>finalize_request\<close> entered with \<^verbatim>\<open>from_error_handler\<close> logs the failure and returns
  the response that \<^verbatim>\<open>make_response\<close> built, and entered without it raises the exception.
  A failure of the response coercion itself is raised in both cases, and nothing is
  logged.
\<close>

theorem finalize_request_failures:
  assumes top: "LocalStack_top (request_ctx_stack s) = Some t"
    and coerced: "make_response (apps s app) rv = Inr response"
    and failed:
      "after_result (after_request_functions (req_ctxs s t) @
           rev (registered_for (after_request_funcs (apps s app))
                  (blueprint (request (req_ctxs s t)))) @
           rev (registered (after_request_funcs (apps s app)) None)) response = Inl e
       \<or> (\<exists>response1.
            after_result (after_request_functions (req_ctxs s t) @
               rev (registered_for (after_request_funcs (apps s app))
                      (blueprint (request (req_ctxs s t)))) @
               rev (registered (after_request_funcs (apps s app)) None)) response = Inr response1
            \<and> session (req_ctxs s t) \<noteq> Some NullSession
            \<and> save_session (apps s app) (session (req_ctxs s t)) response1 = Inl e)"
    and exc: "isinstance e ''Exception''"
    and not_coerced: "make_response (apps s app) rv' = Inl e'"
  shows "fst (finalize_request app rv True s) = Inr response
       \<and> last (trace (snd (finalize_request app rv True s)))
           = Logged ''Request finalizing failed with an error while handling an error''
       \<and> fst (finalize_request app rv False s) = Inl e
       \<and> finalize_request app rv' True s = (Inl e', s)
       \<and> finalize_request app rv' False s = (Inl e', s)"
proof -
  from failed process_response_result [OF top, of app response]
  have "fst (process_response app response s) = Inl e" by auto
  then obtain s1 where "process_response app response s = (Inl e, s1)"
    by (cases "process_response app response s") simp
  with coerced exc not_coerced show ?thesis
    by (simp add: finalize_request_def log_event_def)
qed

theorem finalize_request_failures_witness:
  "fst (finalize_request 0 (PStr ''Oops'') True failing_after_state) =
     Inr \<lparr>resp_body = ''Oops'', resp_status = ''200 OK'', resp_status_code = 200,
          resp_headers = [], resp_mimetype = ''text/html''\<rparr>
   \<and> last (trace (snd (finalize_request 0 (PStr ''Oops'') True failing_after_state)))
       = Logged ''Request finalizing failed with an error while handling an error''
   \<and> fst (finalize_request 0 (PStr ''Oops'') False failing_after_state) = Inl demo_exn
   \<and> finalize_request 0 PNone True failing_after_state =
       (Inl (TypeError none_error_message), failing_after_state)"
proof -
  have a: "make_response (apps failing_after_state 0) (PStr ''Oops'') =
             Inr \<lparr>resp_body = ''Oops'', resp_status = ''200 OK'', resp_status_code = 200,
                  resp_headers = [], resp_mimetype = ''text/html''\<rparr>"
    by (simp add: failing_after_state_simps make_response_failing_after demo_response_new_def with_headers_def header_items_def)
  have b: "isinstance demo_exn ''Exception''"
    by (simp add: demo_exn_def builtin_error_def isinstance_def)
  have c: "make_response (apps failing_after_state 0) PNone = Inl (TypeError none_error_message)"
    by (simp add: failing_after_state_simps make_response_failing_after)
  have d: "after_result (after_request_functions (req_ctxs failing_after_state 5) @
           rev (registered_for (after_request_funcs (apps failing_after_state 0))
                  (blueprint (request (req_ctxs failing_after_state 5)))) @
           rev (registered (after_request_funcs (apps failing_after_state 0)) None))
             \<lparr>resp_body = ''Oops'', resp_status = ''200 OK'', resp_status_code = 200,
              resp_headers = [], resp_mimetype = ''text/html''\<rparr> = Inl demo_exn"
    by (simp add: failing_after_state_simps matched_context_simps blueprint_def index_rule_def
        registered_def registered_for_def failing_after_app_def hooks_app_def demo_app_def)
  from finalize_request_failures [OF failing_after_state_simps(1) a disjI1 [OF d] b c]
  show ?thesis by simp
qed

text \<open>
  C5 as stated fails for the response coercion: entered from the error-handling path
  with a value that cannot be coerced (\<^verbatim>\<open>None\<close>, here also as the return value of a
  handler for the code 500 reached through \<^verbatim>\<open>handle_exception\<close>), \<^verbatim>\<open>finalize_request\<close>
  raises the \<^verbatim>\<open>TypeError\<close> and returns no response.
\<close>

theorem finalize_request_coercion_counterexample:
  "fst (finalize_request 0 PNone True none_handler_state) = Inl (TypeError none_error_message)
   \<and> fst (handle_exception 0 demo_exn none_handler_state) = Inl (TypeError none_error_message)"
  by code_simp

text \<open>
  C2, as the code has it. Let \<^verbatim>\<open>handle_user_exception\<close> handle an \<^verbatim>\<open>Exception\<close> raised
  during a request. An \<^verbatim>\<open>HTTPException\<close> that is not trapped and either has no code or
  is a \<^verbatim>\<open>RoutingException\<close> is returned unchanged, and no handler is invoked for it,
  whatever is registered. For every other exception the handler invoked is the first match
  in this order: the blueprint's handlers for the exact code, the application's handlers
  for the exact code, the blueprint's handlers registered without a code, the
  application's handlers registered without a code, each searched by walking the
  exception's class hierarchy from the most to the least specific class. If none matches,
  no handler is invoked: an untrapped \<^verbatim>\<open>HTTPException\<close> is returned as the response and any
  other exception is raised again.
\<close>

theorem error_handler_precedence:
  assumes handling: "exc_info s = Some e" and exn: "isinstance e ''Exception''"
    and top: "LocalStack_top (request_ctx_stack s) = Some t"
  shows "(let a = apps s app;
              e1 = prepare_bad_request_key_error a e;
              first_match = handler_lookup_order (error_handler_spec a)
                 (blueprint (request (req_ctxs s t)))
                 (if isinstance e ''HTTPException'' then exn_class_code e else None) (exn_mro e);
              untrapped_http = (isinstance e ''HTTPException'' \<and> \<not> trap_http_exception a e1);
              invoked = (if untrapped_http \<and> (exn_code e = None \<or> isinstance e ''RoutingException'')
                         then None else first_match)
          in trace (snd (handle_user_exception app e s))
               = trace s @ (case invoked of None \<Rightarrow> [] | Some h \<Rightarrow> [Called (eh_name h)])
           \<and> fst (handle_user_exception app e s)
               = (case invoked of
                    Some h \<Rightarrow> eh_outcome h e1
                  | None \<Rightarrow> if untrapped_http then Inr (PExn e1) else Inl e1))"
proof -
  let ?a = "apps s app"
  let ?e1 = "prepare_bad_request_key_error ?a e"
  have exn1: "isinstance ?e1 ''Exception''" using exn by simp
  from find_error_handler_eq [OF top exn1, of app] obtain s1 where
    f: "find_error_handler app ?e1 s =
          (Inr (handler_lookup_order (error_handler_spec ?a) (blueprint (request (req_ctxs s t)))
                  (if isinstance e ''HTTPException'' then exn_class_code e else None) (exn_mro e)), s1)"
    and tr: "trace s1 = trace s"
    by auto
  show ?thesis
    using handling f tr
    by (auto simp: handle_user_exception_def handle_http_exception_def call_error_handler_def
        log_event_def Let_def split: option.splits)
qed


theorem error_handler_precedence_witness:
  "trace (snd (handle_user_exception 0 NotFound (handling_state NotFound))) = [Called ''admin_404'']
   \<and> fst (handle_user_exception 0 NotFound (handling_state NotFound)) = Inr (PStr ''admin: not found'')
   \<and> trace (snd (handle_user_exception 0 demo_exn (handling_state demo_exn))) = []
   \<and> fst (handle_user_exception 0 demo_exn (handling_state demo_exn)) = Inl demo_exn"
proof -
  have a: "isinstance NotFound ''Exception''" "isinstance NotFound ''HTTPException''"
    "\<not> isinstance NotFound ''RoutingException''"
    "isinstance demo_exn ''Exception''" "\<not> isinstance demo_exn ''HTTPException''"
    by (simp_all add: NotFound_def demo_exn_def builtin_error_def isinstance_def)
  have b: "handler_lookup_order (error_handler_spec handlers_app) (Some ''admin'') (Some 404)
             (exn_mro NotFound) = Some (ErrorHandler ''admin_404'' (\<lambda>_. Inr (PStr ''admin: not found'')))"
    by (simp add: handlers_app_simps handler_lookup_order_def handlers_in_scope_def
        most_specific_handler_def NotFound_def)
  have c: "handler_lookup_order (error_handler_spec handlers_app) (Some ''admin'') None
             (exn_mro demo_exn) = None"
    by (simp add: handlers_app_simps handler_lookup_order_def handlers_in_scope_def
        most_specific_handler_def demo_exn_def builtin_error_def)
  have d: "exn_class_code NotFound = Some 404" "exn_code NotFound = Some 404"
    by (simp_all add: NotFound_def)
  from error_handler_precedence [OF handling_state_simps(4) a(1) handling_state_simps(1), of 0]
       error_handler_precedence [OF handling_state_simps(4) a(4) handling_state_simps(1), of 0]
  show ?thesis
    by (simp add: Let_def handling_state_simps handlers_app_simps(2,3) blueprint_admin a b c d)
qed

text \<open>
  C2 as stated fails for a routing exception: for a \<^verbatim>\<open>RequestRedirect\<close> raised in a
  request, with a handler for \<^verbatim>\<open>HTTPException\<close> registered on the application, the first
  match in the stated order exists (and \<^verbatim>\<open>_find_error_handler\<close> would find it), but
  \<^verbatim>\<open>handle_user_exception\<close> invokes no handler and returns the exception itself.
\<close>

theorem error_handler_precedence_counterexample:
  "isinstance RequestRedirect ''Exception''
   \<and> map_option eh_name
        (handler_lookup_order (error_handler_spec (apps (handling_state RequestRedirect) 0))
           (blueprint (request (req_ctxs (handling_state RequestRedirect) 5))) (Some 308)
           (exn_mro RequestRedirect)) = Some ''app_http''
   \<and> map_option eh_name (projr (fst (find_error_handler 0 RequestRedirect
        (handling_state RequestRedirect)))) = Some ''app_http''
   \<and> trace (snd (handle_user_exception 0 RequestRedirect (handling_state RequestRedirect))) = []
   \<and> fst (handle_user_exception 0 RequestRedirect (handling_state RequestRedirect))
       = Inr (PExn RequestRedirect)"
  by code_simp

end
